theory Spec2Isabelle
  imports Complex_Main
begin

section \<open>Tensors\<close>

text \<open>
  The tutorial \<^verbatim>\<open>tutorials/custom_acquisition/custom_acquisition.ipynb\<close> defines two
  acquisition functions over torch tensors. A tensor is modelled as its shape together
  with its entries in row-major order.

  Two models of the code are given. In the first one the entries are real numbers: it
  says which formula each method evaluates, and rounding, overflow and dtype are outside
  it. The one floating point value that is kept there is NaN, which torch produces for the
  square root of a negative number and for the mean over an empty dimension: a tensor that
  may hold NaN has entries of type \<open>real option\<close>, with \<open>None\<close> for NaN. The second model,
  from the section on floating-point numbers on, has the values of IEEE 754 arithmetic, a
  rounding after every operation, overflow, and the dtype of every tensor; what is said
  about NaN, about stored values and about the order of computed scores is said there.
\<close>

record 'a tensor =
  shape :: "nat list"
  data :: "'a list"

text \<open>The representation invariant: as many entries as the shape announces.\<close>

definition well_formed :: "'a tensor \<Rightarrow> bool" where
  "well_formed t \<longleftrightarrow> length (data t) = prod_list (shape t)"

text \<open>
  Every raise of the Python code and of the torch operations it calls is a value.
  \<^item> \<open>BatchModeError\<close>: raised by the decorator \<^verbatim>\<open>t_batch_mode_transform\<close>;
  \<^item> \<open>PosteriorError\<close>: raised by the model while it builds the posterior;
  \<^item> \<open>ShapeError\<close>: torch's RuntimeError for operands whose shapes do not fit;
  \<^item> \<open>DimError\<close>: torch's IndexError for a dimension that does not exist or is empty;
  \<^item> \<open>ScalarConversionError\<close>: \<^verbatim>\<open>float(t)\<close> on a tensor that has not exactly one entry;
  \<^item> \<open>MathDomainError\<close>: \<^verbatim>\<open>ValueError: math domain error\<close> of \<^verbatim>\<open>math.sqrt\<close>.
\<close>

datatype error =
  BatchModeError | PosteriorError | ShapeError | DimError
  | ScalarConversionError | MathDomainError

definition bind_err :: "error + 'a \<Rightarrow> ('a \<Rightarrow> error + 'b) \<Rightarrow> error + 'b" where
  "bind_err r f = (case r of Inl e \<Rightarrow> Inl e | Inr x \<Rightarrow> f x)"

text \<open>\<open>rows c l xs\<close> cuts the first \<open>c\<close> consecutive blocks of length \<open>l\<close> out of \<open>xs\<close>.\<close>

definition rows :: "nat \<Rightarrow> nat \<Rightarrow> 'a list \<Rightarrow> 'a list list" where
  "rows c l xs = map (\<lambda>i. take l (drop (i * l) xs)) [0..<c]"

definition dot :: "real list \<Rightarrow> real list \<Rightarrow> real" where
  "dot xs ys = sum_list (map2 (*) xs ys)"

text \<open>
  \<^verbatim>\<open>t.matmul(w)\<close> for a one-dimensional \<open>w\<close>: the last dimension of \<open>t\<close> is contracted
  with \<open>w\<close>. torch refuses a zero-dimensional \<open>t\<close> and a last dimension that differs
  from the length of \<open>w\<close>.
\<close>

definition matmul :: "real tensor \<Rightarrow> real list \<Rightarrow> error + real tensor" where
  "matmul t w =
     (if shape t = [] then Inl ShapeError
      else if last (shape t) \<noteq> length w then Inl ShapeError
      else Inr \<lparr>shape = butlast (shape t),
                data = map (\<lambda>r. dot r w)
                         (rows (prod_list (butlast (shape t))) (length w) (data t))\<rparr>)"

text \<open>
  Broadcasting. Shapes are aligned at their last dimension; two sizes fit when they are
  equal or one of them is 1. \<open>broadcast_rev\<close> works on the reversed shapes.
\<close>

fun broadcast_rev :: "nat list \<Rightarrow> nat list \<Rightarrow> nat list option" where
  "broadcast_rev [] ys = Some ys"
| "broadcast_rev xs [] = Some xs"
| "broadcast_rev (x # xs) (y # ys) =
     (if x = y \<or> y = 1 then map_option ((#) x) (broadcast_rev xs ys)
      else if x = 1 then map_option ((#) y) (broadcast_rev xs ys)
      else None)"

definition broadcast_shapes :: "nat list \<Rightarrow> nat list \<Rightarrow> nat list option" where
  "broadcast_shapes a b = map_option rev (broadcast_rev (rev a) (rev b))"

text \<open>
  \<open>expand_aligned tgt src xs\<close>: the entries \<open>xs\<close> of a tensor of shape \<open>src\<close> laid out
  for the shape \<open>tgt\<close> of the same length; a dimension of size 1 is repeated.
\<close>

fun expand_aligned :: "nat list \<Rightarrow> nat list \<Rightarrow> 'a list \<Rightarrow> 'a list" where
  "expand_aligned (t # ts) (s # ss) xs =
     (if s = t then concat (map (expand_aligned ts ss) (rows s (prod_list ss) xs))
      else concat (replicate t (expand_aligned ts ss xs)))"
| "expand_aligned ts ss xs = xs"

definition pad_shape :: "nat list \<Rightarrow> nat list \<Rightarrow> nat list" where
  "pad_shape tgt src = replicate (length tgt - length src) 1 @ src"

definition expandable :: "nat list \<Rightarrow> nat list \<Rightarrow> bool" where
  "expandable src tgt \<longleftrightarrow>
     length src \<le> length tgt \<and>
     list_all2 (\<lambda>s t. s = t \<or> s = 1) src (drop (length tgt - length src) tgt)"

text \<open>\<^verbatim>\<open>t.expand(tgt)\<close> and \<^verbatim>\<open>t.expand_as(u)\<close> (with \<open>tgt\<close> the shape of \<open>u\<close>).\<close>

definition expand :: "'a tensor \<Rightarrow> nat list \<Rightarrow> error + 'a tensor" where
  "expand t tgt =
     (if expandable (shape t) tgt
      then Inr \<lparr>shape = tgt, data = expand_aligned tgt (pad_shape tgt (shape t)) (data t)\<rparr>
      else Inl ShapeError)"

text \<open>An elementwise binary operation \<^verbatim>\<open>a + b\<close>, \<^verbatim>\<open>a - b\<close>, \<^verbatim>\<open>a * b\<close> with broadcasting.\<close>

definition broadcast_op ::
  "('a \<Rightarrow> 'b \<Rightarrow> 'c) \<Rightarrow> 'a tensor \<Rightarrow> 'b tensor \<Rightarrow> error + 'c tensor" where
  "broadcast_op f a b =
     (case broadcast_shapes (shape a) (shape b) of
        None \<Rightarrow> Inl ShapeError
      | Some s \<Rightarrow>
          Inr \<lparr>shape = s,
               data = map2 f (expand_aligned s (pad_shape s (shape a)) (data a))
                             (expand_aligned s (pad_shape s (shape b)) (data b))\<rparr>)"

text \<open>An elementwise unary operation (\<^verbatim>\<open>t.abs()\<close>, \<^verbatim>\<open>c * t\<close> for a Python float \<open>c\<close>).\<close>

definition map_tensor :: "('a \<Rightarrow> 'b) \<Rightarrow> 'a tensor \<Rightarrow> 'b tensor" where
  "map_tensor f t = \<lparr>shape = shape t, data = map f (data t)\<rparr>"

definition maximum :: "real list \<Rightarrow> real" where
  "maximum xs = fold max (tl xs) (hd xs)"

text \<open>
  \<^verbatim>\<open>t.max(dim=-1)[0]\<close>: the largest entry along the last dimension. torch raises when that
  dimension is empty; a zero-dimensional tensor is returned as it is.
\<close>

definition max_last :: "real tensor \<Rightarrow> error + real tensor" where
  "max_last t =
     (if shape t = [] then Inr t
      else if last (shape t) = 0 then Inl DimError
      else Inr \<lparr>shape = butlast (shape t),
                data = map maximum
                         (rows (prod_list (butlast (shape t))) (last (shape t)) (data t))\<rparr>)"

text \<open>
  \<^verbatim>\<open>t.mean(dim=0)\<close>: the average along the first dimension; over an empty first dimension
  every entry is NaN.
\<close>

definition mean_dim0 :: "real tensor \<Rightarrow> real option tensor" where
  "mean_dim0 t =
     (case shape t of
        [] \<Rightarrow> map_tensor Some t
      | n # s \<Rightarrow>
          \<lparr>shape = s,
           data = map (\<lambda>i. if n = 0 then None
                            else Some (sum_list (map (\<lambda>k. data t ! (k * prod_list s + i)) [0..<n])
                                       / real n))
                      [0..<prod_list s]\<rparr>)"

text \<open>The mean of floating-point values: NaN when a value is NaN or there is none.\<close>

definition nan_mean :: "real option list \<Rightarrow> real option" where
  "nan_mean xs =
     (if xs = [] \<or> None \<in> set xs then None
      else Some (sum_list (map the xs) / real (length xs)))"

text \<open>\<^verbatim>\<open>t.mean(dim=-1)\<close> on a tensor that may hold NaN.\<close>

definition mean_last :: "real option tensor \<Rightarrow> real option tensor" where
  "mean_last t =
     (if shape t = [] then t
      else \<lparr>shape = butlast (shape t),
            data = map nan_mean
                     (rows (prod_list (butlast (shape t))) (last (shape t)) (data t))\<rparr>)"

text \<open>\<^verbatim>\<open>float(t)\<close>, which \<^verbatim>\<open>math.sqrt\<close> applies to a tensor argument.\<close>

definition item :: "real tensor \<Rightarrow> error + real" where
  "item t = (case data t of [x] \<Rightarrow> Inr x | _ \<Rightarrow> Inl ScalarConversionError)"

definition math_sqrt :: "real \<Rightarrow> error + real" where
  "math_sqrt x = (if x < 0 then Inl MathDomainError else Inr (sqrt x))"

text \<open>torch's \<^verbatim>\<open>sqrt\<close> of one entry: NaN below zero.\<close>

definition torch_sqrt :: "real \<Rightarrow> real option" where
  "torch_sqrt x = (if x < 0 then None else Some (sqrt x))"

text \<open>\<^verbatim>\<open>t.squeeze(dim=-2)\<close>: drops the dimension before the last one when its size is 1.\<close>

definition squeeze_m2 :: "'a tensor \<Rightarrow> error + 'a tensor" where
  "squeeze_m2 t =
     (let s = shape t; k = length s in
      if k < 2 then Inl DimError
      else if s ! (k - 2) = 1 then Inr (t\<lparr>shape := take (k - 2) s @ [last s]\<rparr>)
      else Inr t)"

text \<open>\<^verbatim>\<open>t.view(s)\<close>: the same entries under another shape with as many entries.\<close>

definition view :: "'a tensor \<Rightarrow> nat list \<Rightarrow> error + 'a tensor" where
  "view t s = (if prod_list s = prod_list (shape t) then Inr (t\<lparr>shape := s\<rparr>) else Inl ShapeError)"

text \<open>\<^verbatim>\<open>t.permute(0, 2, 1)\<close>: only for three dimensions; the last two are swapped.\<close>

definition permute_021 :: "'a tensor \<Rightarrow> error + 'a tensor" where
  "permute_021 t =
     (if length (shape t) \<noteq> 3 then Inl ShapeError
      else let a = shape t ! 0; m = shape t ! 1; n = shape t ! 2 in
        Inr \<lparr>shape = [a, n, m],
             data = concat (map (\<lambda>i. concat (map (\<lambda>c. map (\<lambda>r. data t ! (i * m * n + r * n + c))
                                                          [0..<m]) [0..<n])) [0..<a])\<rparr>)"

text \<open>\<^verbatim>\<open>torch.bmm(A, B)\<close>: the matrix product per batch of two three-dimensional tensors.\<close>

definition bmm :: "real tensor \<Rightarrow> real tensor \<Rightarrow> error + real tensor" where
  "bmm A B =
     (if length (shape A) \<noteq> 3 \<or> length (shape B) \<noteq> 3 then Inl ShapeError
      else let b = shape A ! 0; n = shape A ! 1; m = shape A ! 2; p = shape B ! 2 in
        if shape B ! 0 \<noteq> b \<or> shape B ! 1 \<noteq> m then Inl ShapeError
        else Inr \<lparr>shape = [b, n, p],
                  data = concat (map (\<lambda>i. concat (map (\<lambda>r. map (\<lambda>c.
                           sum_list (map (\<lambda>k. data A ! (i * n * m + r * m + k)
                                               * data B ! (i * m * p + k * p + c)) [0..<m]))
                           [0..<p]) [0..<n])) [0..<b])\<rparr>)"

text \<open>\<^verbatim>\<open>X.unsqueeze(0)\<close>.\<close>

definition unsqueeze0 :: "'a tensor \<Rightarrow> 'a tensor" where
  "unsqueeze0 t = t\<lparr>shape := 1 # shape t\<rparr>"

text \<open>
  \<^verbatim>\<open>t.to(X)\<close> gives \<open>t\<close> the dtype and the device of \<open>X\<close>. A tensor of real numbers has
  no dtype and there is nothing to convert: shape and entries stay. What the conversion does
  to floating-point values is \<open>to_fp\<close> in the second model.
\<close>

definition to :: "'a tensor \<Rightarrow> 'b tensor \<Rightarrow> 'a tensor" where
  "to t X = t"

section \<open>The objects of the library\<close>

text \<open>
  The posterior is built by the modelling library. The acquisition functions read its
  mean (\<^verbatim>\<open>posterior.mean\<close>, of shape \<open>b x q x o\<close>) and the covariance matrix of its
  multivariate normal (\<^verbatim>\<open>posterior.mvn.covariance_matrix\<close>, of shape \<open>b x o x o\<close> for
  \<open>q = 1\<close>).
\<close>

record posterior =
  mean :: "real tensor"
  covariance_matrix :: "real tensor"

text \<open>
  A model is what the acquisition functions use of it: \<^verbatim>\<open>model.posterior(X)\<close>, which
  may raise (\<open>None\<close>), and whether it is an ensemble of models.
\<close>

record model =
  posterior :: "real tensor \<Rightarrow> posterior option"
  is_ensemble :: bool

text \<open>
  A sampler has a sample shape and produces the draws for a posterior. The draws
  themselves come from the library and are a parameter here.
\<close>

record sampler =
  sampler_class :: string
  sample_shape :: "nat list"
  draws :: "posterior \<Rightarrow> real list"

text \<open>
  \<^verbatim>\<open>SobolQMCNormalSampler(sample_shape=...)\<close>; \<open>sobol\<close> stands for the quasi-random normal
  draws that the library generates for a sample shape.
\<close>

definition SobolQMCNormalSampler ::
  "(nat list \<Rightarrow> posterior \<Rightarrow> real list) \<Rightarrow> nat list \<Rightarrow> sampler" where
  "SobolQMCNormalSampler sobol ss =
     \<lparr>sampler_class = ''SobolQMCNormalSampler'', sample_shape = ss, draws = sobol ss\<rparr>"

text \<open>
  The attributes of the two classes. Both constructors call the constructor of
  \<^verbatim>\<open>AcquisitionFunction\<close>, which stores the model, and register \<open>beta\<close> and \<open>weights\<close>.
  The weights are a vector: one weight per output of the model.
\<close>

record acquisition_function =
  model :: model

record scalarized = acquisition_function +
  beta :: "real tensor"
  weights :: "real list"

record qScalarizedUpperConfidenceBound = scalarized +
  sampler :: sampler

record ScalarizedUpperConfidenceBound = scalarized +
  maximize :: bool

text \<open>A call of \<^verbatim>\<open>forward\<close> returns a tensor or raises, and leaves the object behind.\<close>

type_synonym 's call = "(error + real option tensor) \<times> 's"

text \<open>
  Modelled from the spec: the decorator \<^verbatim>\<open>t_batch_mode_transform\<close> of \<^verbatim>\<open>botorch.utils\<close>
  is not among the sources. The tutorial says that it \<^emph>\<open>ensures that the input X has an
  explicit t-batch dimension\<close> and that \<^verbatim>\<open>expected_q=1\<close> is there \<^emph>\<open>to ensure the input X
  has a q=1\<close>: an input without a \<open>q\<close> and a \<open>d\<close> dimension, or with another \<open>q\<close> than the
  expected one, is refused; an input \<open>q x d\<close> gets a first dimension of size 1.
\<close>

definition add_t_batch_dim :: "'a tensor \<Rightarrow> 'a tensor" where
  "add_t_batch_dim X = (if length (shape X) = 2 then unsqueeze0 X else X)"

definition t_batch_mode_transform ::
  "nat option \<Rightarrow> ('s \<Rightarrow> real tensor \<Rightarrow> 's call) \<Rightarrow> 's \<Rightarrow> real tensor \<Rightarrow> 's call" where
  "t_batch_mode_transform expected_q method acqf X =
     (if length (shape X) < 2 then (Inl BatchModeError, acqf)
      else if expected_q \<noteq> None \<and> expected_q \<noteq> Some (shape X ! (length (shape X) - 2))
        then (Inl BatchModeError, acqf)
      else method acqf (add_t_batch_dim X))"

text \<open>
  Modelled from the spec: the decorator \<^verbatim>\<open>average_over_ensemble_models\<close> of
  \<^verbatim>\<open>botorch.utils\<close> is not among the sources. The tutorial says that it \<^emph>\<open>averages the
  acquisition values of ensemble models over elements of the ensemble\<close>: for an ensemble
  the values are averaged over their last dimension, for any other model they are
  returned as they are.
\<close>

definition average_over_ensemble_models ::
  "('a acquisition_function_scheme \<Rightarrow> real tensor \<Rightarrow> 'a acquisition_function_scheme call)
   \<Rightarrow> 'a acquisition_function_scheme \<Rightarrow> real tensor \<Rightarrow> 'a acquisition_function_scheme call" where
  "average_over_ensemble_models method acqf X =
     (case method acqf X of
        (Inl e, acqf') \<Rightarrow> (Inl e, acqf')
      | (Inr output, acqf') \<Rightarrow>
          (Inr (if is_ensemble (model acqf') then mean_last output else output), acqf'))"

text \<open>
  Modelled from the spec: \<^verbatim>\<open>get_posterior_samples\<close> is inherited from
  \<^verbatim>\<open>MCAcquisitionFunction\<close>, which is not among the sources. It applies the sampler of the
  acquisition function to the posterior; \<^emph>\<open>a sampler object determines how many posterior
  draws are generated\<close>, and the code notes the shape \<open>n x b x q x o\<close> of the result: the
  sample shape in front of the shape of the posterior.
\<close>

definition get_posterior_samples ::
  "qScalarizedUpperConfidenceBound \<Rightarrow> posterior \<Rightarrow> real tensor" where
  "get_posterior_samples acqf post =
     \<lparr>shape = sample_shape (sampler acqf) @ shape (mean post),
      data = draws (sampler acqf) post\<rparr>"

section \<open>qScalarizedUpperConfidenceBound\<close>

text \<open>
  \<^verbatim>\<open>__init__(self, model, beta, weights, sampler=None)\<close>. \<^verbatim>\<open>torch.as_tensor\<close> leaves the
  entries of \<open>beta\<close> and \<open>weights\<close> as they are.
\<close>

definition qScalarizedUpperConfidenceBound_init ::
  "(nat list \<Rightarrow> posterior \<Rightarrow> real list) \<Rightarrow> model \<Rightarrow> real tensor \<Rightarrow> real list
   \<Rightarrow> sampler option \<Rightarrow> qScalarizedUpperConfidenceBound" where
  "qScalarizedUpperConfidenceBound_init sobol m b w sampler_arg =
     \<lparr>model = m, beta = b, weights = w,
      sampler = (case sampler_arg of
                   None \<Rightarrow> SobolQMCNormalSampler sobol [512]
                 | Some s \<Rightarrow> s)\<rparr>"

text \<open>
  The body of \<^verbatim>\<open>forward\<close>, statement by statement. In the last expression Python
  evaluates \<^verbatim>\<open>math.sqrt(self.beta * math.pi / 2)\<close> before the difference of the
  scalarized samples and the scalarized mean. No attribute is assigned.
\<close>

definition qScalarizedUpperConfidenceBound_forward_body ::
  "qScalarizedUpperConfidenceBound \<Rightarrow> real tensor \<Rightarrow> qScalarizedUpperConfidenceBound call" where
  "qScalarizedUpperConfidenceBound_forward_body acqf X =
     (case posterior (model acqf) X of
        None \<Rightarrow> Inl PosteriorError
      | Some post \<Rightarrow>
          let samples = get_posterior_samples acqf post in
          bind_err (matmul samples (weights acqf)) (\<lambda>scalarized_samples.
          bind_err (matmul (mean post) (weights acqf)) (\<lambda>scalarized_mean.
          bind_err (item (map_tensor (\<lambda>b. b * pi / 2) (beta acqf))) (\<lambda>r.
          bind_err (math_sqrt r) (\<lambda>c.
          bind_err (broadcast_op (-) scalarized_samples scalarized_mean) (\<lambda>dev.
          bind_err (broadcast_op (+) scalarized_mean
                      (map_tensor ((*) c) (map_tensor abs dev))) (\<lambda>ucb_samples.
          bind_err (max_last ucb_samples) (\<lambda>best.
          Inr (mean_dim0 best)))))))),
      acqf)"

definition qScalarizedUpperConfidenceBound_forward ::
  "qScalarizedUpperConfidenceBound \<Rightarrow> real tensor \<Rightarrow> qScalarizedUpperConfidenceBound call" where
  "qScalarizedUpperConfidenceBound_forward =
     t_batch_mode_transform None
       (average_over_ensemble_models qScalarizedUpperConfidenceBound_forward_body)"

section \<open>ScalarizedUpperConfidenceBound\<close>

definition ScalarizedUpperConfidenceBound_init ::
  "model \<Rightarrow> real tensor \<Rightarrow> real list \<Rightarrow> bool \<Rightarrow> ScalarizedUpperConfidenceBound" where
  "ScalarizedUpperConfidenceBound_init m b w mx =
     \<lparr>model = m, beta = b, weights = w, maximize = mx\<rparr>"

text \<open>
  The sum or difference of the scalarized mean and \<open>delta\<close>, which may hold NaN.
\<close>

definition nan_add :: "real \<Rightarrow> real option \<Rightarrow> real option" where
  "nan_add m d = map_option (\<lambda>x. m + x) d"

definition nan_sub :: "real \<Rightarrow> real option \<Rightarrow> real option" where
  "nan_sub m d = map_option (\<lambda>x. m - x) d"

text \<open>
  The body of \<^verbatim>\<open>forward\<close>, statement by statement. The first statement assigns
  \<^verbatim>\<open>self.beta\<close>; the object it leaves behind is returned also when a later statement
  raises.
\<close>

definition ScalarizedUpperConfidenceBound_forward_body ::
  "ScalarizedUpperConfidenceBound \<Rightarrow> real tensor \<Rightarrow> ScalarizedUpperConfidenceBound call" where
  "ScalarizedUpperConfidenceBound_forward_body self X =
     (let acqf = self\<lparr>beta := to (beta self) X\<rparr>;
          batch_shape = take (length (shape X) - 2) (shape X)
      in
      (case posterior (model acqf) X of
         None \<Rightarrow> Inl PosteriorError
       | Some post \<Rightarrow>
           bind_err (squeeze_m2 (mean post)) (\<lambda>means.
           bind_err (matmul means (weights acqf)) (\<lambda>scalarized_mean.
           let covs = covariance_matrix post;
               weights1 = \<lparr>shape = [1, length (weights acqf), 1], data = weights acqf\<rparr>
           in
           bind_err (expand weights1 (batch_shape @ tl (shape weights1))) (\<lambda>weights2.
           bind_err (permute_021 weights2) (\<lambda>weights_transpose.
           bind_err (bmm covs weights2) (\<lambda>cw.
           bind_err (bmm weights_transpose cw) (\<lambda>wcw.
           bind_err (view wcw batch_shape) (\<lambda>scalarized_variance.
           bind_err (expand (beta acqf) (shape scalarized_mean)) (\<lambda>beta_e.
           bind_err (broadcast_op (*) beta_e scalarized_variance) (\<lambda>radicand.
           let delta = map_tensor torch_sqrt radicand in
           if maximize acqf then broadcast_op nan_add scalarized_mean delta
           else broadcast_op nan_sub scalarized_mean delta))))))))),
       acqf))"

definition ScalarizedUpperConfidenceBound_forward ::
  "ScalarizedUpperConfidenceBound \<Rightarrow> real tensor \<Rightarrow> ScalarizedUpperConfidenceBound call" where
  "ScalarizedUpperConfidenceBound_forward =
     t_batch_mode_transform (Some 1)
       (average_over_ensemble_models ScalarizedUpperConfidenceBound_forward_body)"

section \<open>What the specification says\<close>

text \<open>
  The outputs at position \<open>p\<close> of a tensor whose last dimension holds the \<open>m\<close> outputs
  of the model. Positions count the leading dimensions in row-major order: sample \<open>k\<close>,
  t-batch \<open>i\<close> and candidate \<open>j\<close> of \<open>n x B x q x m\<close> samples are at position
  \<open>(k * B + i) * q + j\<close>, t-batch \<open>i\<close> and candidate \<open>j\<close> of a \<open>B x q x m\<close> mean at
  \<open>i * q + j\<close>.
\<close>

definition outputs_at :: "real tensor \<Rightarrow> nat \<Rightarrow> nat \<Rightarrow> real list" where
  "outputs_at t m p = take m (drop (p * m) (data t))"

text \<open>The linear combination of the outputs \<open>y\<close> with the weight vector \<open>w\<close>.\<close>

definition scalarize :: "real list \<Rightarrow> real list \<Rightarrow> real" where
  "scalarize w y = (\<Sum>l\<leftarrow>[0..<length w]. w ! l * y ! l)"

text \<open>
  The Monte Carlo score of t-batch \<open>i\<close>: per sample and candidate, the scalarized mean
  plus \<open>sqrt (beta * pi / 2)\<close> times the absolute deviation of the scalarized sample from
  the scalarized mean; the maximum over the \<open>q\<close> candidates; the average over the \<open>n\<close>
  samples.
\<close>

definition ucb_sample :: "real list \<Rightarrow> real \<Rightarrow> real list \<Rightarrow> real list \<Rightarrow> real" where
  "ucb_sample w b y mu =
     scalarize w mu + sqrt (b * pi / 2) * \<bar>scalarize w y - scalarize w mu\<bar>"

definition scalarized_mc_ucb ::
  "real list \<Rightarrow> real \<Rightarrow> nat \<Rightarrow> nat \<Rightarrow> nat \<Rightarrow> real tensor \<Rightarrow> real tensor \<Rightarrow> nat \<Rightarrow> real" where
  "scalarized_mc_ucb w b n B q samples mu i =
     (\<Sum>k\<leftarrow>[0..<n].
        Max (set (map (\<lambda>j. ucb_sample w b
                             (outputs_at samples (length w) ((k * B + i) * q + j))
                             (outputs_at mu (length w) (i * q + j)))
                      [0..<q])))
     / real n"

text \<open>
  The covariance of the outputs \<open>r\<close> and \<open>c\<close> in t-batch \<open>i\<close> of a \<open>b x m x m\<close> tensor of
  covariance matrices, the quadratic form \<open>w\<^sup>T C w\<close>, and positive semidefiniteness.
\<close>

definition cov_entry :: "real tensor \<Rightarrow> nat \<Rightarrow> nat \<Rightarrow> nat \<Rightarrow> nat \<Rightarrow> real" where
  "cov_entry covs m i r c = data covs ! (i * m * m + r * m + c)"

definition quadratic_form :: "real list \<Rightarrow> (nat \<Rightarrow> nat \<Rightarrow> real) \<Rightarrow> real" where
  "quadratic_form w C = (\<Sum>r\<leftarrow>[0..<length w]. \<Sum>c\<leftarrow>[0..<length w]. w ! r * C r c * w ! c)"

definition positive_semidefinite :: "nat \<Rightarrow> (nat \<Rightarrow> nat \<Rightarrow> real) \<Rightarrow> bool" where
  "positive_semidefinite m C \<longleftrightarrow> (\<forall>v. length v = m \<longrightarrow> 0 \<le> quadratic_form v C)"

text \<open>
  The exploration coefficient of t-batch \<open>i\<close>: \<open>beta\<close> itself when it is a scalar, its
  entry \<open>i\<close> when it has one entry per t-batch.
\<close>

definition beta_at :: "real tensor \<Rightarrow> nat \<Rightarrow> real" where
  "beta_at b i = (if length (data b) = 1 then hd (data b) else data b ! i)"

text \<open>
  The analytic score: the scalarized mean plus or minus the square root of \<open>beta\<close> times
  the scalarized variance; NaN where that product is negative.
\<close>

definition scalarized_ucb ::
  "bool \<Rightarrow> real list \<Rightarrow> real \<Rightarrow> real list \<Rightarrow> (nat \<Rightarrow> nat \<Rightarrow> real) \<Rightarrow> real option" where
  "scalarized_ucb mx w b mu C =
     (if b * quadratic_form w C < 0 then None
      else if mx then Some (scalarize w mu + sqrt (b * quadratic_form w C))
      else Some (scalarize w mu - sqrt (b * quadratic_form w C)))"

text \<open>
  What the library promises for a call of the Monte Carlo acquisition function on \<open>X\<close>
  with t-batch shape \<open>bs\<close>, \<open>q\<close> candidates of dimension \<open>d\<close>, a model with \<open>m\<close> outputs that
  is not an ensemble, and \<open>n\<close> samples: the posterior \<open>post\<close> has a mean of shape
  \<open>bs x q x m\<close>, the samples have shape \<open>n x bs x q x m\<close>, and there is one weight per output.
\<close>

definition mc_setting ::
  "qScalarizedUpperConfidenceBound \<Rightarrow> real tensor \<Rightarrow> nat list \<Rightarrow> nat \<Rightarrow> nat \<Rightarrow> nat \<Rightarrow> nat
   \<Rightarrow> posterior \<Rightarrow> bool" where
  "mc_setting acqf X bs q d m n post \<longleftrightarrow>
     shape (add_t_batch_dim X) = bs @ [q, d] \<and> 0 < q \<and>
     \<not> is_ensemble (model acqf) \<and>
     posterior (model acqf) (add_t_batch_dim X) = Some post \<and>
     shape (mean post) = bs @ [q, m] \<and> well_formed (mean post) \<and>
     sample_shape (sampler acqf) = [n] \<and> well_formed (get_posterior_samples acqf post) \<and>
     length (weights acqf) = m"

text \<open>
  The same for the analytic acquisition function on \<open>b\<close> t-batches of one candidate: a mean
  of shape \<open>b x 1 x m\<close>, covariance matrices of shape \<open>b x m x m\<close>, and a \<open>beta\<close> that is a
  scalar or has one entry per t-batch.
\<close>

definition analytic_setting ::
  "ScalarizedUpperConfidenceBound \<Rightarrow> real tensor \<Rightarrow> nat \<Rightarrow> nat \<Rightarrow> nat \<Rightarrow> posterior \<Rightarrow> bool" where
  "analytic_setting acqf X b d m post \<longleftrightarrow>
     shape (add_t_batch_dim X) = [b, 1, d] \<and>
     \<not> is_ensemble (model acqf) \<and>
     posterior (model acqf) (add_t_batch_dim X) = Some post \<and>
     shape (mean post) = [b, 1, m] \<and> well_formed (mean post) \<and>
     shape (covariance_matrix post) = [b, m, m] \<and> well_formed (covariance_matrix post) \<and>
     length (weights acqf) = m \<and>
     well_formed (beta acqf) \<and>
     (shape (beta acqf) = [] \<or> shape (beta acqf) = [1] \<or> shape (beta acqf) = [b])"


section \<open>Floating-point numbers\<close>

text \<open>
  torch computes in IEEE 754 binary floating point. Its default dtype is \<^verbatim>\<open>torch.float32\<close>;
  the tutorial sets the default to \<^verbatim>\<open>torch.double\<close>, which is \<^verbatim>\<open>torch.float64\<close>. A value is
  a finite real number, one of the two infinities, or NaN. The sign of zero is not
  represented: \<open>-0\<close> and \<open>+0\<close> are the one value \<open>Finite 0\<close>.
\<close>

datatype dtype = Float32 | Float64

datatype fl = Finite real | PInf | NInf | NaN

text \<open>
  The formats: the number of bits of the significand, the exponent of the smallest
  positive (subnormal) number, and the largest finite number.
\<close>

definition precision :: "dtype \<Rightarrow> nat" where
  "precision d = (case d of Float32 \<Rightarrow> 24 | Float64 \<Rightarrow> 53)"

definition emin :: "dtype \<Rightarrow> int" where
  "emin d = (case d of Float32 \<Rightarrow> - 149 | Float64 \<Rightarrow> - 1074)"

definition max_finite :: "dtype \<Rightarrow> real" where
  "max_finite d = (case d of Float32 \<Rightarrow> (2 ^ 24 - 1) * 2 ^ 104 | Float64 \<Rightarrow> (2 ^ 53 - 1) * 2 ^ 971)"

text \<open>Rounding to the nearest integer, a tie to the even one.\<close>

definition round_even :: "real \<Rightarrow> int" where
  "round_even y =
     (let f = \<lfloor>y\<rfloor> in
      if y - of_int f < 1 / 2 then f
      else if 1 / 2 < y - of_int f then f + 1
      else if even f then f else f + 1)"

text \<open>
  The numbers of a format around \<open>x\<close> are the multiples of \<open>2 ^ e\<close>, where \<open>e\<close> is
  the exponent of the leading bit of \<open>x\<close> minus \<open>precision - 1\<close>, and \<open>emin\<close> for a
  subnormal \<open>x\<close>. \<open>round_real\<close> is the rounding of the default mode (to nearest, ties to
  even) with an unbounded exponent; \<open>round_fl\<close> lets it overflow to an infinity beyond the
  largest finite number.
\<close>

definition ulp_exponent :: "dtype \<Rightarrow> real \<Rightarrow> int" where
  "ulp_exponent d x = max (\<lfloor>log 2 \<bar>x\<bar>\<rfloor> - (int (precision d) - 1)) (emin d)"

definition round_real :: "dtype \<Rightarrow> real \<Rightarrow> real" where
  "round_real d x =
     of_int (round_even (x / 2 powr of_int (ulp_exponent d x))) * 2 powr of_int (ulp_exponent d x)"

definition round_fl :: "dtype \<Rightarrow> real \<Rightarrow> fl" where
  "round_fl d x =
     (let y = round_real d x in
      if max_finite d < y then PInf else if y < - max_finite d then NInf else Finite y)"

text \<open>
  The operations on values: the exact result of finite operands is rounded to the dtype;
  NaN propagates; \<open>inf - inf\<close>, \<open>0 * inf\<close>, \<open>0 / 0\<close>, \<open>inf / inf\<close> and the square root of a
  negative number are NaN. A zero divisor counts as \<open>+0\<close>.
\<close>

fun is_finite :: "fl \<Rightarrow> bool" where
  "is_finite (Finite x) = True"
| "is_finite v = False"

fun fl_neg :: "fl \<Rightarrow> fl" where
  "fl_neg (Finite x) = Finite (- x)"
| "fl_neg PInf = NInf"
| "fl_neg NInf = PInf"
| "fl_neg NaN = NaN"

fun fl_add :: "dtype \<Rightarrow> fl \<Rightarrow> fl \<Rightarrow> fl" where
  "fl_add d (Finite x) (Finite y) = round_fl d (x + y)"
| "fl_add d NaN b = NaN"
| "fl_add d a NaN = NaN"
| "fl_add d PInf NInf = NaN"
| "fl_add d NInf PInf = NaN"
| "fl_add d PInf b = PInf"
| "fl_add d NInf b = NInf"
| "fl_add d (Finite x) b = b"

definition fl_sub :: "dtype \<Rightarrow> fl \<Rightarrow> fl \<Rightarrow> fl" where
  "fl_sub d a b = fl_add d a (fl_neg b)"

fun fl_mul :: "dtype \<Rightarrow> fl \<Rightarrow> fl \<Rightarrow> fl" where
  "fl_mul d (Finite x) (Finite y) = round_fl d (x * y)"
| "fl_mul d NaN b = NaN"
| "fl_mul d a NaN = NaN"
| "fl_mul d (Finite x) b = (if x = 0 then NaN else if 0 < x then b else fl_neg b)"
| "fl_mul d a (Finite y) = (if y = 0 then NaN else if 0 < y then a else fl_neg a)"
| "fl_mul d PInf b = b"
| "fl_mul d NInf b = fl_neg b"

fun fl_div :: "dtype \<Rightarrow> fl \<Rightarrow> fl \<Rightarrow> fl" where
  "fl_div d (Finite x) (Finite y) =
     (if y = 0 then (if x = 0 then NaN else if 0 < x then PInf else NInf)
      else round_fl d (x / y))"
| "fl_div d NaN b = NaN"
| "fl_div d a NaN = NaN"
| "fl_div d (Finite x) b = Finite 0"
| "fl_div d a (Finite y) = (if 0 \<le> y then a else fl_neg a)"
| "fl_div d a b = NaN"

fun fl_sqrt :: "dtype \<Rightarrow> fl \<Rightarrow> fl" where
  "fl_sqrt d (Finite x) = (if x < 0 then NaN else round_fl d (sqrt x))"
| "fl_sqrt d PInf = PInf"
| "fl_sqrt d NInf = NaN"
| "fl_sqrt d NaN = NaN"

text \<open>The conversion of a value to a dtype.\<close>

fun cast :: "dtype \<Rightarrow> fl \<Rightarrow> fl" where
  "cast d (Finite x) = round_fl d x"
| "cast d v = v"

text \<open>The comparison \<open>a <= b\<close> of two values: false when one of them is NaN.\<close>

fun fl_le :: "fl \<Rightarrow> fl \<Rightarrow> bool" where
  "fl_le (Finite x) (Finite y) \<longleftrightarrow> x \<le> y"
| "fl_le NaN b \<longleftrightarrow> False"
| "fl_le a NaN \<longleftrightarrow> False"
| "fl_le NInf b \<longleftrightarrow> True"
| "fl_le a PInf \<longleftrightarrow> True"
| "fl_le a b \<longleftrightarrow> False"

fun real_of_fl :: "fl \<Rightarrow> real" where
  "real_of_fl (Finite x) = x"
| "real_of_fl v = 0"

section \<open>Floating-point tensors\<close>

text \<open>
  A floating-point tensor has a dtype and holds values; a vector (the weights) has a
  dtype and a list of values. The device is not represented: it does not change a value.
\<close>

record tensor_fp =
  dtype :: dtype
  numbers :: "fl tensor"

record vector_fp =
  vdtype :: dtype
  entries :: "fl list"

text \<open>
  \<^verbatim>\<open>squeeze\<close>, \<^verbatim>\<open>view\<close>, \<^verbatim>\<open>expand\<close> and \<^verbatim>\<open>permute\<close> rearrange the values and keep the
  dtype.
\<close>

definition on_numbers :: "(fl tensor \<Rightarrow> error + fl tensor) \<Rightarrow> tensor_fp \<Rightarrow> error + tensor_fp" where
  "on_numbers f t = bind_err (f (numbers t)) (\<lambda>v. Inr \<lparr>dtype = dtype t, numbers = v\<rparr>)"

text \<open>
  \<^verbatim>\<open>t.to(X)\<close>: \<open>t\<close> itself when it has the dtype of \<open>X\<close> already, and otherwise a tensor
  of the dtype of \<open>X\<close> with every value of \<open>t\<close> converted.
\<close>

definition to_fp :: "tensor_fp \<Rightarrow> tensor_fp \<Rightarrow> tensor_fp" where
  "to_fp t X =
     (if dtype t = dtype X then t
      else \<lparr>dtype = dtype X, numbers = map_tensor (cast (dtype X)) (numbers t)\<rparr>)"

text \<open>
  The dot product of \<^verbatim>\<open>matmul\<close> and \<^verbatim>\<open>bmm\<close>: every product is rounded and the products are
  summed from left to right, every sum rounded. (The order in which a torch kernel sums is
  not fixed by the code of the tutorial; the sums of the examples below have at most two
  terms.)
\<close>

definition dot_fp :: "dtype \<Rightarrow> fl list \<Rightarrow> fl list \<Rightarrow> fl" where
  "dot_fp d xs ys = foldl (fl_add d) (Finite 0) (map2 (fl_mul d) xs ys)"

text \<open>
  \<^verbatim>\<open>t.matmul(w)\<close> and \<^verbatim>\<open>torch.bmm(A, B)\<close> as in the first model; in addition torch raises
  a RuntimeError for operands of different dtypes, which is reported as \<open>ShapeError\<close> like
  the RuntimeError for shapes that do not fit.
\<close>

definition matmul_fp :: "tensor_fp \<Rightarrow> vector_fp \<Rightarrow> error + tensor_fp" where
  "matmul_fp t w =
     (if dtype t \<noteq> vdtype w then Inl ShapeError
      else if shape (numbers t) = [] then Inl ShapeError
      else if last (shape (numbers t)) \<noteq> length (entries w) then Inl ShapeError
      else Inr \<lparr>dtype = dtype t,
                numbers = \<lparr>shape = butlast (shape (numbers t)),
                           data = map (\<lambda>r. dot_fp (dtype t) r (entries w))
                                    (rows (prod_list (butlast (shape (numbers t))))
                                          (length (entries w)) (data (numbers t)))\<rparr>\<rparr>)"

definition bmm_fp :: "tensor_fp \<Rightarrow> tensor_fp \<Rightarrow> error + tensor_fp" where
  "bmm_fp A B =
     (if dtype A \<noteq> dtype B then Inl ShapeError
      else if length (shape (numbers A)) \<noteq> 3 \<or> length (shape (numbers B)) \<noteq> 3 then Inl ShapeError
      else let b = shape (numbers A) ! 0; n = shape (numbers A) ! 1; m = shape (numbers A) ! 2;
               p = shape (numbers B) ! 2 in
        if shape (numbers B) ! 0 \<noteq> b \<or> shape (numbers B) ! 1 \<noteq> m then Inl ShapeError
        else Inr \<lparr>dtype = dtype A,
                  numbers = \<lparr>shape = [b, n, p],
                             data = concat (map (\<lambda>i. concat (map (\<lambda>r. map (\<lambda>c.
                               dot_fp (dtype A)
                                 (map (\<lambda>k. data (numbers A) ! (i * n * m + r * m + k)) [0..<m])
                                 (map (\<lambda>k. data (numbers B) ! (i * m * p + k * p + c)) [0..<m]))
                               [0..<p]) [0..<n])) [0..<b])\<rparr>\<rparr>)"

text \<open>
  The dtype of the result of an elementwise operation on two tensors: the larger of the
  two dtypes, except that a zero-dimensional operand does not raise the dtype of an operand
  with dimensions. The operation rounds to that dtype.
\<close>

definition promote :: "tensor_fp \<Rightarrow> tensor_fp \<Rightarrow> dtype" where
  "promote a b =
     (if shape (numbers a) = [] \<and> shape (numbers b) \<noteq> [] then dtype b
      else if shape (numbers b) = [] \<and> shape (numbers a) \<noteq> [] then dtype a
      else if dtype a = Float64 \<or> dtype b = Float64 then Float64
      else Float32)"

definition elementwise_fp ::
  "(dtype \<Rightarrow> fl \<Rightarrow> fl \<Rightarrow> fl) \<Rightarrow> tensor_fp \<Rightarrow> tensor_fp \<Rightarrow> error + tensor_fp" where
  "elementwise_fp f a b =
     bind_err (broadcast_op (f (promote a b)) (numbers a) (numbers b))
       (\<lambda>v. Inr \<lparr>dtype = promote a b, numbers = v\<rparr>)"

text \<open>\<^verbatim>\<open>t.sqrt()\<close>.\<close>

definition sqrt_fp :: "tensor_fp \<Rightarrow> tensor_fp" where
  "sqrt_fp t = \<lparr>dtype = dtype t, numbers = map_tensor (fl_sqrt (dtype t)) (numbers t)\<rparr>"

text \<open>\<^verbatim>\<open>t.mean(dim=-1)\<close>: the sum along the last dimension divided by its size.\<close>

definition mean_fl :: "dtype \<Rightarrow> fl list \<Rightarrow> fl" where
  "mean_fl d xs = fl_div d (foldl (fl_add d) (Finite 0) xs) (round_fl d (real (length xs)))"

definition mean_last_fp :: "tensor_fp \<Rightarrow> tensor_fp" where
  "mean_last_fp t =
     (if shape (numbers t) = [] then t
      else \<lparr>dtype = dtype t,
            numbers = \<lparr>shape = butlast (shape (numbers t)),
                       data = map (mean_fl (dtype t))
                                (rows (prod_list (butlast (shape (numbers t))))
                                      (last (shape (numbers t))) (data (numbers t)))\<rparr>\<rparr>)"






section \<open>The two methods in floating point\<close>


text \<open>The posterior, the model and the attributes of the analytic class, over floating-point tensors.\<close>

record posterior_fp =
  mean_fp :: tensor_fp
  covariance_matrix_fp :: tensor_fp

record model_fp =
  posterior_fp :: "tensor_fp \<Rightarrow> posterior_fp option"
  is_ensemble_fp :: bool

record acquisition_function_fp =
  model_fp :: model_fp

record ScalarizedUpperConfidenceBound_fp = acquisition_function_fp +
  beta_fp :: tensor_fp
  weights_fp :: vector_fp
  maximize_fp :: bool

type_synonym 's call_fp = "(error + tensor_fp) \<times> 's"

text \<open>
  Modelled from the spec: the decorator \<^verbatim>\<open>t_batch_mode_transform\<close>, as above, on
  floating-point tensors. It looks at the shape of \<open>X\<close> only.
\<close>

definition add_t_batch_dim_fp :: "tensor_fp \<Rightarrow> tensor_fp" where
  "add_t_batch_dim_fp X = X\<lparr>numbers := add_t_batch_dim (numbers X)\<rparr>"

definition t_batch_mode_transform_fp ::
  "nat option \<Rightarrow> ('s \<Rightarrow> tensor_fp \<Rightarrow> 's call_fp) \<Rightarrow> 's \<Rightarrow> tensor_fp \<Rightarrow> 's call_fp" where
  "t_batch_mode_transform_fp expected_q method acqf X =
     (if length (shape (numbers X)) < 2 then (Inl BatchModeError, acqf)
      else if expected_q \<noteq> None
              \<and> expected_q \<noteq> Some (shape (numbers X) ! (length (shape (numbers X)) - 2))
        then (Inl BatchModeError, acqf)
      else method acqf (add_t_batch_dim_fp X))"

text \<open>
  Modelled from the spec: the decorator \<^verbatim>\<open>average_over_ensemble_models\<close>, as above, on
  floating-point tensors.
\<close>

definition average_over_ensemble_models_fp ::
  "('a acquisition_function_fp_scheme \<Rightarrow> tensor_fp \<Rightarrow> 'a acquisition_function_fp_scheme call_fp)
   \<Rightarrow> 'a acquisition_function_fp_scheme \<Rightarrow> tensor_fp \<Rightarrow> 'a acquisition_function_fp_scheme call_fp"
  where
  "average_over_ensemble_models_fp method acqf X =
     (case method acqf X of
        (Inl e, acqf') \<Rightarrow> (Inl e, acqf')
      | (Inr output, acqf') \<Rightarrow>
          (Inr (if is_ensemble_fp (model_fp acqf') then mean_last_fp output else output), acqf'))"

text \<open>
  The body of \<^verbatim>\<open>ScalarizedUpperConfidenceBound.forward\<close>, statement by statement as in the
  first model, over floating-point tensors. The first statement stores \<^verbatim>\<open>self.beta.to(X)\<close>
  in \<^verbatim>\<open>self.beta\<close>.
\<close>

definition ScalarizedUpperConfidenceBound_forward_body_fp ::
  "ScalarizedUpperConfidenceBound_fp \<Rightarrow> tensor_fp
   \<Rightarrow> ScalarizedUpperConfidenceBound_fp call_fp" where
  "ScalarizedUpperConfidenceBound_forward_body_fp self X =
     (let acqf = self\<lparr>beta_fp := to_fp (beta_fp self) X\<rparr>;
          batch_shape = take (length (shape (numbers X)) - 2) (shape (numbers X))
      in
      (case posterior_fp (model_fp acqf) X of
         None \<Rightarrow> Inl PosteriorError
       | Some post \<Rightarrow>
           bind_err (on_numbers squeeze_m2 (mean_fp post)) (\<lambda>means.
           bind_err (matmul_fp means (weights_fp acqf)) (\<lambda>scalarized_mean.
           let covs = covariance_matrix_fp post;
               weights1 = \<lparr>dtype = vdtype (weights_fp acqf),
                           numbers = \<lparr>shape = [1, length (entries (weights_fp acqf)), 1],
                                      data = entries (weights_fp acqf)\<rparr>\<rparr>
           in
           bind_err (on_numbers (\<lambda>t. expand t (batch_shape @ tl (shape (numbers weights1))))
                       weights1) (\<lambda>weights2.
           bind_err (on_numbers permute_021 weights2) (\<lambda>weights_transpose.
           bind_err (bmm_fp covs weights2) (\<lambda>cw.
           bind_err (bmm_fp weights_transpose cw) (\<lambda>wcw.
           bind_err (on_numbers (\<lambda>t. view t batch_shape) wcw) (\<lambda>scalarized_variance.
           bind_err (on_numbers (\<lambda>t. expand t (shape (numbers scalarized_mean))) (beta_fp acqf))
             (\<lambda>beta_e.
           bind_err (elementwise_fp fl_mul beta_e scalarized_variance) (\<lambda>radicand.
           let delta = sqrt_fp radicand in
           if maximize_fp acqf then elementwise_fp fl_add scalarized_mean delta
           else elementwise_fp fl_sub scalarized_mean delta))))))))),
       acqf))"

definition ScalarizedUpperConfidenceBound_forward_fp ::
  "ScalarizedUpperConfidenceBound_fp \<Rightarrow> tensor_fp
   \<Rightarrow> ScalarizedUpperConfidenceBound_fp call_fp" where
  "ScalarizedUpperConfidenceBound_forward_fp =
     t_batch_mode_transform_fp (Some 1)
       (average_over_ensemble_models_fp ScalarizedUpperConfidenceBound_forward_body_fp)"

text \<open>
  The values that the method computes for t-batch \<open>i\<close>, written with indices: the
  scalarized mean \<^verbatim>\<open>means.matmul(weights)\<close>, the scalarized variance
  \<^verbatim>\<open>bmm(weights_transpose, bmm(covs, weights))\<close>, the exploration coefficient as
  \<^verbatim>\<open>expand_as\<close> lays it out, the argument \<^verbatim>\<open>beta * scalarized_variance\<close> of the square root,
  \<^verbatim>\<open>delta\<close>, and the sum or difference that is returned.
\<close>

definition outputs_at_fp :: "tensor_fp \<Rightarrow> nat \<Rightarrow> nat \<Rightarrow> fl list" where
  "outputs_at_fp t m p = take m (drop (p * m) (data (numbers t)))"

definition cov_row_fp :: "tensor_fp \<Rightarrow> nat \<Rightarrow> nat \<Rightarrow> nat \<Rightarrow> fl list" where
  "cov_row_fp covs m i r = map (\<lambda>k. data (numbers covs) ! (i * m * m + r * m + k)) [0..<m]"

definition scalarized_mean_at :: "dtype \<Rightarrow> fl list \<Rightarrow> tensor_fp \<Rightarrow> nat \<Rightarrow> fl" where
  "scalarized_mean_at d w mu i = dot_fp d (outputs_at_fp mu (length w) i) w"

definition scalarized_variance_at :: "dtype \<Rightarrow> fl list \<Rightarrow> tensor_fp \<Rightarrow> nat \<Rightarrow> fl" where
  "scalarized_variance_at d w covs i =
     dot_fp d w (map (\<lambda>r. dot_fp d (cov_row_fp covs (length w) i r) w) [0..<length w])"

definition beta_at_fp :: "tensor_fp \<Rightarrow> nat \<Rightarrow> fl" where
  "beta_at_fp b i =
     (if length (data (numbers b)) = 1 then hd (data (numbers b)) else data (numbers b) ! i)"

definition radicand_at ::
  "dtype \<Rightarrow> tensor_fp \<Rightarrow> fl list \<Rightarrow> tensor_fp \<Rightarrow> nat \<Rightarrow> fl" where
  "radicand_at d b w covs i = fl_mul d (beta_at_fp b i) (scalarized_variance_at d w covs i)"

definition delta_at ::
  "dtype \<Rightarrow> tensor_fp \<Rightarrow> fl list \<Rightarrow> tensor_fp \<Rightarrow> nat \<Rightarrow> fl" where
  "delta_at d b w covs i = fl_sqrt d (radicand_at d b w covs i)"

definition score_fp :: "bool \<Rightarrow> dtype \<Rightarrow> fl \<Rightarrow> fl \<Rightarrow> fl" where
  "score_fp mx d mu delta = (if mx then fl_add d mu delta else fl_sub d mu delta)"

text \<open>
  What the library promises for a call of the analytic acquisition function, as in
  \<open>analytic_setting\<close>, together with the dtypes: the posterior of the model and the weights
  have the dtype \<open>d\<close> of \<open>X\<close>. The dtype of \<open>beta\<close> is free.
\<close>

definition analytic_setting_fp ::
  "ScalarizedUpperConfidenceBound_fp \<Rightarrow> tensor_fp \<Rightarrow> dtype \<Rightarrow> nat \<Rightarrow> nat \<Rightarrow> nat
   \<Rightarrow> posterior_fp \<Rightarrow> bool" where
  "analytic_setting_fp acqf X d b k m post \<longleftrightarrow>
     dtype X = d \<and> shape (numbers (add_t_batch_dim_fp X)) = [b, 1, k] \<and>
     \<not> is_ensemble_fp (model_fp acqf) \<and>
     posterior_fp (model_fp acqf) (add_t_batch_dim_fp X) = Some post \<and>
     dtype (mean_fp post) = d \<and> shape (numbers (mean_fp post)) = [b, 1, m] \<and>
     well_formed (numbers (mean_fp post)) \<and>
     dtype (covariance_matrix_fp post) = d \<and>
     shape (numbers (covariance_matrix_fp post)) = [b, m, m] \<and>
     well_formed (numbers (covariance_matrix_fp post)) \<and>
     vdtype (weights_fp acqf) = d \<and> length (entries (weights_fp acqf)) = m \<and>
     well_formed (numbers (beta_fp acqf)) \<and>
     (shape (numbers (beta_fp acqf)) = [] \<or> shape (numbers (beta_fp acqf)) = [1]
      \<or> shape (numbers (beta_fp acqf)) = [b])"

section \<open>Example objects\<close>

text \<open>
  Two small settings on which the statements below are evaluated: a model with two
  outputs and a q-batch of two candidates with two samples, and a model with two outputs on
  two t-batches of one candidate.
\<close>

definition example_posterior_q2 :: posterior where
  "example_posterior_q2 =
     \<lparr>mean = \<lparr>shape = [1, 2, 2], data = [1, 2, 3, 4]\<rparr>,
      covariance_matrix = \<lparr>shape = [1, 4, 4],
                           data = [1, 0, 0, 0, 0, 1, 0, 0, 0, 0, 1, 0, 0, 0, 0, 1]\<rparr>\<rparr>"

definition example_model_q2 :: model where
  "example_model_q2 =
     \<lparr>posterior = (\<lambda>X. if shape X = [1, 2, 1] then Some example_posterior_q2 else None),
      is_ensemble = False\<rparr>"

definition example_sampler :: sampler where
  "example_sampler =
     \<lparr>sampler_class = ''IIDNormalSampler'', sample_shape = [2],
      draws = (\<lambda>post. [1, 3, 2, 4, 0, 2, 5, 4])\<rparr>"

definition example_qSUCB :: qScalarizedUpperConfidenceBound where
  "example_qSUCB =
     qScalarizedUpperConfidenceBound_init (\<lambda>ss post. []) example_model_q2
       \<lparr>shape = [], data = [2 / pi]\<rparr> [1 / 2, 1 / 2] (Some example_sampler)"

definition example_X_q2 :: "real tensor" where
  "example_X_q2 = \<lparr>shape = [2, 1], data = [0, 1]\<rparr>"

definition example_posterior_q1 :: posterior where
  "example_posterior_q1 =
     \<lparr>mean = \<lparr>shape = [2, 1, 2], data = [1, 2, 3, 4]\<rparr>,
      covariance_matrix = \<lparr>shape = [2, 2, 2], data = [1, 0, 0, 1, 4, 0, 0, 4]\<rparr>\<rparr>"

definition example_model_q1 :: model where
  "example_model_q1 =
     \<lparr>posterior = (\<lambda>X. if shape X = [2, 1, 1] then Some example_posterior_q1 else None),
      is_ensemble = False\<rparr>"

definition example_SUCB :: ScalarizedUpperConfidenceBound where
  "example_SUCB =
     ScalarizedUpperConfidenceBound_init example_model_q1 \<lparr>shape = [], data = [1]\<rparr> [3, 4] True"

definition example_X_q1 :: "real tensor" where
  "example_X_q1 = \<lparr>shape = [2, 1, 1], data = [0, 1]\<rparr>"

text \<open>
  A third setting with two t-batch dimensions: \<open>2 x 2\<close> t-batches of one candidate, a model
  with one output and one sample.
\<close>

definition example_posterior_batched :: posterior where
  "example_posterior_batched =
     \<lparr>mean = \<lparr>shape = [2, 2, 1, 1], data = [1, 2, 3, 4]\<rparr>,
      covariance_matrix = \<lparr>shape = [2, 2, 1, 1], data = [1, 1, 1, 1]\<rparr>\<rparr>"

definition example_model_batched :: model where
  "example_model_batched =
     \<lparr>posterior = (\<lambda>X. if shape X = [2, 2, 1, 1] then Some example_posterior_batched else None),
      is_ensemble = False\<rparr>"

definition example_qSUCB_batched :: qScalarizedUpperConfidenceBound where
  "example_qSUCB_batched =
     qScalarizedUpperConfidenceBound_init (\<lambda>ss post. []) example_model_batched
       \<lparr>shape = [], data = [2 / pi]\<rparr> [1]
       (Some \<lparr>sampler_class = ''IIDNormalSampler'', sample_shape = [1],
              draws = (\<lambda>post. [2, 2, 5, 4])\<rparr>)"

definition example_X_batched :: "real tensor" where
  "example_X_batched = \<lparr>shape = [2, 2, 1, 1], data = [0, 1, 2, 3]\<rparr>"

text \<open>
  A fourth setting with one t-batch of one candidate and a model with one output of mean 1
  and variance 1. \<open>example_sobol\<close> stands for the generator of the default sampler: it
  yields the draw 3 for every sample. \<open>example_mc S n\<close> is a Monte Carlo acquisition
  function whose sampler has \<open>n\<close> samples, the draws \<open>S n 0, ..., S n (n - 1)\<close>. The draws
  \<open>example_draws\<close> all lie at the distance \<open>sqrt (2 / pi)\<close> from the mean, which is the mean
  absolute deviation of a normal variable of variance 1.
\<close>

definition example_sobol :: "nat list \<Rightarrow> posterior \<Rightarrow> real list" where
  "example_sobol ss post = replicate (prod_list ss * length (data (mean post))) 3"

definition example_posterior_single :: posterior where
  "example_posterior_single =
     \<lparr>mean = \<lparr>shape = [1, 1, 1], data = [1]\<rparr>,
      covariance_matrix = \<lparr>shape = [1, 1, 1], data = [1]\<rparr>\<rparr>"

definition example_model_single :: model where
  "example_model_single =
     \<lparr>posterior = (\<lambda>X. if shape X = [1, 1, 1] then Some example_posterior_single else None),
      is_ensemble = False\<rparr>"

definition example_X_single :: "real tensor" where
  "example_X_single = \<lparr>shape = [1, 1], data = [0]\<rparr>"




text \<open>
  Floating-point numbers of the examples: \<open>2 ^ 512\<close>, whose square is beyond the largest
  double; the doubles nearest to 0.1 and to 0.3; the float32 number nearest to 0.1; and
  \<open>2\<^sup>-\<^sup>5\<^sup>3\<close>, half the distance from 1 to the next double, with its square.
\<close>

definition two_512 :: real where
  "two_512 = 2 ^ 512"

definition double_0_1 :: real where
  "double_0_1 = 3602879701896397 / 2 ^ 55"

definition double_0_3 :: real where
  "double_0_3 = 5404319552844595 / 2 ^ 54"

definition float_0_1 :: real where
  "float_0_1 = 13421773 / 2 ^ 27"

definition two_m53 :: real where
  "two_m53 = 1 / 2 ^ 53"

definition two_m106 :: real where
  "two_m106 = 1 / 2 ^ 106"

text \<open>
  Floating-point settings with one t-batch of one candidate. In the first the model has
  one output, with mean \<open>mu\<close> and variance \<open>c\<close> of dtype \<open>d\<close>; \<open>beta\<close> is the scalar \<open>bt\<close>
  of dtype \<open>bd\<close> and the weight is \<open>w\<close>. In the second the model has two outputs with
  mean 0 and the positive semidefinite covariance matrix \<open>[[9, -3], [-3, 1]]\<close>, \<open>beta\<close> is 1
  and the weights are the doubles nearest to 0.1 and 0.3; \<open>example_covariance_psd r c\<close> is
  the entry of this matrix in row \<open>r\<close> and column \<open>c\<close>, as a real number.
\<close>

definition example_X_fp :: "dtype \<Rightarrow> tensor_fp" where
  "example_X_fp d = \<lparr>dtype = d, numbers = \<lparr>shape = [1, 1], data = [Finite 0]\<rparr>\<rparr>"

definition example_posterior_fp :: "dtype \<Rightarrow> real \<Rightarrow> real \<Rightarrow> posterior_fp" where
  "example_posterior_fp d mu c =
     \<lparr>mean_fp = \<lparr>dtype = d, numbers = \<lparr>shape = [1, 1, 1], data = [Finite mu]\<rparr>\<rparr>,
      covariance_matrix_fp = \<lparr>dtype = d, numbers = \<lparr>shape = [1, 1, 1], data = [Finite c]\<rparr>\<rparr>\<rparr>"

definition example_SUCB_fp ::
  "dtype \<Rightarrow> real \<Rightarrow> real \<Rightarrow> dtype \<Rightarrow> real \<Rightarrow> real \<Rightarrow> bool \<Rightarrow> ScalarizedUpperConfidenceBound_fp" where
  "example_SUCB_fp d mu c bd bt w mx =
     \<lparr>model_fp = \<lparr>posterior_fp = (\<lambda>X. if shape (numbers X) = [1, 1, 1]
                                         then Some (example_posterior_fp d mu c) else None),
                   is_ensemble_fp = False\<rparr>,
      beta_fp = \<lparr>dtype = bd, numbers = \<lparr>shape = [], data = [Finite bt]\<rparr>\<rparr>,
      weights_fp = \<lparr>vdtype = d, entries = [Finite w]\<rparr>,
      maximize_fp = mx\<rparr>"

definition example_posterior_psd :: posterior_fp where
  "example_posterior_psd =
     \<lparr>mean_fp = \<lparr>dtype = Float64, numbers = \<lparr>shape = [1, 1, 2], data = [Finite 0, Finite 0]\<rparr>\<rparr>,
      covariance_matrix_fp =
        \<lparr>dtype = Float64,
         numbers = \<lparr>shape = [1, 2, 2],
                    data = [Finite 9, Finite (- 3), Finite (- 3), Finite 1]\<rparr>\<rparr>\<rparr>"

definition example_covariance_psd :: "nat \<Rightarrow> nat \<Rightarrow> real" where
  "example_covariance_psd r c =
     real_of_fl (data (numbers (covariance_matrix_fp example_posterior_psd)) ! (r * 2 + c))"

definition example_SUCB_psd :: "bool \<Rightarrow> ScalarizedUpperConfidenceBound_fp" where
  "example_SUCB_psd mx =
     \<lparr>model_fp = \<lparr>posterior_fp = (\<lambda>X. if shape (numbers X) = [1, 1, 1]
                                         then Some example_posterior_psd else None),
                   is_ensemble_fp = False\<rparr>,
      beta_fp = \<lparr>dtype = Float64, numbers = \<lparr>shape = [], data = [Finite 1]\<rparr>\<rparr>,
      weights_fp = \<lparr>vdtype = Float64, entries = [Finite double_0_1, Finite double_0_3]\<rparr>,
      maximize_fp = mx\<rparr>"

section \<open>Lists and tensors\<close>

lemma length_rows [simp]: "length (rows c l xs) = c"
  by (simp add: rows_def)

lemma nth_rows: "i < c \<Longrightarrow> rows c l xs ! i = take l (drop (i * l) xs)"
  by (simp add: rows_def)

lemma rows_Suc: "rows (Suc c) l xs = rows c l xs @ [take l (drop (c * l) xs)]"
  by (simp add: rows_def)

lemma concat_rows_take: "concat (rows c l xs) = take (c * l) xs"
proof (induction c)
  case 0
  then show ?case by (simp add: rows_def)
next
  case (Suc c)
  have "take (c * l) xs @ take l (drop (c * l) xs) = take (c * l + l) xs"
    by (simp add: take_add)
  with Suc show ?case by (simp add: rows_Suc add.commute)
qed

lemma concat_rows: "length xs = c * l \<Longrightarrow> concat (rows c l xs) = xs"
  by (simp add: concat_rows_take)

lemma take_drop_nths:
  "p + l \<le> length xs \<Longrightarrow> take l (drop p xs) = map (\<lambda>j. xs ! (p + j)) [0..<l]"
  by (rule nth_equalityI) simp_all

lemma length_concat_replicate [simp]: "length (concat (replicate n xs)) = n * length xs"
  by (induction n) simp_all

lemma nth_concat_replicate:
  "p < n * length xs \<Longrightarrow> concat (replicate n xs) ! p = xs ! (p mod length xs)"
proof (induction n arbitrary: p)
  case 0
  then show ?case by simp
next
  case (Suc n)
  show ?case
  proof (cases "p < length xs")
    case True
    then show ?thesis by (simp add: nth_append)
  next
    case False
    then have "p - length xs < n * length xs" using Suc.prems by simp
    from Suc.IH [OF this] False show ?thesis
      by (simp add: nth_append le_mod_geq)
  qed
qed

lemma fold_max_Max: "fold max xs (a::real) = Max (insert a (set xs))"
proof (induction xs arbitrary: a)
  case Nil
  then show ?case by simp
next
  case (Cons x xs)
  have "Max (insert (max x a) (set xs)) = Max (insert a (insert x (set xs)))"
    by (cases "set xs = {}") (simp_all add: max.commute max.left_commute)
  with Cons show ?case by simp
qed

lemma maximum_Max: "xs \<noteq> [] \<Longrightarrow> maximum xs = Max (set xs)"
  by (cases xs) (simp_all add: maximum_def fold_max_Max)

lemma expand_aligned_same:
  "length xs = prod_list s \<Longrightarrow> expand_aligned s s xs = xs"
proof (induction s arbitrary: xs)
  case Nil
  then show ?case by simp
next
  case (Cons n s)
  have "map (expand_aligned s s) (rows n (prod_list s) xs) = rows n (prod_list s) xs"
  proof (rule map_idI)
    fix r assume "r \<in> set (rows n (prod_list s) xs)"
    then obtain i where i: "i < n" and r: "r = take (prod_list s) (drop (i * prod_list s) xs)"
      by (auto simp: rows_def)
    have "(i + 1) * prod_list s \<le> n * prod_list s" using i by (intro mult_le_mono1) simp
    then have "length r = prod_list s" using Cons.prems r by simp
    then show "expand_aligned s s r = r" by (rule Cons.IH)
  qed
  with Cons.prems show ?case by (simp add: concat_rows)
qed

lemma expand_aligned_front:
  "length xs = prod_list s \<Longrightarrow> expand_aligned (n # s) (Suc 0 # s) xs = concat (replicate n xs)"
proof (cases "n = Suc 0")
  case True
  assume len: "length xs = prod_list s"
  have "rows 1 (prod_list s) xs = [xs]" using len by (simp add: rows_def)
  with True len show ?thesis by (simp add: expand_aligned_same)
next
  case False
  assume "length xs = prod_list s"
  with False show ?thesis by (simp add: expand_aligned_same)
qed

lemma broadcast_rev_same: "broadcast_rev s s = Some s"
  by (induction s) simp_all

lemma broadcast_rev_longer_l: "broadcast_rev (s @ p) s = Some (s @ p)"
  by (induction s) (simp_all, cases p, simp_all)

lemma broadcast_rev_longer_r: "broadcast_rev s (s @ p) = Some (s @ p)"
  by (induction s) simp_all

lemma broadcast_shapes_same: "broadcast_shapes s s = Some s"
  by (simp add: broadcast_shapes_def broadcast_rev_same)

lemma broadcast_shapes_front_l: "broadcast_shapes (p @ s) s = Some (p @ s)"
  by (simp add: broadcast_shapes_def broadcast_rev_longer_l)

lemma broadcast_shapes_front_r: "broadcast_shapes s (p @ s) = Some (p @ s)"
  by (simp add: broadcast_shapes_def broadcast_rev_longer_r)

lemma map2_upt:
  "map2 f (map g [0..<N]) (map h [0..<N]) = map (\<lambda>p. f (g p) (h p)) [0..<N]"
  by (rule nth_equalityI) simp_all

lemma concat_replicate_upt:
  "concat (replicate n (map h [0..<L])) = map (\<lambda>p. h (p mod L)) [0..<n * L]"
proof (rule nth_equalityI)
  show "length (concat (replicate n (map h [0..<L]))) = length (map (\<lambda>p. h (p mod L)) [0..<n * L])"
    by simp
next
  fix p assume "p < length (concat (replicate n (map h [0..<L])))"
  then have p: "p < n * L" by simp
  then have "0 < L" by (cases L) simp_all
  then have "p mod L < L" by simp
  with p show "concat (replicate n (map h [0..<L])) ! p = map (\<lambda>p. h (p mod L)) [0..<n * L] ! p"
    by (simp add: nth_concat_replicate)
qed

lemma block_bound:
  fixes p c l :: nat
  assumes "p < c"
  shows "p * l + l \<le> c * l"
proof -
  have "Suc p * l \<le> c * l" using assms by (intro mult_le_mono1) simp
  then show ?thesis by simp
qed

lemma length_outputs_at:
  "length (data t) = c * m \<Longrightarrow> p < c \<Longrightarrow> length (outputs_at t m p) = m"
  using block_bound [of p c m] by (simp add: outputs_at_def)

lemma dot_scalarize: "length r = length w \<Longrightarrow> dot r w = scalarize w r"
proof -
  assume len: "length r = length w"
  have "map2 (*) r w = map (\<lambda>l. w ! l * r ! l) [0..<length w]"
    using len by (intro nth_equalityI) (simp_all add: mult.commute)
  then show ?thesis by (simp add: dot_def scalarize_def)
qed

lemma matmul_scalarize:
  assumes "shape t = s @ [m]" and "well_formed t" and "length w = m"
  shows "matmul t w =
    Inr \<lparr>shape = s, data = map (\<lambda>p. scalarize w (outputs_at t m p)) [0..<prod_list s]\<rparr>"
proof -
  have len: "length (data t) = prod_list s * m"
    using assms(1,2) by (simp add: well_formed_def)
  have "map (\<lambda>r. dot r w) (rows (prod_list s) m (data t))
        = map (\<lambda>p. scalarize w (outputs_at t m p)) [0..<prod_list s]"
  proof (rule nth_equalityI)
    show "length (map (\<lambda>r. dot r w) (rows (prod_list s) m (data t)))
          = length (map (\<lambda>p. scalarize w (outputs_at t m p)) [0..<prod_list s])"
      by simp
  next
    fix p assume "p < length (map (\<lambda>r. dot r w) (rows (prod_list s) m (data t)))"
    then have p: "p < prod_list s" by simp
    have "length (outputs_at t m p) = length w"
      using length_outputs_at [OF len p] assms(3) by simp
    then have "dot (outputs_at t m p) w = scalarize w (outputs_at t m p)"
      by (rule dot_scalarize)
    with p show "map (\<lambda>r. dot r w) (rows (prod_list s) m (data t)) ! p
                 = map (\<lambda>p. scalarize w (outputs_at t m p)) [0..<prod_list s] ! p"
      by (simp add: nth_rows outputs_at_def)
  qed
  with assms(1,3) show ?thesis by (simp add: matmul_def)
qed

lemma broadcast_op_front_l:
  assumes "length A = n * prod_list S" and "length Bd = prod_list S"
  shows "broadcast_op f \<lparr>shape = n # S, data = A\<rparr> \<lparr>shape = S, data = Bd\<rparr>
         = Inr \<lparr>shape = n # S, data = map2 f A (concat (replicate n Bd))\<rparr>"
  using assms broadcast_shapes_front_l [of "[n]" S]
  by (simp add: broadcast_op_def pad_shape_def expand_aligned_same expand_aligned_front
           del: expand_aligned.simps)

lemma broadcast_op_front_r:
  assumes "length A = n * prod_list S" and "length Bd = prod_list S"
  shows "broadcast_op f \<lparr>shape = S, data = Bd\<rparr> \<lparr>shape = n # S, data = A\<rparr>
         = Inr \<lparr>shape = n # S, data = map2 f (concat (replicate n Bd)) A\<rparr>"
  using assms broadcast_shapes_front_r [of S "[n]"]
  by (simp add: broadcast_op_def pad_shape_def expand_aligned_same expand_aligned_front
           del: expand_aligned.simps)

lemma max_last_rows:
  assumes "0 < q"
  shows "max_last \<lparr>shape = s @ [q], data = map U [0..<prod_list s * q]\<rparr>
         = Inr \<lparr>shape = s,
                data = map (\<lambda>r. Max (set (map (\<lambda>j. U (r * q + j)) [0..<q]))) [0..<prod_list s]\<rparr>"
proof -
  have "map maximum (rows (prod_list s) q (map U [0..<prod_list s * q]))
        = map (\<lambda>r. Max (set (map (\<lambda>j. U (r * q + j)) [0..<q]))) [0..<prod_list s]"
  proof (rule nth_equalityI)
    show "length (map maximum (rows (prod_list s) q (map U [0..<prod_list s * q])))
          = length (map (\<lambda>r. Max (set (map (\<lambda>j. U (r * q + j)) [0..<q]))) [0..<prod_list s])"
      by simp
  next
    fix r assume "r < length (map maximum (rows (prod_list s) q (map U [0..<prod_list s * q])))"
    then have r: "r < prod_list s" by simp
    have bound: "r * q + q \<le> prod_list s * q" using r by (rule block_bound)
    then have "take q (drop (r * q) (map U [0..<prod_list s * q]))
               = map (\<lambda>j. map U [0..<prod_list s * q] ! (r * q + j)) [0..<q]"
      by (intro take_drop_nths) simp
    also have "\<dots> = map (\<lambda>j. U (r * q + j)) [0..<q]"
      using bound by (intro map_cong refl) simp
    finally have row: "rows (prod_list s) q (map U [0..<prod_list s * q]) ! r
                       = map (\<lambda>j. U (r * q + j)) [0..<q]"
      using r by (simp add: nth_rows)
    have "map (\<lambda>j. U (r * q + j)) [0..<q] \<noteq> []" using assms by simp
    then have "maximum (map (\<lambda>j. U (r * q + j)) [0..<q])
               = Max (set (map (\<lambda>j. U (r * q + j)) [0..<q]))"
      by (rule maximum_Max)
    with row r show "map maximum (rows (prod_list s) q (map U [0..<prod_list s * q])) ! r
          = map (\<lambda>r. Max (set (map (\<lambda>j. U (r * q + j)) [0..<q]))) [0..<prod_list s] ! r"
      by simp
  qed
  with assms show ?thesis by (simp add: max_last_def)
qed

lemma mean_dim0_upt:
  "mean_dim0 \<lparr>shape = n # s, data = map V [0..<n * prod_list s]\<rparr>
   = \<lparr>shape = s,
      data = map (\<lambda>i. if n = 0 then None
                       else Some ((\<Sum>k\<leftarrow>[0..<n]. V (k * prod_list s + i)) / real n))
                 [0..<prod_list s]\<rparr>"
proof -
  have "(\<Sum>k\<leftarrow>[0..<n]. map V [0..<n * prod_list s] ! (k * prod_list s + i))
        = (\<Sum>k\<leftarrow>[0..<n]. V (k * prod_list s + i))" if "i < prod_list s" for i
  proof -
    have "map V [0..<n * prod_list s] ! (k * prod_list s + i) = V (k * prod_list s + i)"
      if "k \<in> set [0..<n]" for k
    proof -
      have "k < n" using that by simp
      then have "k * prod_list s + prod_list s \<le> n * prod_list s" by (rule block_bound)
      with \<open>i < prod_list s\<close> show ?thesis by simp
    qed
    then show ?thesis by (intro arg_cong [where f = sum_list] map_cong refl)
  qed
  then show ?thesis by (simp add: mean_dim0_def)
qed

lemma mod_position:
  fixes i j k B q :: nat
  assumes "i < B" and "j < q"
  shows "((k * B + i) * q + j) mod (B * q) = i * q + j"
proof -
  have "i * q + q \<le> B * q" using assms(1) by (rule block_bound)
  then have lt: "i * q + j < B * q" using assms(2) by simp
  have eq: "(k * B + i) * q + j = i * q + j + k * (B * q)" by (simp add: algebra_simps)
  have "(i * q + j + k * (B * q)) mod (B * q) = (i * q + j) mod (B * q)" by simp
  also have "\<dots> = i * q + j" using lt by simp
  finally show ?thesis by (simp only: eq)
qed

section \<open>The value of the Monte Carlo score\<close>

lemma mc_body_value:
  assumes setting: "mc_setting acqf X bs q d m n post"
    and beta: "data (beta acqf) = [b]" and nonneg: "0 \<le> b"
  shows "qScalarizedUpperConfidenceBound_forward_body acqf (add_t_batch_dim X) =
    (Inr \<lparr>shape = bs,
          data = map (\<lambda>i. if n = 0 then None
                          else Some (scalarized_mc_ucb (weights acqf) b n (prod_list bs) q
                                       (get_posterior_samples acqf post) (mean post) i))
                     [0..<prod_list bs]\<rparr>, acqf)"
proof -
  define w where "w = weights acqf"
  define B where "B = prod_list bs"
  define samples where "samples = get_posterior_samples acqf post"
  define s where "s = (\<lambda>p. scalarize w (outputs_at samples m p))"
  define mu where "mu = (\<lambda>p. scalarize w (outputs_at (mean post) m p))"
  define c where "c = sqrt (b * pi / 2)"
  define U where "U = (\<lambda>p. mu (p mod (B * q)) + c * \<bar>s p - mu (p mod (B * q))\<bar>)"
  define V where "V = (\<lambda>r. Max (set (map (\<lambda>j. U (r * q + j)) [0..<q])))"
  from setting have post: "posterior (model acqf) (add_t_batch_dim X) = Some post"
    and q: "0 < q"
    and shape_mean: "shape (mean post) = (bs @ [q]) @ [m]" and wf_mean: "well_formed (mean post)"
    and shape_samples: "shape samples = (n # bs @ [q]) @ [m]" and wf_samples: "well_formed samples"
    and len_w: "length w = m"
    by (auto simp: mc_setting_def samples_def w_def get_posterior_samples_def)
  have m1: "matmul samples w = Inr \<lparr>shape = n # bs @ [q], data = map s [0..<n * (B * q)]\<rparr>"
    using matmul_scalarize [OF shape_samples wf_samples len_w] by (simp add: s_def B_def)
  have m2: "matmul (mean post) w = Inr \<lparr>shape = bs @ [q], data = map mu [0..<B * q]\<rparr>"
    using matmul_scalarize [OF shape_mean wf_mean len_w] by (simp add: mu_def B_def)
  have it: "item (map_tensor (\<lambda>b. b * pi / 2) (beta acqf)) = Inr (b * pi / 2)"
    using beta by (simp add: item_def map_tensor_def)
  have sq: "math_sqrt (b * pi / 2) = Inr c"
  proof -
    have "0 \<le> b * pi / 2" using nonneg by simp
    then have "\<not> b * pi / 2 < 0" by (simp only: not_less)
    then show ?thesis unfolding math_sqrt_def c_def by (simp only: if_False)
  qed
  have dev: "broadcast_op (-) \<lparr>shape = n # bs @ [q], data = map s [0..<n * (B * q)]\<rparr>
                \<lparr>shape = bs @ [q], data = map mu [0..<B * q]\<rparr>
             = Inr \<lparr>shape = n # bs @ [q],
                    data = map (\<lambda>p. s p - mu (p mod (B * q))) [0..<n * (B * q)]\<rparr>"
    by (simp add: broadcast_op_front_l B_def concat_replicate_upt map2_upt)
  have ucb: "broadcast_op (+) \<lparr>shape = bs @ [q], data = map mu [0..<B * q]\<rparr>
                (map_tensor ((*) c) (map_tensor abs
                   \<lparr>shape = n # bs @ [q],
                    data = map (\<lambda>p. s p - mu (p mod (B * q))) [0..<n * (B * q)]\<rparr>))
             = Inr \<lparr>shape = n # bs @ [q], data = map U [0..<n * prod_list bs * q]\<rparr>"
    by (simp add: map_tensor_def broadcast_op_front_r B_def concat_replicate_upt map2_upt U_def
                  o_def mult.assoc)
  have best: "max_last \<lparr>shape = n # bs @ [q], data = map U [0..<n * prod_list bs * q]\<rparr>
              = Inr \<lparr>shape = n # bs, data = map V [0..<n * prod_list bs]\<rparr>"
    using max_last_rows [OF q, of "n # bs" U] by (simp add: V_def)
  have avg: "mean_dim0 \<lparr>shape = n # bs, data = map V [0..<n * prod_list bs]\<rparr>
             = \<lparr>shape = bs,
                data = map (\<lambda>i. if n = 0 then None
                                 else Some ((\<Sum>k\<leftarrow>[0..<n]. V (k * prod_list bs + i)) / real n))
                           [0..<prod_list bs]\<rparr>"
    by (rule mean_dim0_upt)
  have spec: "(\<Sum>k\<leftarrow>[0..<n]. V (k * prod_list bs + i)) / real n
              = scalarized_mc_ucb w b n (prod_list bs) q samples (mean post) i"
    if i: "i < prod_list bs" for i
  proof -
    have "U ((k * B + i) * q + j)
          = ucb_sample w b (outputs_at samples (length w) ((k * B + i) * q + j))
                           (outputs_at (mean post) (length w) (i * q + j))"
      if "j \<in> set [0..<q]" for j k
    proof -
      have "j < q" using that by simp
      with i have "((k * B + i) * q + j) mod (B * q) = i * q + j"
        unfolding B_def by (intro mod_position)
      then show ?thesis by (simp add: U_def ucb_sample_def s_def mu_def c_def len_w)
    qed
    then have "V (k * B + i)
          = Max (set (map (\<lambda>j. ucb_sample w b (outputs_at samples (length w) ((k * B + i) * q + j))
                           (outputs_at (mean post) (length w) (i * q + j))) [0..<q]))" for k
      unfolding V_def by (intro arg_cong [where f = Max] arg_cong [where f = set] map_cong refl)
    then show ?thesis by (simp add: scalarized_mc_ucb_def B_def)
  qed
  have "map (\<lambda>i. if n = 0 then None
                  else Some ((\<Sum>k\<leftarrow>[0..<n]. V (k * prod_list bs + i)) / real n)) [0..<prod_list bs]
        = map (\<lambda>i. if n = 0 then None
                  else Some (scalarized_mc_ucb w b n (prod_list bs) q samples (mean post) i))
              [0..<prod_list bs]"
    by (intro map_cong refl) (simp add: spec)
  with avg have avg': "mean_dim0 \<lparr>shape = n # bs, data = map V [0..<n * prod_list bs]\<rparr>
             = \<lparr>shape = bs,
                data = map (\<lambda>i. if n = 0 then None
                  else Some (scalarized_mc_ucb w b n (prod_list bs) q samples (mean post) i))
              [0..<prod_list bs]\<rparr>"
    by simp
  have "qScalarizedUpperConfidenceBound_forward_body acqf (add_t_batch_dim X) =
    (bind_err (matmul samples w) (\<lambda>scalarized_samples.
     bind_err (matmul (mean post) w) (\<lambda>scalarized_mean.
     bind_err (item (map_tensor (\<lambda>b. b * pi / 2) (beta acqf))) (\<lambda>r.
     bind_err (math_sqrt r) (\<lambda>c.
     bind_err (broadcast_op (-) scalarized_samples scalarized_mean) (\<lambda>dev.
     bind_err (broadcast_op (+) scalarized_mean
                 (map_tensor ((*) c) (map_tensor abs dev))) (\<lambda>ucb_samples.
     bind_err (max_last ucb_samples) (\<lambda>best.
     Inr (mean_dim0 best)))))))), acqf)"
    unfolding qScalarizedUpperConfidenceBound_forward_body_def
    by (simp add: post Let_def samples_def w_def)
  also have "\<dots> = (Inr \<lparr>shape = bs,
                data = map (\<lambda>i. if n = 0 then None
                  else Some (scalarized_mc_ucb w b n (prod_list bs) q samples (mean post) i))
              [0..<prod_list bs]\<rparr>, acqf)"
    by (simp add: bind_err_def m1 m2 it sq dev ucb best avg')
  finally show ?thesis by (simp add: samples_def w_def)
qed

section \<open>The value of the analytic score\<close>

lemma concat_map_upt:
  "concat (map (\<lambda>i. map (f i) [0..<m]) [0..<b]) = map (\<lambda>p. f (p div m) (p mod m)) [0..<b * m]"
proof (induction b)
  case 0
  then show ?case by simp
next
  case (Suc b)
  have "map (\<lambda>p. f (p div m) (p mod m)) [b * m..<b * m + m] = map (f b) [0..<m]"
  proof (rule nth_equalityI)
    show "length (map (\<lambda>p. f (p div m) (p mod m)) [b * m..<b * m + m]) = length (map (f b) [0..<m])"
      by simp
  next
    fix k assume "k < length (map (\<lambda>p. f (p div m) (p mod m)) [b * m..<b * m + m])"
    then have "k < m" by simp
    then show "map (\<lambda>p. f (p div m) (p mod m)) [b * m..<b * m + m] ! k = map (f b) [0..<m] ! k"
      by simp
  qed
  moreover have "[0..<Suc b * m] = [0..<b * m] @ [b * m..<b * m + m]"
    using upt_add_eq_append [of 0 "b * m" m] by (simp add: add.commute)
  ultimately show ?case using Suc by simp
qed

lemma replicate_weights_nth:
  assumes "i < b" and "k < length w"
  shows "concat (replicate b w) ! (i * length w + k) = w ! k"
proof -
  have "i * length w + length w \<le> b * length w" using assms(1) by (rule block_bound)
  then have "i * length w + k < b * length w" using assms(2) by simp
  then show ?thesis using assms(2) by (simp add: nth_concat_replicate)
qed

lemma expand_weights:
  "expand \<lparr>shape = [1, length w, 1], data = w\<rparr> [b, length w, 1]
   = Inr \<lparr>shape = [b, length w, 1], data = concat (replicate b w)\<rparr>"
proof -
  have "expand_aligned (b # [length w, 1]) (Suc 0 # [length w, 1]) w = concat (replicate b w)"
    by (rule expand_aligned_front) simp
  then show ?thesis
    by (simp add: expand_def expandable_def pad_shape_def del: expand_aligned.simps)
qed

lemma permute_weights:
  "permute_021 \<lparr>shape = [b, length w, 1], data = concat (replicate b w)\<rparr>
   = Inr \<lparr>shape = [b, 1, length w], data = concat (replicate b w)\<rparr>"
proof -
  define D where "D = concat (replicate b w)"
  have len: "length D = b * length w" by (simp add: D_def)
  have "concat (map (\<lambda>i. map (\<lambda>r. D ! (i * length w + r)) [0..<length w]) [0..<b])
        = map (\<lambda>p. D ! (p div length w * length w + p mod length w)) [0..<b * length w]"
    by (rule concat_map_upt)
  also have "\<dots> = map (\<lambda>p. D ! p) [0..<length D]" by (simp add: len)
  also have "\<dots> = D" by (rule map_nth)
  finally show ?thesis by (simp add: permute_021_def D_def)
qed

lemma bmm_cov_weights:
  assumes "shape covs = [b, m, m]" and "length w = m"
  shows "bmm covs \<lparr>shape = [b, m, 1], data = concat (replicate b w)\<rparr>
         = Inr \<lparr>shape = [b, m, 1],
                data = concat (map (\<lambda>i. map (\<lambda>r. \<Sum>k\<leftarrow>[0..<m]. cov_entry covs m i r k * w ! k)
                                         [0..<m]) [0..<b])\<rparr>"
proof -
  have "(\<Sum>k\<leftarrow>[0..<m]. data covs ! (i * m * m + r * m + k) * concat (replicate b w) ! (i * m + k))
        = (\<Sum>k\<leftarrow>[0..<m]. cov_entry covs m i r k * w ! k)"
    if "i \<in> set [0..<b]" for i r
  proof -
    have "concat (replicate b w) ! (i * m + k) = w ! k" if "k \<in> set [0..<m]" for k
      using replicate_weights_nth [of i b k w] that \<open>i \<in> set [0..<b]\<close> assms(2) by simp
    then show ?thesis
      unfolding cov_entry_def by (intro arg_cong [where f = sum_list] map_cong refl) simp
  qed
  then have eq: "map (\<lambda>i. map (\<lambda>r. \<Sum>k\<leftarrow>[0..<m]. data covs ! (i * m * m + r * m + k)
                                    * concat (replicate b w) ! (i * m + k)) [0..<m]) [0..<b]
             = map (\<lambda>i. map (\<lambda>r. \<Sum>k\<leftarrow>[0..<m]. cov_entry covs m i r k * w ! k) [0..<m]) [0..<b]"
    by (intro map_cong refl) simp
  show ?thesis using assms by (simp add: bmm_def eq)
qed

lemma bmm_weights_cov_weights:
  assumes "length w = m"
  shows "bmm \<lparr>shape = [b, 1, m], data = concat (replicate b w)\<rparr>
             \<lparr>shape = [b, m, 1], data = concat (map (\<lambda>i. map (g i) [0..<m]) [0..<b])\<rparr>
         = Inr \<lparr>shape = [b, 1, 1], data = map (\<lambda>i. \<Sum>k\<leftarrow>[0..<m]. w ! k * g i k) [0..<b]\<rparr>"
proof -
  have "(\<Sum>k\<leftarrow>[0..<m]. concat (replicate b w) ! (i * m + k)
                        * concat (map (\<lambda>i. map (g i) [0..<m]) [0..<b]) ! (i * m + k))
        = (\<Sum>k\<leftarrow>[0..<m]. w ! k * g i k)"
    if i: "i \<in> set [0..<b]" for i
  proof -
    have "concat (replicate b w) ! (i * m + k)
            * concat (map (\<lambda>i. map (g i) [0..<m]) [0..<b]) ! (i * m + k) = w ! k * g i k"
      if k: "k \<in> set [0..<m]" for k
    proof -
      have w: "concat (replicate b w) ! (i * m + k) = w ! k"
        using replicate_weights_nth [of i b k w] i k assms by simp
      have "i * m + m \<le> b * m" using i by (intro block_bound) simp
      then have lt: "i * m + k < b * m" using k by simp
      have "concat (map (\<lambda>i. map (g i) [0..<m]) [0..<b]) ! (i * m + k)
            = g ((i * m + k) div m) ((i * m + k) mod m)"
        using lt by (simp add: concat_map_upt)
      also have "\<dots> = g i k" using k by simp
      finally show ?thesis using w by simp
    qed
    then show ?thesis by (intro arg_cong [where f = sum_list] map_cong refl)
  qed
  then have eq: "map (\<lambda>i. \<Sum>k\<leftarrow>[0..<m]. concat (replicate b w) ! (i * m + k)
                        * concat (map (\<lambda>i. map (g i) [0..<m]) [0..<b]) ! (i * m + k)) [0..<b]
             = map (\<lambda>i. \<Sum>k\<leftarrow>[0..<m]. w ! k * g i k) [0..<b]"
    by (intro map_cong refl)
  show ?thesis by (simp add: bmm_def eq)
qed

lemma quadratic_form_nested:
  "(\<Sum>k\<leftarrow>[0..<length w]. w ! k * (\<Sum>c\<leftarrow>[0..<length w]. C k c * w ! c)) = quadratic_form w C"
  by (simp add: quadratic_form_def sum_list_const_mult mult.assoc)

lemma expand_beta:
  assumes "well_formed t" and "shape t = [] \<or> shape t = [1] \<or> shape t = [b]"
  shows "expand t [b] = Inr \<lparr>shape = [b], data = map (beta_at t) [0..<b]\<rparr>"
proof -
  consider (scalar) "shape t = [] \<or> shape t = [1]" | (batch) "shape t = [b]" "b \<noteq> 1"
    using assms(2) by auto
  then show ?thesis
  proof cases
    case scalar
    then have "length (data t) = 1" using assms(1) by (auto simp: well_formed_def)
    then obtain x where x: "data t = [x]" by (cases "data t") simp_all
    have "map (beta_at t) [0..<b] = replicate b x"
      by (rule nth_equalityI) (simp_all add: beta_at_def x)
    with scalar x show ?thesis
      by (auto simp: expand_def expandable_def pad_shape_def rows_def)
  next
    case batch
    then have len: "length (data t) = b" using assms(1) by (simp add: well_formed_def)
    have "map (beta_at t) [0..<b] = data t"
      using len batch(2) by (intro nth_equalityI) (simp_all add: beta_at_def)
    with batch len expand_aligned_same [of "data t" "[b]"] show ?thesis
      by (simp add: expand_def expandable_def pad_shape_def del: expand_aligned.simps)
  qed
qed

lemma broadcast_op_same:
  "broadcast_op f \<lparr>shape = [b], data = map g [0..<b]\<rparr> \<lparr>shape = [b], data = map h [0..<b]\<rparr>
   = Inr \<lparr>shape = [b], data = map (\<lambda>i. f (g i) (h i)) [0..<b]\<rparr>"
  using expand_aligned_same [of "map g [0..<b]" "[b]"] expand_aligned_same [of "map h [0..<b]" "[b]"]
  by (simp add: broadcast_op_def broadcast_shapes_same pad_shape_def map2_upt
           del: expand_aligned.simps)

lemma to_beta [simp]: "(acqf :: ScalarizedUpperConfidenceBound)\<lparr>beta := to (beta acqf) X\<rparr> = acqf"
  by (simp add: to_def)

lemma analytic_body_value:
  assumes setting: "analytic_setting acqf X b d m post"
  shows "ScalarizedUpperConfidenceBound_forward_body acqf (add_t_batch_dim X) =
    (Inr \<lparr>shape = [b],
          data = map (\<lambda>i. scalarized_ucb (maximize acqf) (weights acqf) (beta_at (beta acqf) i)
                            (outputs_at (mean post) m i) (cov_entry (covariance_matrix post) m i))
                     [0..<b]\<rparr>, acqf)"
proof -
  define w where "w = weights acqf"
  define covs where "covs = covariance_matrix post"
  define mu where "mu = (\<lambda>i. scalarize w (outputs_at (mean post) m i))"
  define var where "var = (\<lambda>i. quadratic_form w (cov_entry covs m i))"
  from setting have X: "shape (add_t_batch_dim X) = [b, 1, d]"
    and post: "posterior (model acqf) (add_t_batch_dim X) = Some post"
    and shape_mean: "shape (mean post) = [b, 1, m]" and wf_mean: "well_formed (mean post)"
    and shape_covs: "shape covs = [b, m, m]"
    and len_w: "length w = m"
    and wf_beta: "well_formed (beta acqf)"
    and shape_beta: "shape (beta acqf) = [] \<or> shape (beta acqf) = [1] \<or> shape (beta acqf) = [b]"
    by (auto simp: analytic_setting_def w_def covs_def)
  have sq: "squeeze_m2 (mean post) = Inr ((mean post)\<lparr>shape := [b, m]\<rparr>)"
    using shape_mean by (simp add: squeeze_m2_def Let_def)
  have "matmul ((mean post)\<lparr>shape := [b, m]\<rparr>) w
        = Inr \<lparr>shape = [b], data = map (\<lambda>p. scalarize w (outputs_at ((mean post)\<lparr>shape := [b, m]\<rparr>) m p))
                                       [0..<prod_list [b]]\<rparr>"
    using wf_mean shape_mean len_w by (intro matmul_scalarize) (simp_all add: well_formed_def)
  then have m1: "matmul ((mean post)\<lparr>shape := [b, m]\<rparr>) w = Inr \<lparr>shape = [b], data = map mu [0..<b]\<rparr>"
    by (simp add: mu_def outputs_at_def)
  have ex: "expand \<lparr>shape = [1, length w, 1], data = w\<rparr> [b, length w, 1]
            = Inr \<lparr>shape = [b, m, 1], data = concat (replicate b w)\<rparr>"
    using expand_weights [of w b] len_w by simp
  have pm: "permute_021 \<lparr>shape = [b, m, 1], data = concat (replicate b w)\<rparr>
            = Inr \<lparr>shape = [b, 1, m], data = concat (replicate b w)\<rparr>"
    using permute_weights [of b w] len_w by simp
  have b1: "bmm covs \<lparr>shape = [b, m, 1], data = concat (replicate b w)\<rparr>
            = Inr \<lparr>shape = [b, m, 1],
                   data = concat (map (\<lambda>i. map (\<lambda>r. \<Sum>k\<leftarrow>[0..<m]. cov_entry covs m i r k * w ! k)
                                            [0..<m]) [0..<b])\<rparr>"
    using shape_covs len_w by (rule bmm_cov_weights)
  have "bmm \<lparr>shape = [b, 1, m], data = concat (replicate b w)\<rparr>
            \<lparr>shape = [b, m, 1],
             data = concat (map (\<lambda>i. map (\<lambda>r. \<Sum>k\<leftarrow>[0..<m]. cov_entry covs m i r k * w ! k)
                                      [0..<m]) [0..<b])\<rparr>
        = Inr \<lparr>shape = [b, 1, 1],
                data = map (\<lambda>i. \<Sum>r\<leftarrow>[0..<m]. w ! r * (\<Sum>k\<leftarrow>[0..<m]. cov_entry covs m i r k * w ! k))
                           [0..<b]\<rparr>"
    using len_w by (rule bmm_weights_cov_weights)
  then have b2: "bmm \<lparr>shape = [b, 1, m], data = concat (replicate b w)\<rparr>
            \<lparr>shape = [b, m, 1],
             data = concat (map (\<lambda>i. map (\<lambda>r. \<Sum>k\<leftarrow>[0..<m]. cov_entry covs m i r k * w ! k)
                                      [0..<m]) [0..<b])\<rparr>
        = Inr \<lparr>shape = [b, 1, 1], data = map var [0..<b]\<rparr>"
    using quadratic_form_nested [of w] by (simp add: var_def len_w)
  have vw: "view \<lparr>shape = [b, 1, 1], data = map var [0..<b]\<rparr> [b]
            = Inr \<lparr>shape = [b], data = map var [0..<b]\<rparr>"
    by (simp add: view_def)
  have eb: "expand (beta acqf) [b] = Inr \<lparr>shape = [b], data = map (beta_at (beta acqf)) [0..<b]\<rparr>"
    using wf_beta shape_beta by (rule expand_beta)
  have rad: "broadcast_op (*) \<lparr>shape = [b], data = map (beta_at (beta acqf)) [0..<b]\<rparr>
               \<lparr>shape = [b], data = map var [0..<b]\<rparr>
             = Inr \<lparr>shape = [b], data = map (\<lambda>i. beta_at (beta acqf) i * var i) [0..<b]\<rparr>"
    by (rule broadcast_op_same)
  have fin: "broadcast_op f \<lparr>shape = [b], data = map mu [0..<b]\<rparr>
               (map_tensor torch_sqrt
                  \<lparr>shape = [b], data = map (\<lambda>i. beta_at (beta acqf) i * var i) [0..<b]\<rparr>)
             = Inr \<lparr>shape = [b],
                    data = map (\<lambda>i. f (mu i) (torch_sqrt (beta_at (beta acqf) i * var i))) [0..<b]\<rparr>"
    for f :: "real \<Rightarrow> real option \<Rightarrow> real option"
    using broadcast_op_same [of f b mu "\<lambda>i. torch_sqrt (beta_at (beta acqf) i * var i)"]
    by (simp add: map_tensor_def o_def)
  have "ScalarizedUpperConfidenceBound_forward_body acqf (add_t_batch_dim X) =
      (bind_err (squeeze_m2 (mean post)) (\<lambda>means.
       bind_err (matmul means w) (\<lambda>scalarized_mean.
       bind_err (expand \<lparr>shape = [1, length w, 1], data = w\<rparr> [b, length w, 1]) (\<lambda>weights2.
       bind_err (permute_021 weights2) (\<lambda>weights_transpose.
       bind_err (bmm covs weights2) (\<lambda>cw.
       bind_err (bmm weights_transpose cw) (\<lambda>wcw.
       bind_err (view wcw [b]) (\<lambda>scalarized_variance.
       bind_err (expand (beta acqf) (shape scalarized_mean)) (\<lambda>beta_e.
       bind_err (broadcast_op (*) beta_e scalarized_variance) (\<lambda>radicand.
       if maximize acqf then broadcast_op nan_add scalarized_mean (map_tensor torch_sqrt radicand)
       else broadcast_op nan_sub scalarized_mean (map_tensor torch_sqrt radicand)))))))))), acqf)"
    unfolding ScalarizedUpperConfidenceBound_forward_body_def
    by (simp add: post X Let_def w_def covs_def)
  also have "\<dots> = (Inr \<lparr>shape = [b],
          data = map (\<lambda>i. (if maximize acqf then nan_add else nan_sub) (mu i)
                            (torch_sqrt (beta_at (beta acqf) i * var i))) [0..<b]\<rparr>, acqf)"
    by (simp add: bind_err_def sq m1 ex pm b1 b2 vw eb rad fin del: One_nat_def)
  also have "\<dots> = (Inr \<lparr>shape = [b],
          data = map (\<lambda>i. scalarized_ucb (maximize acqf) w (beta_at (beta acqf) i)
                            (outputs_at (mean post) m i) (cov_entry covs m i)) [0..<b]\<rparr>, acqf)"
    by (simp add: scalarized_ucb_def torch_sqrt_def nan_add_def nan_sub_def mu_def var_def)
  finally show ?thesis by (simp add: w_def covs_def)
qed

section \<open>The decorated methods\<close>

lemma t_batch_dims:
  "shape (add_t_batch_dim X) = bs @ [q, d] \<Longrightarrow> 2 \<le> length (shape X)"
  by (cases "length (shape X) = 2") (simp_all add: add_t_batch_dim_def)

lemma t_batch_q:
  assumes "shape (add_t_batch_dim X) = [b, q, d]"
  shows "shape X ! (length (shape X) - 2) = q"
proof (cases "length (shape X) = 2")
  case True
  with assms show ?thesis by (simp add: add_t_batch_dim_def unsqueeze0_def)
next
  case False
  with assms show ?thesis by (simp add: add_t_batch_dim_def)
qed

lemma mc_forward_value:
  assumes setting: "mc_setting acqf X bs q d m n post"
    and beta: "data (beta acqf) = [b]" and nonneg: "0 \<le> b"
  shows "qScalarizedUpperConfidenceBound_forward acqf X =
    (Inr \<lparr>shape = bs,
          data = map (\<lambda>i. if n = 0 then None
                          else Some (scalarized_mc_ucb (weights acqf) b n (prod_list bs) q
                                       (get_posterior_samples acqf post) (mean post) i))
                     [0..<prod_list bs]\<rparr>, acqf)"
proof -
  from setting have dims: "2 \<le> length (shape X)" and single: "\<not> is_ensemble (model acqf)"
    by (auto simp: mc_setting_def dest: t_batch_dims)
  then show ?thesis
    by (simp add: qScalarizedUpperConfidenceBound_forward_def t_batch_mode_transform_def
        average_over_ensemble_models_def mc_body_value [OF assms])
qed

lemma analytic_forward_value:
  assumes setting: "analytic_setting acqf X b d m post"
  shows "ScalarizedUpperConfidenceBound_forward acqf X =
    (Inr \<lparr>shape = [b],
          data = map (\<lambda>i. scalarized_ucb (maximize acqf) (weights acqf) (beta_at (beta acqf) i)
                            (outputs_at (mean post) m i) (cov_entry (covariance_matrix post) m i))
                     [0..<b]\<rparr>, acqf)"
proof -
  from setting have X: "shape (add_t_batch_dim X) = [b, 1, d]"
    and single: "\<not> is_ensemble (model acqf)"
    by (auto simp: analytic_setting_def)
  from X have dims: "2 \<le> length (shape X)" using t_batch_dims [of X "[b]" 1 d] by simp
  from X have q: "shape X ! (length (shape X) - 2) = 1" by (rule t_batch_q)
  from dims q single show ?thesis
    by (simp add: ScalarizedUpperConfidenceBound_forward_def t_batch_mode_transform_def
        average_over_ensemble_models_def analytic_body_value [OF assms])
qed

lemma body_keeps_object_mc:
  "snd (qScalarizedUpperConfidenceBound_forward_body acqf X) = acqf"
  by (simp add: qScalarizedUpperConfidenceBound_forward_body_def)

lemma average_keeps_object:
  "snd (average_over_ensemble_models method acqf X) = snd (method acqf X)"
  by (simp add: average_over_ensemble_models_def split: prod.splits sum.splits)

lemma t_batch_keeps_object:
  assumes "\<And>a Y. snd (method a Y) = a"
  shows "snd (t_batch_mode_transform expected_q method acqf X) = acqf"
  using assms by (simp add: t_batch_mode_transform_def)

lemma forward_keeps_object_mc:
  "snd (qScalarizedUpperConfidenceBound_forward acqf X) = acqf"
  unfolding qScalarizedUpperConfidenceBound_forward_def
  by (rule t_batch_keeps_object) (simp add: average_keeps_object body_keeps_object_mc)

text \<open>
  The analytic method is written for one t-batch dimension (the code says
  \<^emph>\<open>assume single batch dimension\<close>): with more, \<^verbatim>\<open>permute(0, 2, 1)\<close> raises at the latest.
\<close>

lemma bind_err_error:
  assumes "\<And>x. r = Inr x \<Longrightarrow> \<exists>e. f x = Inl e"
  shows "\<exists>e. bind_err r f = Inl e"
  using assms by (cases r) (auto simp: bind_err_def)

lemma analytic_body_single_batch_only:
  assumes "3 < length (shape X)"
  shows "\<exists>e. fst (ScalarizedUpperConfidenceBound_forward_body acqf X) = Inl e"
proof (cases "posterior (model acqf) X")
  case None
  then show ?thesis by (simp add: ScalarizedUpperConfidenceBound_forward_body_def Let_def)
next
  case (Some post)
  have perm: "\<exists>e. bind_err (permute_021 weights2) g = Inl e"
    if "expand \<lparr>shape = [1, length (weights acqf), 1], data = weights acqf\<rparr>
          (take (length (shape X) - 2) (shape X) @ [length (weights acqf), 1]) = Inr weights2"
    for weights2 and g :: "real tensor \<Rightarrow> error + real option tensor"
  proof -
    from that have "shape weights2 = take (length (shape X) - 2) (shape X) @ [length (weights acqf), 1]"
      by (auto simp: expand_def split: if_splits)
    with assms have "length (shape weights2) \<noteq> 3" by simp
    then show ?thesis by (simp add: permute_021_def bind_err_def)
  qed
  show ?thesis
    unfolding ScalarizedUpperConfidenceBound_forward_body_def
    by (simp add: Some Let_def to_def) (intro bind_err_error perm, simp)
qed

lemma analytic_forward_single_batch_only:
  assumes "3 < length (shape X)"
  shows "\<exists>e. fst (ScalarizedUpperConfidenceBound_forward acqf X) = Inl e"
proof -
  from assms have "add_t_batch_dim X = X" by (simp add: add_t_batch_dim_def)
  with analytic_body_single_batch_only [OF assms, of acqf] show ?thesis
    by (auto simp: ScalarizedUpperConfidenceBound_forward_def t_batch_mode_transform_def
        average_over_ensemble_models_def split: prod.splits sum.splits)
qed







text \<open>
  C1. For a design-point batch \<open>X\<close>, the value of
  \<^verbatim>\<open>qScalarizedUpperConfidenceBound.forward\<close> is computed in these steps: samples are drawn from
  the posterior at \<open>X\<close>; the outputs of every sample and of the posterior mean are combined
  linearly with the weight vector; per sample the value is the scalarized mean plus
  \<open>sqrt (beta * pi / 2)\<close> times the absolute deviation of the scalarized sample from the
  scalarized mean; the maximum is taken over the \<open>q\<close> candidates and the average over the
  samples. (Without any sample the average is NaN.)
\<close>

theorem mc_score_follows_steps:
  assumes "mc_setting acqf X bs q d m n post"
    and "data (beta acqf) = [b]" and "0 \<le> b"
  shows "fst (qScalarizedUpperConfidenceBound_forward acqf X) =
    Inr \<lparr>shape = bs,
         data = map (\<lambda>i. if n = 0 then None
                         else Some (scalarized_mc_ucb (weights acqf) b n (prod_list bs) q
                                      (get_posterior_samples acqf post) (mean post) i))
                    [0..<prod_list bs]\<rparr>"
  by (simp add: mc_forward_value [OF assms])

text \<open>
  C2. For a batch \<open>X\<close> with \<open>q = 1\<close>, the value of
  \<^verbatim>\<open>ScalarizedUpperConfidenceBound.forward\<close> in every t-batch is the weight vector dotted with
  the posterior mean, plus (\<open>maximize\<close>) or minus (otherwise) the square root of \<open>beta\<close>
  times the quadratic form \<open>w\<^sup>T C w\<close> of the posterior covariance matrix \<open>C\<close>; it is NaN
  where that product is negative.
\<close>

theorem analytic_score_formula:
  assumes "analytic_setting acqf X b d m post"
  shows "fst (ScalarizedUpperConfidenceBound_forward acqf X) =
    Inr \<lparr>shape = [b],
         data = map (\<lambda>i. scalarized_ucb (maximize acqf) (weights acqf) (beta_at (beta acqf) i)
                           (outputs_at (mean post) m i) (cov_entry (covariance_matrix post) m i))
                    [0..<b]\<rparr>"
  by (simp add: analytic_forward_value [OF assms])

text \<open>
  C4. Both \<^verbatim>\<open>forward\<close> methods return one score per t-batch of \<open>X\<close>, in a tensor of the
  t-batch shape of \<open>X\<close>: one-dimensional for \<open>X\<close> of shape \<open>b x q x d\<close> or \<open>q x d\<close>, which
  is all the analytic method accepts (with more t-batch dimensions it raises), and of as
  many dimensions as \<open>X\<close> has t-batch dimensions for the Monte Carlo method. The numbers
  \<open>m\<close> and \<open>m'\<close> of outputs of the models do not occur in the shape, given one weight per
  output.
\<close>

theorem forward_output_shape:
  assumes "mc_setting acqf X bs q d m n post"
    and "data (beta acqf) = [c]" and "0 \<le> c"
    and "analytic_setting acqf' X' b' d' m' post'"
    and "3 < length (shape X'')"
  shows "(\<exists>out. fst (qScalarizedUpperConfidenceBound_forward acqf X) = Inr out
            \<and> shape out = butlast (butlast (shape (add_t_batch_dim X)))
            \<and> shape out = bs \<and> length (data out) = prod_list bs)
       \<and> (\<exists>out. fst (ScalarizedUpperConfidenceBound_forward acqf' X') = Inr out
            \<and> shape out = [b'] \<and> length (data out) = b')
       \<and> (\<exists>e. fst (ScalarizedUpperConfidenceBound_forward acqf'' X'') = Inl e)"
proof -
  from assms(1) have "butlast (butlast (shape (add_t_batch_dim X))) = bs"
    by (simp add: mc_setting_def butlast_append)
  then show ?thesis
    by (simp add: mc_forward_value [OF assms(1-3)] analytic_forward_value [OF assms(4)]
        analytic_forward_single_batch_only [OF assms(5)])
qed










section \<open>The constructor and the decorator\<close>

lemma forward_keeps_sampler:
  "sampler (snd (qScalarizedUpperConfidenceBound_forward acqf X)) = sampler acqf"
  by (simp add: qScalarizedUpperConfidenceBound_forward_def t_batch_mode_transform_def
      average_over_ensemble_models_def qScalarizedUpperConfidenceBound_forward_body_def
      split: sum.splits prod.splits)

text \<open>
  C9. Constructed without a sampler, \<^verbatim>\<open>qScalarizedUpperConfidenceBound\<close> holds a Sobol
  quasi-Monte Carlo normal sampler with sample shape 512, and an evaluation uses exactly
  512 posterior draws: in a call of \<^verbatim>\<open>forward\<close> the number \<open>n\<close> of samples is 512, the
  samples are the \<open>512 * (t-batches * q * m)\<close> numbers that this sampler generates for the
  posterior, every score is the average over these 512 draws, and the sampler is still in
  place after the call.
\<close>

theorem default_sampler_draws_512:
  assumes setting: "mc_setting (qScalarizedUpperConfidenceBound_init sobol gp bt w None) X bs q d m n post"
    and beta: "data bt = [b]" and nonneg: "0 \<le> b"
  shows "sampler (qScalarizedUpperConfidenceBound_init sobol gp bt w None)
           = SobolQMCNormalSampler sobol [512]
       \<and> n = 512
       \<and> get_posterior_samples (qScalarizedUpperConfidenceBound_init sobol gp bt w None) post
           = \<lparr>shape = 512 # bs @ [q, m], data = sobol [512] post\<rparr>
       \<and> length (sobol [512] post) = 512 * (prod_list bs * q * m)
       \<and> fst (qScalarizedUpperConfidenceBound_forward
                (qScalarizedUpperConfidenceBound_init sobol gp bt w None) X)
           = Inr \<lparr>shape = bs,
                  data = map (\<lambda>i. Some (scalarized_mc_ucb w b 512 (prod_list bs) q
                                          \<lparr>shape = 512 # bs @ [q, m], data = sobol [512] post\<rparr>
                                          (mean post) i))
                             [0..<prod_list bs]\<rparr>
       \<and> sampler (snd (qScalarizedUpperConfidenceBound_forward
                         (qScalarizedUpperConfidenceBound_init sobol gp bt w None) X))
           = SobolQMCNormalSampler sobol [512]"
proof -
  let ?acqf = "qScalarizedUpperConfidenceBound_init sobol gp bt w None"
  have s: "sampler ?acqf = SobolQMCNormalSampler sobol [512]"
    and w: "weights ?acqf = w" and b: "data (beta ?acqf) = [b]"
    using beta by (simp_all add: qScalarizedUpperConfidenceBound_init_def)
  from setting have n: "n = 512"
    by (simp add: mc_setting_def s SobolQMCNormalSampler_def)
  from setting have shape_mean: "shape (mean post) = bs @ [q, m]"
    by (simp add: mc_setting_def)
  then have samples: "get_posterior_samples ?acqf post
                      = \<lparr>shape = 512 # bs @ [q, m], data = sobol [512] post\<rparr>"
    by (simp add: get_posterior_samples_def s SobolQMCNormalSampler_def)
  from setting have "well_formed (get_posterior_samples ?acqf post)"
    by (simp add: mc_setting_def)
  then have len: "length (sobol [512] post) = 512 * (prod_list bs * q * m)"
    by (simp add: samples well_formed_def)
  have res: "fst (qScalarizedUpperConfidenceBound_forward ?acqf X)
           = Inr \<lparr>shape = bs,
                  data = map (\<lambda>i. Some (scalarized_mc_ucb w b 512 (prod_list bs) q
                                          \<lparr>shape = 512 # bs @ [q, m], data = sobol [512] post\<rparr>
                                          (mean post) i))
                             [0..<prod_list bs]\<rparr>"
    using mc_forward_value [OF setting b nonneg] by (simp add: n w samples)
  from s n samples len res show ?thesis by (simp add: forward_keeps_sampler)
qed

text \<open>
  C8. \<^verbatim>\<open>ScalarizedUpperConfidenceBound.forward\<close> is decorated with
  \<^verbatim>\<open>t_batch_mode_transform(expected_q=1)\<close>: on an input whose \<open>q\<close> dimension is not 1 the call
  raises and returns no score.
\<close>

theorem analytic_rejects_q_not_1:
  assumes "2 \<le> length (shape X)" and "shape X ! (length (shape X) - 2) \<noteq> 1"
  shows "ScalarizedUpperConfidenceBound_forward acqf X = (Inl BatchModeError, acqf)"
  using assms
  by (simp add: ScalarizedUpperConfidenceBound_forward_def t_batch_mode_transform_def)

section \<open>Monte Carlo and analytic score\<close>






section \<open>Rounding\<close>

lemma round_even_of_int [simp]: "round_even (of_int k) = k"
  by (simp add: round_even_def)

lemma round_even_near:
  assumes "\<bar>y - of_int n\<bar> < 1 / 2"
  shows "round_even y = n"
proof -
  have "\<lfloor>y\<rfloor> = n \<or> \<lfloor>y\<rfloor> = n - 1" using assms by linarith
  then show ?thesis
  proof
    assume f: "\<lfloor>y\<rfloor> = n"
    then have "y - of_int n < 1 / 2" using assms by linarith
    with f show ?thesis by (simp add: round_even_def)
  next
    assume f: "\<lfloor>y\<rfloor> = n - 1"
    have "1 / 2 < y - (of_int n - 1)" using assms by linarith
    then have "1 / 2 < y - of_int (n - 1)" "\<not> y - of_int (n - 1) < 1 / 2" by simp_all
    with f show ?thesis by (simp add: round_even_def Let_def)
  qed
qed

lemma round_even_tie:
  assumes "\<bar>y - of_int n\<bar> = 1 / 2" and "even n"
  shows "round_even y = n"
proof -
  have "y = of_int n + 1 / 2 \<or> y = of_int n - 1 / 2" using assms(1) by linarith
  then show ?thesis
  proof
    assume y: "y = of_int n + 1 / 2"
    then have "\<lfloor>y\<rfloor> = n" by linarith
    with y assms(2) show ?thesis by (simp add: round_even_def)
  next
    assume y: "y = of_int n - 1 / 2"
    then have f: "\<lfloor>y\<rfloor> = n - 1" by linarith
    have "y - of_int (n - 1) = 1 / 2" using y by simp
    with f assms(2) show ?thesis by (simp add: round_even_def Let_def)
  qed
qed

lemma round_even_bounds:
  "of_int (round_even y) \<le> y + 1 / 2" "y - 1 / 2 \<le> of_int (round_even y)"
  unfolding round_even_def Let_def by (auto; linarith)+

lemma round_even_ge:
  assumes "of_int k \<le> y"
  shows "k \<le> round_even y"
proof -
  have "k \<le> \<lfloor>y\<rfloor>" using assms by (simp add: le_floor_iff)
  then show ?thesis by (auto simp: round_even_def Let_def)
qed

lemma round_even_le:
  assumes "y \<le> of_int k"
  shows "round_even y \<le> k"
proof (cases "y = of_int k")
  case True
  then show ?thesis by simp
next
  case False
  with assms have "y < of_int k" by simp
  then have "\<lfloor>y\<rfloor> < k" by (simp add: floor_less_iff)
  then show ?thesis by (auto simp: round_even_def Let_def)
qed

lemma round_even_mono:
  assumes "x \<le> y"
  shows "round_even x \<le> round_even y"
proof (cases "\<lfloor>x\<rfloor> = \<lfloor>y\<rfloor>")
  case True
  with assms show ?thesis by (auto simp: round_even_def Let_def)
next
  case False
  with assms have "\<lfloor>x\<rfloor> < \<lfloor>y\<rfloor>" using floor_mono [OF assms] by simp
  then have "\<lfloor>x\<rfloor> + 1 \<le> \<lfloor>y\<rfloor>" by simp
  moreover have "round_even x \<le> \<lfloor>x\<rfloor> + 1" by (auto simp: round_even_def Let_def)
  moreover have "\<lfloor>y\<rfloor> \<le> round_even y" by (auto simp: round_even_def Let_def)
  ultimately show ?thesis by linarith
qed

lemma round_even_minus: "round_even (- y) = - round_even y"
proof (cases "y = of_int \<lfloor>y\<rfloor>")
  case True
  then obtain k where "y = of_int k" ..
  then have "- y = of_int (- k)" by simp
  then show ?thesis using \<open>y = of_int k\<close> by (simp only: round_even_of_int)
next
  case False
  then have lt: "of_int \<lfloor>y\<rfloor> < y" by (metis of_int_floor_le order_less_le)
  have c: "\<lfloor>- y\<rfloor> = - \<lfloor>y\<rfloor> - 1" using False lt by linarith
  show ?thesis
    using lt by (auto simp: round_even_def Let_def c)
qed

lemma precision_pos: "0 < precision d"
  by (cases d) (simp_all add: precision_def)

lemma two_powr_nat: "0 \<le> j \<Longrightarrow> (2::real) powr of_int j = of_int (2 ^ nat j)"
proof -
  assume "0 \<le> j"
  then have "(2::real) powr of_int j = 2 powr real (nat j)" by simp
  also have "\<dots> = 2 ^ nat j" by (simp only: powr_realpow zero_less_numeral)
  finally show ?thesis by simp
qed

lemma two_powr_split: "(2::real) powr of_int (a + b) = 2 powr of_int a * 2 powr of_int b"
  by (simp add: powr_add)

lemma two_powr_mono: "a \<le> b \<Longrightarrow> (2::real) powr of_int a \<le> 2 powr of_int b"
  by simp

lemma floor_log2_bounds:
  assumes "0 < x"
  shows "2 powr of_int \<lfloor>log 2 x\<rfloor> \<le> x" "x < 2 powr of_int (\<lfloor>log 2 x\<rfloor> + 1)"
proof -
  have "\<lfloor>log 2 x\<rfloor> = \<lfloor>log 2 x\<rfloor>" ..
  then have "2 powr of_int \<lfloor>log 2 x\<rfloor> \<le> x \<and> x < 2 powr (of_int \<lfloor>log 2 x\<rfloor> + 1)"
    using assms by (subst (asm) floor_log_eq_powr_iff) simp_all
  then show "2 powr of_int \<lfloor>log 2 x\<rfloor> \<le> x" "x < 2 powr of_int (\<lfloor>log 2 x\<rfloor> + 1)"
    by simp_all
qed

lemma floor_log2_mono:
  assumes "0 < x" and "x \<le> y"
  shows "\<lfloor>log 2 x\<rfloor> \<le> \<lfloor>log 2 y\<rfloor>"
  using assms by (intro floor_mono) simp

lemma ulp_exponent_minus [simp]: "ulp_exponent d (- x) = ulp_exponent d x"
  by (simp add: ulp_exponent_def)

lemma ulp_exponent_ge_emin: "emin d \<le> ulp_exponent d x"
  by (simp add: ulp_exponent_def)

lemma round_real_minus: "round_real d (- x) = - round_real d x"
  by (simp add: round_real_def round_even_minus)

lemma round_even_zero [simp]: "round_even 0 = 0"
  using round_even_of_int [of 0] by simp

lemma round_real_zero [simp]: "round_real d 0 = 0"
  by (simp add: round_real_def)

lemma round_real_scaled:
  "round_real d x * 2 powr of_int (- ulp_exponent d x)
   = of_int (round_even (x * 2 powr of_int (- ulp_exponent d x)))"
proof -
  have "2 powr of_int (ulp_exponent d x) * 2 powr of_int (- ulp_exponent d x) = (1::real)"
    by (simp add: powr_minus)
  moreover have "x / 2 powr of_int (ulp_exponent d x) = x * 2 powr of_int (- ulp_exponent d x)"
    by (simp add: powr_minus field_simps)
  ultimately show ?thesis by (simp add: round_real_def mult.assoc)
qed

text \<open>The numbers of the format: an integer below \<open>2 ^ precision\<close> times a power of two.\<close>

lemma round_real_representable:
  assumes f: "emin d \<le> f" and k: "\<bar>k\<bar> < 2 ^ precision d"
  shows "round_real d (of_int k * 2 powr of_int f) = of_int k * 2 powr of_int f"
proof (cases "k = 0")
  case True
  then show ?thesis by simp
next
  case False
  define x :: real where "x = of_int k * 2 powr of_int f"
  define L where "L = \<lfloor>log 2 \<bar>x\<bar>\<rfloor>"
  define e where "e = ulp_exponent d x"
  have absx: "\<bar>x\<bar> = of_int \<bar>k\<bar> * 2 powr of_int f" by (simp add: x_def abs_mult)
  have pos: "0 < \<bar>x\<bar>" using False by (simp add: x_def)
  have "of_int \<bar>k\<bar> < (2::real) ^ precision d"
    using k by (metis of_int_less_iff of_int_numeral of_int_power)
  then have "\<bar>x\<bar> < 2 ^ precision d * 2 powr of_int f"
    unfolding absx by (intro mult_strict_right_mono) simp_all
  also have "\<dots> = 2 powr of_int (int (precision d) + f)"
    by (simp add: powr_add powr_realpow)
  finally have up: "\<bar>x\<bar> < 2 powr of_int (int (precision d) + f)" .
  have "2 powr of_int L \<le> \<bar>x\<bar>" unfolding L_def using pos by (rule floor_log2_bounds)
  from this up have "(2::real) powr of_int L < 2 powr of_int (int (precision d) + f)"
    by (rule le_less_trans)
  then have "(of_int L :: real) < of_int (int (precision d) + f)"
    by (simp only: powr_less_cancel_iff one_less_numeral_iff semiring_norm)
  then have "L < int (precision d) + f" by (simp only: of_int_less_iff)
  then have "L - (int (precision d) - 1) \<le> f" by simp
  with f have ef: "e \<le> f" by (simp add: e_def ulp_exponent_def L_def)
  have "x / 2 powr of_int e = of_int k * (2 powr of_int f / 2 powr of_int e)" by (simp add: x_def)
  also have "2 powr of_int f / 2 powr of_int e = (2::real) powr of_int (f - e)"
    by (simp add: powr_diff)
  also have "\<dots> = of_int (2 ^ nat (f - e))" using ef by (intro two_powr_nat) simp
  finally have "x / 2 powr of_int e = of_int (k * 2 ^ nat (f - e))" by simp
  then have "round_even (x / 2 powr of_int e) = k * 2 ^ nat (f - e)"
    by (simp only: round_even_of_int)
  then have "round_real d x = of_int (k * 2 ^ nat (f - e)) * 2 powr of_int e"
    by (simp add: round_real_def e_def)
  also have "\<dots> = of_int k * (of_int (2 ^ nat (f - e)) * 2 powr of_int e)" by simp
  also have "of_int (2 ^ nat (f - e)) = (2::real) powr of_int (f - e)"
    using ef by (intro two_powr_nat [symmetric]) simp
  also have "2 powr of_int (f - e) * 2 powr of_int e = (2::real) powr of_int f"
    by (simp add: powr_add [symmetric])
  finally show ?thesis by (simp add: x_def)
qed

text \<open>Every rounded number is a number of the format.\<close>

lemma round_real_form_pos:
  assumes "0 < x"
  shows "\<exists>k f. round_real d x = of_int k * 2 powr of_int f \<and> emin d \<le> f \<and> \<bar>k\<bar> < 2 ^ precision d"
proof -
  define p where "p = precision d"
  define L where "L = \<lfloor>log 2 x\<rfloor>"
  define e where "e = ulp_exponent d x"
  define n where "n = round_even (x / 2 powr of_int e)"
  have r: "round_real d x = of_int n * 2 powr of_int e"
    by (simp add: round_real_def n_def e_def)
  have e_min: "emin d \<le> e" unfolding e_def by (rule ulp_exponent_ge_emin)
  have "L - (int p - 1) \<le> e" using assms by (simp add: e_def ulp_exponent_def L_def p_def)
  then have Le: "L + 1 - e \<le> int p" by simp
  have "x < 2 powr of_int (L + 1)" unfolding L_def using assms by (rule floor_log2_bounds)
  then have "x / 2 powr of_int e < 2 powr of_int (L + 1) / 2 powr of_int e"
    by (intro divide_strict_right_mono) simp_all
  also have "\<dots> = 2 powr of_int (L + 1 - e)" by (simp add: powr_diff)
  also have "\<dots> \<le> 2 powr of_int (int p)" using Le by (intro two_powr_mono)
  also have "\<dots> = of_int (2 ^ p)" using two_powr_nat [of "int p"] by simp
  finally have "x / 2 powr of_int e \<le> of_int (2 ^ p)" by simp
  then have n_up: "n \<le> 2 ^ p" unfolding n_def by (rule round_even_le)
  have "of_int 0 \<le> x / 2 powr of_int e" using assms by simp
  then have n_lo: "0 \<le> n" unfolding n_def by (rule round_even_ge)
  show ?thesis
  proof (cases "n = 2 ^ p")
    case False
    with n_up n_lo have "\<bar>n\<bar> < 2 ^ precision d" by (simp add: p_def)
    with r e_min show ?thesis by blast
  next
    case True
    have p: "0 < p" unfolding p_def by (rule precision_pos)
    then have "(2::int) ^ p = 2 ^ (p - 1) * 2" by (cases p) simp_all
    then have "of_int n * 2 powr of_int e = of_int (2 ^ (p - 1)) * ((2::real) * 2 powr of_int e)"
      using True by simp
    also have "(2::real) * 2 powr of_int e = 2 powr of_int (e + 1)"
      by (simp add: powr_add)
    finally have "round_real d x = of_int (2 ^ (p - 1)) * 2 powr of_int (e + 1)"
      using r by simp
    moreover have "emin d \<le> e + 1" using e_min by simp
    moreover have "\<bar>(2::int) ^ (p - 1)\<bar> < 2 ^ precision d" using p by (simp add: p_def)
    ultimately show ?thesis by blast
  qed
qed

lemma round_real_form:
  "\<exists>k f. round_real d x = of_int k * 2 powr of_int f \<and> emin d \<le> f \<and> \<bar>k\<bar> < 2 ^ precision d"
proof -
  consider "x = 0" | "0 < x" | "0 < - x" by linarith
  then show ?thesis
  proof cases
    case 1
    have "round_real d x = of_int 0 * 2 powr of_int (emin d)" using 1 by simp
    moreover have "\<bar>0::int\<bar> < 2 ^ precision d" by simp
    ultimately show ?thesis by blast
  next
    case 2
    then show ?thesis by (rule round_real_form_pos)
  next
    case 3
    from round_real_form_pos [OF this, of d] obtain k f
      where "round_real d (- x) = of_int k * 2 powr of_int f" "emin d \<le> f" "\<bar>k\<bar> < 2 ^ precision d"
      by blast
    then have "round_real d x = of_int (- k) * 2 powr of_int f \<and> emin d \<le> f \<and> \<bar>- k\<bar> < 2 ^ precision d"
      by (simp add: round_real_minus)
    then show ?thesis by blast
  qed
qed

lemma round_real_idem: "round_real d (round_real d x) = round_real d x"
proof -
  from round_real_form [of d x] obtain k f
    where "round_real d x = of_int k * 2 powr of_int f" "emin d \<le> f" "\<bar>k\<bar> < 2 ^ precision d"
    by blast
  then show ?thesis by (simp add: round_real_representable)
qed

lemma round_real_nonneg:
  assumes "0 \<le> x"
  shows "0 \<le> round_real d x"
proof -
  have "of_int 0 \<le> x / 2 powr of_int (ulp_exponent d x)" using assms by simp
  then have "0 \<le> round_even (x / 2 powr of_int (ulp_exponent d x))" by (rule round_even_ge)
  then show ?thesis by (simp add: round_real_def)
qed

lemma round_real_mono_pos:
  assumes x: "0 < x" and xy: "x \<le> y"
  shows "round_real d x \<le> round_real d y"
proof -
  define p where "p = int (precision d)"
  define Lx where "Lx = \<lfloor>log 2 x\<rfloor>"
  define Ly where "Ly = \<lfloor>log 2 y\<rfloor>"
  define ex where "ex = ulp_exponent d x"
  define ey where "ey = ulp_exponent d y"
  have y: "0 < y" using x xy by simp
  have L: "Lx \<le> Ly" unfolding Lx_def Ly_def using x xy by (rule floor_log2_mono)
  have ex: "ex = max (Lx - (p - 1)) (emin d)" using x by (simp add: ex_def ulp_exponent_def Lx_def p_def)
  have ey: "ey = max (Ly - (p - 1)) (emin d)" using y by (simp add: ey_def ulp_exponent_def Ly_def p_def)
  have rx: "round_real d x = of_int (round_even (x / 2 powr of_int ex)) * 2 powr of_int ex"
    by (simp add: round_real_def ex_def)
  have ry: "round_real d y = of_int (round_even (y / 2 powr of_int ey)) * 2 powr of_int ey"
    by (simp add: round_real_def ey_def)
  from L ex ey have "ex \<le> ey" by simp
  then consider (same) "ex = ey" | (less) "ex < ey" by linarith
  then show ?thesis
  proof cases
    case same
    have "x / 2 powr of_int ey \<le> y / 2 powr of_int ey"
      using xy by (intro divide_right_mono) simp_all
    then have "round_even (x / 2 powr of_int ey) \<le> round_even (y / 2 powr of_int ey)"
      by (rule round_even_mono)
    then show ?thesis unfolding rx ry same by (intro mult_right_mono) simp_all
  next
    case less
    with ex ey have ey_n: "ey = Ly - (p - 1)" and LL: "Lx < Ly" by (simp_all add: max_def split: if_splits)
    have p: "0 < p" unfolding p_def using precision_pos [of d] by simp
    have d1: "0 \<le> Ly - ey" using ey_n p by simp
    have d2: "0 \<le> Ly - ex" using less d1 by simp
    have "2 powr of_int Ly \<le> y" unfolding Ly_def using y by (rule floor_log2_bounds)
    then have "2 powr of_int Ly / 2 powr of_int ey \<le> y / 2 powr of_int ey"
      by (intro divide_right_mono) simp_all
    moreover have "2 powr of_int Ly / 2 powr of_int ey = (2::real) powr of_int (Ly - ey)"
      by (simp add: powr_diff)
    moreover have "(2::real) powr of_int (Ly - ey) = of_int (2 ^ nat (Ly - ey))"
      using d1 by (rule two_powr_nat)
    ultimately have "of_int (2 ^ nat (Ly - ey)) \<le> y / 2 powr of_int ey" by simp
    then have "2 ^ nat (Ly - ey) \<le> round_even (y / 2 powr of_int ey)" by (rule round_even_ge)
    then have "(of_int (2 ^ nat (Ly - ey)) :: real) \<le> of_int (round_even (y / 2 powr of_int ey))"
      by (simp only: of_int_le_iff)
    then have "of_int (2 ^ nat (Ly - ey)) * 2 powr of_int ey \<le> round_real d y"
      unfolding ry by (intro mult_right_mono) simp_all
    moreover have "of_int (2 ^ nat (Ly - ey)) * 2 powr of_int ey = (2::real) powr of_int Ly"
      using two_powr_nat [OF d1] two_powr_split [of "Ly - ey" ey] by simp
    ultimately have lower: "2 powr of_int Ly \<le> round_real d y" by simp
    have "x < 2 powr of_int (Lx + 1)" unfolding Lx_def using x by (rule floor_log2_bounds)
    also have "\<dots> \<le> 2 powr of_int Ly" using LL by (intro two_powr_mono) simp
    finally have "x / 2 powr of_int ex \<le> 2 powr of_int Ly / 2 powr of_int ex"
      by (intro divide_right_mono) simp_all
    moreover have "2 powr of_int Ly / 2 powr of_int ex = (2::real) powr of_int (Ly - ex)"
      by (simp add: powr_diff)
    moreover have "(2::real) powr of_int (Ly - ex) = of_int (2 ^ nat (Ly - ex))"
      using d2 by (rule two_powr_nat)
    ultimately have "x / 2 powr of_int ex \<le> of_int (2 ^ nat (Ly - ex))" by simp
    then have "round_even (x / 2 powr of_int ex) \<le> 2 ^ nat (Ly - ex)" by (rule round_even_le)
    then have "(of_int (round_even (x / 2 powr of_int ex)) :: real) \<le> of_int (2 ^ nat (Ly - ex))"
      by (simp only: of_int_le_iff)
    then have "round_real d x \<le> of_int (2 ^ nat (Ly - ex)) * 2 powr of_int ex"
      unfolding rx by (intro mult_right_mono) simp_all
    moreover have "of_int (2 ^ nat (Ly - ex)) * 2 powr of_int ex = (2::real) powr of_int Ly"
      using two_powr_nat [OF d2] two_powr_split [of "Ly - ex" ex] by simp
    ultimately have "round_real d x \<le> 2 powr of_int Ly" by simp
    with lower show ?thesis by simp
  qed
qed

lemma round_real_mono:
  assumes "x \<le> y"
  shows "round_real d x \<le> round_real d y"
proof -
  consider "0 < x" | "x \<le> 0" "0 \<le> y" | "y < 0" by linarith
  then show ?thesis
  proof cases
    case 1
    then show ?thesis using assms by (rule round_real_mono_pos)
  next
    case 2
    then have "0 \<le> round_real d (- x)" "0 \<le> round_real d y" by (simp_all add: round_real_nonneg)
    then show ?thesis by (simp add: round_real_minus)
  next
    case 3
    then have "0 < - y" "- y \<le> - x" using assms by simp_all
    then have "round_real d (- y) \<le> round_real d (- x)" by (rule round_real_mono_pos)
    then show ?thesis by (simp add: round_real_minus)
  qed
qed

text \<open>Evaluation of a rounding from the binade and the nearest multiple of the ulp.\<close>

lemma round_real_eval:
  assumes lo: "2 powr of_int L \<le> \<bar>x\<bar>" and up: "\<bar>x\<bar> < 2 powr of_int (L + 1)"
    and e: "e = max (L - (int (precision d) - 1)) (emin d)"
    and n: "\<bar>x / 2 powr of_int e - of_int n\<bar> < 1 / 2
            \<or> \<bar>x / 2 powr of_int e - of_int n\<bar> = 1 / 2 \<and> even n"
  shows "round_real d x = of_int n * 2 powr of_int e"
proof -
  have "0 < (2::real) powr of_int L" by simp
  from this lo have "0 < \<bar>x\<bar>" by (rule less_le_trans)
  then have "\<lfloor>log 2 \<bar>x\<bar>\<rfloor> = L"
    using lo up by (subst floor_log_eq_powr_iff) simp_all
  then have "ulp_exponent d x = e" by (simp add: ulp_exponent_def e)
  moreover from n have "round_even (x / 2 powr of_int e) = n"
    by (auto simp: round_even_near round_even_tie)
  ultimately show ?thesis by (simp add: round_real_def)
qed

section \<open>Floating-point operations\<close>

lemma max_finite_pos: "0 < max_finite d"
  by (cases d) (simp_all add: max_finite_def)

lemma round_fl_zero [simp]: "round_fl d 0 = Finite 0"
  using max_finite_pos [of d] by (simp add: round_fl_def)

lemma round_fl_round_real: "round_fl d (round_real d x) = round_fl d x"
  by (simp add: round_fl_def round_real_idem)

lemma round_fl_Finite:
  "round_fl d x = Finite y \<longleftrightarrow>
   y = round_real d x \<and> - max_finite d \<le> round_real d x \<and> round_real d x \<le> max_finite d"
  by (auto simp: round_fl_def Let_def)

lemma cast_round_fl [simp]: "cast d (round_fl d x) = round_fl d x"
proof (cases "round_fl d x")
  case (Finite y)
  then have "y = round_real d x" by (simp add: round_fl_Finite)
  then have "round_fl d y = round_fl d x" by (simp add: round_fl_round_real)
  with Finite show ?thesis by simp
qed simp_all

lemma cast_cast [simp]: "cast d (cast d v) = cast d v"
  by (cases v) simp_all

lemma cast_fl_add [simp]: "cast d (fl_add d a b) = fl_add d a b"
  by (cases a; cases b) simp_all

lemma fl_add_zero: "fl_add d a (Finite 0) = cast d a"
  by (cases a) simp_all

lemma fl_sub_zero: "fl_sub d a (Finite 0) = cast d a"
  by (cases a) (simp_all add: fl_sub_def)

lemma cast_foldl_fl_add:
  "cast d a = a \<Longrightarrow> cast d (foldl (fl_add d) a xs) = foldl (fl_add d) a xs"
  by (induction xs arbitrary: a) simp_all

lemma cast_dot_fp [simp]: "cast d (dot_fp d xs ys) = dot_fp d xs ys"
  unfolding dot_fp_def by (rule cast_foldl_fl_add) simp

lemma cast_Finite:
  "cast d (Finite x) = Finite x \<longleftrightarrow> round_real d x = x \<and> \<bar>x\<bar> \<le> max_finite d"
proof
  assume "cast d (Finite x) = Finite x"
  then have "x = round_real d x" "- max_finite d \<le> round_real d x" "round_real d x \<le> max_finite d"
    by (simp_all add: round_fl_Finite)
  then show "round_real d x = x \<and> \<bar>x\<bar> \<le> max_finite d" by simp
next
  assume "round_real d x = x \<and> \<bar>x\<bar> \<le> max_finite d"
  then have "round_real d x = x" "- max_finite d \<le> x" "x \<le> max_finite d" by auto
  then show "cast d (Finite x) = Finite x" by (simp add: round_fl_Finite)
qed

lemma round_fl_nonneg:
  assumes "0 \<le> x"
  shows "fl_le (Finite 0) (round_fl d x)"
proof -
  have "0 \<le> round_real d x" using assms by (rule round_real_nonneg)
  then show ?thesis using max_finite_pos [of d] by (simp add: round_fl_def Let_def)
qed

lemma fl_le_zero_cases:
  assumes "fl_le (Finite 0) v"
  obtains x where "v = Finite x" and "0 \<le> x" | "v = PInf"
  using assms by (cases v) simp_all

lemma fl_sqrt_nonneg:
  assumes "fl_le (Finite 0) v"
  shows "fl_le (Finite 0) (fl_sqrt d v)"
  using assms by (cases v) (simp_all add: round_fl_nonneg)


text \<open>Adding a non-negative number to a number of the format does not go below it.\<close>

lemma fl_add_ge:
  assumes rep: "cast d (Finite x) = Finite x" and v: "fl_le (Finite 0) v"
  shows "fl_le (Finite x) (fl_add d (Finite x) v)"
  using v
proof (cases rule: fl_le_zero_cases)
  case (1 s)
  from rep [unfolded cast_Finite] have x: "round_real d x = x" "\<bar>x\<bar> \<le> max_finite d"
    by simp_all
  have "round_real d x \<le> round_real d (x + s)" using 1 by (intro round_real_mono) simp
  with x have "x \<le> round_real d (x + s)" "- max_finite d \<le> round_real d (x + s)" by simp_all
  with 1 show ?thesis by (simp add: round_fl_def Let_def)
next
  case 2
  then show ?thesis by simp
qed

lemma fl_sub_le:
  assumes rep: "cast d (Finite x) = Finite x" and v: "fl_le (Finite 0) v"
  shows "fl_le (fl_sub d (Finite x) v) (Finite x)"
  using v
proof (cases rule: fl_le_zero_cases)
  case (1 s)
  from rep [unfolded cast_Finite] have x: "round_real d x = x" "\<bar>x\<bar> \<le> max_finite d"
    by simp_all
  have "round_real d (x - s) \<le> round_real d x" using 1 by (intro round_real_mono) simp
  with x have "round_real d (x - s) \<le> x" "round_real d (x - s) \<le> max_finite d" by simp_all
  with 1 show ?thesis by (simp add: fl_sub_def round_fl_def Let_def)
next
  case 2
  then show ?thesis by (simp add: fl_sub_def)
qed

lemma fl_add_ge_inf:
  assumes "a = PInf \<or> a = NInf" and "is_finite v"
  shows "fl_le a (fl_add d a v)" and "fl_le (fl_sub d a v) a"
  using assms by (cases v; auto simp: fl_sub_def)+

section \<open>The value of the analytic score in floating point\<close>

lemma expand_scalar_or_batch:
  assumes "well_formed t" and "shape t = [] \<or> shape t = [1] \<or> shape t = [b]"
  shows "expand t [b]
         = Inr \<lparr>shape = [b],
                data = map (\<lambda>i. if length (data t) = 1 then hd (data t) else data t ! i) [0..<b]\<rparr>"
proof -
  consider (scalar) "shape t = [] \<or> shape t = [1]" | (batch) "shape t = [b]" "b \<noteq> 1"
    using assms(2) by auto
  then show ?thesis
  proof cases
    case scalar
    then have "length (data t) = 1" using assms(1) by (auto simp: well_formed_def)
    then obtain x where x: "data t = [x]" by (cases "data t") simp_all
    have "map (\<lambda>i. if length (data t) = 1 then hd (data t) else data t ! i) [0..<b] = replicate b x"
      by (rule nth_equalityI) (simp_all add: x)
    with scalar x show ?thesis
      by (auto simp: expand_def expandable_def pad_shape_def rows_def)
  next
    case batch
    then have len: "length (data t) = b" using assms(1) by (simp add: well_formed_def)
    have "map (\<lambda>i. if length (data t) = 1 then hd (data t) else data t ! i) [0..<b] = data t"
      using len batch(2) by (intro nth_equalityI) simp_all
    with batch len expand_aligned_same [of "data t" "[b]"] show ?thesis
      by (simp add: expand_def expandable_def pad_shape_def del: expand_aligned.simps)
  qed
qed

lemma to_fp_dtype [simp]: "dtype (to_fp t X) = dtype X"
  by (simp add: to_fp_def)

lemma to_fp_shape [simp]: "shape (numbers (to_fp t X)) = shape (numbers t)"
  by (simp add: to_fp_def map_tensor_def)

lemma to_fp_well_formed [simp]: "well_formed (numbers (to_fp t X)) = well_formed (numbers t)"
  by (simp add: to_fp_def map_tensor_def well_formed_def)

lemma to_fp_add_t_batch_dim [simp]: "to_fp t (add_t_batch_dim_fp X) = to_fp t X"
  by (simp add: to_fp_def add_t_batch_dim_fp_def)

lemma replicate_weights_row:
  assumes "i < b"
  shows "map (\<lambda>k. concat (replicate b w) ! (i * length w + k)) [0..<length w] = w"
proof (rule nth_equalityI)
  show "length (map (\<lambda>k. concat (replicate b w) ! (i * length w + k)) [0..<length w]) = length w"
    by simp
next
  fix k assume "k < length (map (\<lambda>k. concat (replicate b w) ! (i * length w + k)) [0..<length w])"
  then have "k < length w" by simp
  with assms show "map (\<lambda>k. concat (replicate b w) ! (i * length w + k)) [0..<length w] ! k = w ! k"
    by (simp add: replicate_weights_nth)
qed

lemma matmul_fp_rows:
  assumes "shape (numbers t) = [b, m]" and "length (entries w) = m" and "dtype t = vdtype w"
  shows "matmul_fp t w =
    Inr \<lparr>dtype = dtype t,
         numbers = \<lparr>shape = [b],
                    data = map (\<lambda>i. dot_fp (dtype t) (outputs_at_fp t m i) (entries w)) [0..<b]\<rparr>\<rparr>"
  using assms by (simp add: matmul_fp_def rows_def outputs_at_fp_def o_def)

lemma bmm_fp_column:
  assumes "shape (numbers A) = [b, n, m]" and "shape (numbers B) = [b, m, 1]"
    and "dtype A = d" and "dtype B = d"
  shows "bmm_fp A B =
    Inr \<lparr>dtype = d,
         numbers = \<lparr>shape = [b, n, 1],
                    data = concat (map (\<lambda>i. map (\<lambda>r.
                             dot_fp d (map (\<lambda>k. data (numbers A) ! (i * n * m + r * m + k)) [0..<m])
                                      (map (\<lambda>k. data (numbers B) ! (i * m + k)) [0..<m]))
                             [0..<n]) [0..<b])\<rparr>\<rparr>"
  using assms by (simp add: bmm_fp_def Let_def concat_map_singleton)

lemma bmm_fp_cov_weights:
  assumes "shape (numbers covs) = [b, length w, length w]" and "dtype covs = d"
  shows "bmm_fp covs \<lparr>dtype = d, numbers = \<lparr>shape = [b, length w, 1],
                                             data = concat (replicate b w)\<rparr>\<rparr>
         = Inr \<lparr>dtype = d,
                numbers = \<lparr>shape = [b, length w, 1],
                           data = concat (map (\<lambda>i. map (\<lambda>r. dot_fp d (cov_row_fp covs (length w) i r) w)
                                                    [0..<length w]) [0..<b])\<rparr>\<rparr>"
proof -
  define B where "B = \<lparr>dtype = d, numbers = \<lparr>shape = [b, length w, 1],
                                             data = concat (replicate b w)\<rparr>\<rparr>"
  have eq: "map (\<lambda>i. map (\<lambda>r.
            dot_fp d (map (\<lambda>k. data (numbers covs) ! (i * length w * length w + r * length w + k))
                        [0..<length w])
                     (map (\<lambda>k. data (numbers B) ! (i * length w + k)) [0..<length w]))
            [0..<length w]) [0..<b]
        = map (\<lambda>i. map (\<lambda>r. dot_fp d (cov_row_fp covs (length w) i r) w) [0..<length w]) [0..<b]"
  proof (intro map_cong refl)
    fix i r assume "i \<in> set [0..<b]"
    then have "i < b" by simp
    then have "map (\<lambda>k. concat (replicate b w) ! (i * length w + k)) [0..<length w] = w"
      by (rule replicate_weights_row)
    then show "dot_fp d (map (\<lambda>k. data (numbers covs) ! (i * length w * length w + r * length w + k))
                        [0..<length w])
                     (map (\<lambda>k. data (numbers B) ! (i * length w + k)) [0..<length w])
          = dot_fp d (cov_row_fp covs (length w) i r) w"
      by (simp add: cov_row_fp_def B_def)
  qed
  have sB: "shape (numbers B) = [b, length w, 1]" and dB: "dtype B = d" by (simp_all add: B_def)
  show ?thesis
    unfolding B_def [symmetric] bmm_fp_column [OF assms(1) sB assms(2) dB] by (simp only: eq)
qed

lemma bmm_fp_weights_cov_weights:
  "bmm_fp \<lparr>dtype = d, numbers = \<lparr>shape = [b, 1, length w], data = concat (replicate b w)\<rparr>\<rparr>
          \<lparr>dtype = d, numbers = \<lparr>shape = [b, length w, 1],
                                 data = concat (map (\<lambda>i. map (g i) [0..<length w]) [0..<b])\<rparr>\<rparr>
   = Inr \<lparr>dtype = d,
          numbers = \<lparr>shape = [b, 1, 1],
                     data = map (\<lambda>i. dot_fp d w (map (g i) [0..<length w])) [0..<b]\<rparr>\<rparr>"
proof -
  define A where "A = \<lparr>dtype = d, numbers = \<lparr>shape = [b, 1, length w],
                                             data = concat (replicate b w)\<rparr>\<rparr>"
  define B where "B = \<lparr>dtype = d, numbers = \<lparr>shape = [b, length w, 1],
                         data = concat (map (\<lambda>i. map (g i) [0..<length w]) [0..<b])\<rparr>\<rparr>"
  have eq: "map (\<lambda>i. map (\<lambda>r.
            dot_fp d (map (\<lambda>k. data (numbers A) ! (i * 1 * length w + r * length w + k)) [0..<length w])
                     (map (\<lambda>k. data (numbers B) ! (i * length w + k)) [0..<length w]))
            [0..<1]) [0..<b]
        = map (\<lambda>i. [dot_fp d w (map (g i) [0..<length w])]) [0..<b]"
  proof (intro map_cong refl)
    fix i assume "i \<in> set [0..<b]"
    then have i: "i < b" by simp
    then have w: "map (\<lambda>k. concat (replicate b w) ! (i * length w + k)) [0..<length w] = w"
      by (rule replicate_weights_row)
    have gs: "map (\<lambda>k. concat (map (\<lambda>i. map (g i) [0..<length w]) [0..<b]) ! (i * length w + k))
              [0..<length w] = map (g i) [0..<length w]"
    proof (intro map_cong refl)
      fix k assume "k \<in> set [0..<length w]"
      then have k: "k < length w" by simp
      then have pos: "0 < length w" by (cases w) simp_all
      have "i * length w + length w \<le> b * length w" using i by (rule block_bound)
      then have lt: "i * length w + k < b * length w" using k by simp
      have dv: "(i * length w + k) div length w = i" using k pos by simp
      have md: "(i * length w + k) mod length w = k" using k by simp
      have "concat (map (\<lambda>i. map (g i) [0..<length w]) [0..<b]) ! (i * length w + k)
            = g ((i * length w + k) div length w) ((i * length w + k) mod length w)"
        using lt by (simp add: concat_map_upt del: div_mult_self3 div_mult_self4 mod_mult_self3
            mod_mult_self4)
      then show "concat (map (\<lambda>i. map (g i) [0..<length w]) [0..<b]) ! (i * length w + k) = g i k"
        by (simp only: dv md)
    qed
    show "map (\<lambda>r.
            dot_fp d (map (\<lambda>k. data (numbers A) ! (i * 1 * length w + r * length w + k)) [0..<length w])
                     (map (\<lambda>k. data (numbers B) ! (i * length w + k)) [0..<length w]))
            [0..<1]
          = [dot_fp d w (map (g i) [0..<length w])]"
      by (simp add: A_def B_def w gs)
  qed
  have cc: "concat (map (\<lambda>i. [dot_fp d w (map (g i) [0..<length w])]) [0..<b])
                 = map (\<lambda>i. dot_fp d w (map (g i) [0..<length w])) [0..<b]"
    by (rule concat_map_singleton)
  have sA: "shape (numbers A) = [b, 1, length w]" and sB: "shape (numbers B) = [b, length w, 1]"
    and dA: "dtype A = d" and dB: "dtype B = d"
    by (simp_all add: A_def B_def)
  show ?thesis
    unfolding A_def [symmetric] B_def [symmetric] bmm_fp_column [OF sA sB dA dB]
    by (simp only: eq cc)
qed

lemma promote_same:
  "dtype a = d \<Longrightarrow> dtype c = d \<Longrightarrow> shape (numbers a) = [b] \<Longrightarrow> shape (numbers c) = [b]
   \<Longrightarrow> promote a c = d"
  by (cases d) (simp_all add: promote_def)

lemma elementwise_fp_same:
  "elementwise_fp f \<lparr>dtype = d, numbers = \<lparr>shape = [b], data = map g [0..<b]\<rparr>\<rparr>
                    \<lparr>dtype = d, numbers = \<lparr>shape = [b], data = map h [0..<b]\<rparr>\<rparr>
   = Inr \<lparr>dtype = d, numbers = \<lparr>shape = [b], data = map (\<lambda>i. f d (g i) (h i)) [0..<b]\<rparr>\<rparr>"
  by (simp add: elementwise_fp_def promote_same broadcast_op_same bind_err_def)

lemma analytic_body_fp_value:
  assumes setting: "analytic_setting_fp acqf X d b k m post"
  shows "ScalarizedUpperConfidenceBound_forward_body_fp acqf (add_t_batch_dim_fp X) =
    (Inr \<lparr>dtype = d,
          numbers = \<lparr>shape = [b],
                     data = map (\<lambda>i. score_fp (maximize_fp acqf) d
                                  (scalarized_mean_at d (entries (weights_fp acqf)) (mean_fp post) i)
                                  (delta_at d (to_fp (beta_fp acqf) X) (entries (weights_fp acqf))
                                     (covariance_matrix_fp post) i))
                                [0..<b]\<rparr>\<rparr>,
     acqf\<lparr>beta_fp := to_fp (beta_fp acqf) X\<rparr>)"
proof -
  define w where "w = entries (weights_fp acqf)"
  define covs where "covs = covariance_matrix_fp post"
  define bt where "bt = to_fp (beta_fp acqf) X"
  define mu where "mu = (\<lambda>i. scalarized_mean_at d w (mean_fp post) i)"
  define var where "var = (\<lambda>i. scalarized_variance_at d w covs i)"
  from setting have X: "shape (numbers (add_t_batch_dim_fp X)) = [b, 1, k]"
    and dX: "dtype X = d"
    and post: "posterior_fp (model_fp acqf) (add_t_batch_dim_fp X) = Some post"
    and d_mean: "dtype (mean_fp post) = d"
    and shape_mean: "shape (numbers (mean_fp post)) = [b, 1, m]"
    and d_covs: "dtype covs = d"
    and shape_covs: "shape (numbers covs) = [b, length w, length w]"
    and d_w: "vdtype (weights_fp acqf) = d"
    and len_w: "length w = m"
    and wf_beta: "well_formed (numbers (beta_fp acqf))"
    and shape_beta: "shape (numbers (beta_fp acqf)) = [] \<or> shape (numbers (beta_fp acqf)) = [1]
                     \<or> shape (numbers (beta_fp acqf)) = [b]"
    by (auto simp: analytic_setting_fp_def w_def covs_def)
  have sq: "on_numbers squeeze_m2 (mean_fp post)
            = Inr \<lparr>dtype = d, numbers = (numbers (mean_fp post))\<lparr>shape := [b, m]\<rparr>\<rparr>"
    using shape_mean d_mean by (simp add: on_numbers_def squeeze_m2_def Let_def bind_err_def)
  have "matmul_fp \<lparr>dtype = d, numbers = (numbers (mean_fp post))\<lparr>shape := [b, m]\<rparr>\<rparr> (weights_fp acqf)
        = Inr \<lparr>dtype = d,
               numbers = \<lparr>shape = [b],
                          data = map (\<lambda>i. dot_fp d (outputs_at_fp
                                   \<lparr>dtype = d, numbers = (numbers (mean_fp post))\<lparr>shape := [b, m]\<rparr>\<rparr> m i)
                                   (entries (weights_fp acqf))) [0..<b]\<rparr>\<rparr>"
    using matmul_fp_rows [of "\<lparr>dtype = d, numbers = (numbers (mean_fp post))\<lparr>shape := [b, m]\<rparr>\<rparr>"
        b m "weights_fp acqf"] len_w d_w
    by (simp add: w_def)
  then have m1: "matmul_fp \<lparr>dtype = d, numbers = (numbers (mean_fp post))\<lparr>shape := [b, m]\<rparr>\<rparr>
                   (weights_fp acqf)
        = Inr \<lparr>dtype = d, numbers = \<lparr>shape = [b], data = map mu [0..<b]\<rparr>\<rparr>"
    by (simp add: mu_def scalarized_mean_at_def outputs_at_fp_def w_def len_w [unfolded w_def])
  have ex: "on_numbers (\<lambda>t. expand t [b, length w, 1])
              \<lparr>dtype = d, numbers = \<lparr>shape = [1, length w, 1], data = w\<rparr>\<rparr>
            = Inr \<lparr>dtype = d, numbers = \<lparr>shape = [b, length w, 1], data = concat (replicate b w)\<rparr>\<rparr>"
    by (simp add: on_numbers_def expand_weights bind_err_def del: One_nat_def)
  have pm: "on_numbers permute_021
              \<lparr>dtype = d, numbers = \<lparr>shape = [b, length w, 1], data = concat (replicate b w)\<rparr>\<rparr>
            = Inr \<lparr>dtype = d, numbers = \<lparr>shape = [b, 1, length w], data = concat (replicate b w)\<rparr>\<rparr>"
    by (simp add: on_numbers_def permute_weights bind_err_def del: One_nat_def)
  have b1: "bmm_fp covs \<lparr>dtype = d, numbers = \<lparr>shape = [b, length w, 1],
                                                data = concat (replicate b w)\<rparr>\<rparr>
            = Inr \<lparr>dtype = d,
                   numbers = \<lparr>shape = [b, length w, 1],
                              data = concat (map (\<lambda>i. map (\<lambda>r. dot_fp d (cov_row_fp covs (length w) i r) w)
                                                       [0..<length w]) [0..<b])\<rparr>\<rparr>"
    using shape_covs d_covs by (rule bmm_fp_cov_weights)
  have b2: "bmm_fp \<lparr>dtype = d, numbers = \<lparr>shape = [b, 1, length w], data = concat (replicate b w)\<rparr>\<rparr>
              \<lparr>dtype = d,
               numbers = \<lparr>shape = [b, length w, 1],
                          data = concat (map (\<lambda>i. map (\<lambda>r. dot_fp d (cov_row_fp covs (length w) i r) w)
                                                   [0..<length w]) [0..<b])\<rparr>\<rparr>
            = Inr \<lparr>dtype = d, numbers = \<lparr>shape = [b, 1, 1], data = map var [0..<b]\<rparr>\<rparr>"
    unfolding var_def scalarized_variance_at_def by (rule bmm_fp_weights_cov_weights)
  have vw: "on_numbers (\<lambda>t. view t [b])
              \<lparr>dtype = d, numbers = \<lparr>shape = [b, 1, 1], data = map var [0..<b]\<rparr>\<rparr>
            = Inr \<lparr>dtype = d, numbers = \<lparr>shape = [b], data = map var [0..<b]\<rparr>\<rparr>"
    by (simp add: on_numbers_def view_def bind_err_def)
  have "expand (numbers bt) [b]
        = Inr \<lparr>shape = [b],
               data = map (\<lambda>i. if length (data (numbers bt)) = 1 then hd (data (numbers bt))
                                else data (numbers bt) ! i) [0..<b]\<rparr>"
    using wf_beta shape_beta by (intro expand_scalar_or_batch) (simp_all add: bt_def)
  then have eb: "on_numbers (\<lambda>t. expand t [b]) bt
            = Inr \<lparr>dtype = d, numbers = \<lparr>shape = [b], data = map (beta_at_fp bt) [0..<b]\<rparr>\<rparr>"
    by (simp add: on_numbers_def bind_err_def beta_at_fp_def bt_def dX)
  have rad: "elementwise_fp fl_mul
               \<lparr>dtype = d, numbers = \<lparr>shape = [b], data = map (beta_at_fp bt) [0..<b]\<rparr>\<rparr>
               \<lparr>dtype = d, numbers = \<lparr>shape = [b], data = map var [0..<b]\<rparr>\<rparr>
             = Inr \<lparr>dtype = d,
                    numbers = \<lparr>shape = [b], data = map (\<lambda>i. radicand_at d bt w covs i) [0..<b]\<rparr>\<rparr>"
    unfolding radicand_at_def var_def by (rule elementwise_fp_same)
  have dl: "sqrt_fp \<lparr>dtype = d,
                     numbers = \<lparr>shape = [b], data = map (\<lambda>i. radicand_at d bt w covs i) [0..<b]\<rparr>\<rparr>
            = \<lparr>dtype = d, numbers = \<lparr>shape = [b], data = map (\<lambda>i. delta_at d bt w covs i) [0..<b]\<rparr>\<rparr>"
    by (simp add: sqrt_fp_def map_tensor_def delta_at_def o_def)
  have fin: "elementwise_fp f \<lparr>dtype = d, numbers = \<lparr>shape = [b], data = map mu [0..<b]\<rparr>\<rparr>
               \<lparr>dtype = d, numbers = \<lparr>shape = [b], data = map (\<lambda>i. delta_at d bt w covs i) [0..<b]\<rparr>\<rparr>
             = Inr \<lparr>dtype = d,
                    numbers = \<lparr>shape = [b],
                               data = map (\<lambda>i. f d (mu i) (delta_at d bt w covs i)) [0..<b]\<rparr>\<rparr>"
    for f
    by (rule elementwise_fp_same)
  have "ScalarizedUpperConfidenceBound_forward_body_fp acqf (add_t_batch_dim_fp X) =
      (bind_err (on_numbers squeeze_m2 (mean_fp post)) (\<lambda>means.
       bind_err (matmul_fp means (weights_fp acqf)) (\<lambda>scalarized_mean.
       bind_err (on_numbers (\<lambda>t. expand t [b, length w, 1])
                   \<lparr>dtype = d, numbers = \<lparr>shape = [1, length w, 1], data = w\<rparr>\<rparr>) (\<lambda>weights2.
       bind_err (on_numbers permute_021 weights2) (\<lambda>weights_transpose.
       bind_err (bmm_fp covs weights2) (\<lambda>cw.
       bind_err (bmm_fp weights_transpose cw) (\<lambda>wcw.
       bind_err (on_numbers (\<lambda>t. view t [b]) wcw) (\<lambda>scalarized_variance.
       bind_err (on_numbers (\<lambda>t. expand t (shape (numbers scalarized_mean))) bt) (\<lambda>beta_e.
       bind_err (elementwise_fp fl_mul beta_e scalarized_variance) (\<lambda>radicand.
       if maximize_fp acqf then elementwise_fp fl_add scalarized_mean (sqrt_fp radicand)
       else elementwise_fp fl_sub scalarized_mean (sqrt_fp radicand)))))))))),
       acqf\<lparr>beta_fp := bt\<rparr>)"
    unfolding ScalarizedUpperConfidenceBound_forward_body_fp_def
    by (simp add: post X Let_def w_def covs_def bt_def d_w)
  also have "\<dots> = (Inr \<lparr>dtype = d,
          numbers = \<lparr>shape = [b],
                     data = map (\<lambda>i. (if maximize_fp acqf then fl_add else fl_sub) d (mu i)
                                        (delta_at d bt w covs i)) [0..<b]\<rparr>\<rparr>,
       acqf\<lparr>beta_fp := bt\<rparr>)"
    by (simp add: bind_err_def sq m1 ex pm b1 b2 vw eb rad dl fin del: One_nat_def)
  also have "\<dots> = (Inr \<lparr>dtype = d,
          numbers = \<lparr>shape = [b],
                     data = map (\<lambda>i. score_fp (maximize_fp acqf) d (mu i) (delta_at d bt w covs i))
                                [0..<b]\<rparr>\<rparr>,
       acqf\<lparr>beta_fp := bt\<rparr>)"
    by (simp add: score_fp_def)
  finally show ?thesis by (simp add: w_def covs_def bt_def mu_def)
qed

lemma analytic_forward_fp_value:
  assumes setting: "analytic_setting_fp acqf X d b k m post"
  shows "ScalarizedUpperConfidenceBound_forward_fp acqf X =
    (Inr \<lparr>dtype = d,
          numbers = \<lparr>shape = [b],
                     data = map (\<lambda>i. score_fp (maximize_fp acqf) d
                                  (scalarized_mean_at d (entries (weights_fp acqf)) (mean_fp post) i)
                                  (delta_at d (to_fp (beta_fp acqf) X) (entries (weights_fp acqf))
                                     (covariance_matrix_fp post) i))
                                [0..<b]\<rparr>\<rparr>,
     acqf\<lparr>beta_fp := to_fp (beta_fp acqf) X\<rparr>)"
proof -
  from setting have X: "shape (add_t_batch_dim (numbers X)) = [b, 1, k]"
    and single: "\<not> is_ensemble_fp (model_fp acqf)"
    by (auto simp: analytic_setting_fp_def add_t_batch_dim_fp_def)
  from X have dims: "2 \<le> length (shape (numbers X))"
    using t_batch_dims [of "numbers X" "[b]" 1 k] by simp
  from X have q: "shape (numbers X) ! (length (shape (numbers X)) - 2) = 1" by (rule t_batch_q)
  from dims q single show ?thesis
    by (simp add: ScalarizedUpperConfidenceBound_forward_fp_def t_batch_mode_transform_fp_def
        average_over_ensemble_models_fp_def analytic_body_fp_value [OF assms])
qed

section \<open>The analytic score in floating point\<close>

lemma beta_at_fp_in_set:
  assumes "well_formed (numbers t)"
    and "shape (numbers t) = [] \<or> shape (numbers t) = [1] \<or> shape (numbers t) = [b]" and "i < b"
  shows "beta_at_fp t i \<in> set (data (numbers t))"
proof (cases "length (data (numbers t)) = 1")
  case True
  then show ?thesis by (cases "data (numbers t)") (simp_all add: beta_at_fp_def)
next
  case False
  with assms(1,2) have "length (data (numbers t)) = b" by (auto simp: well_formed_def)
  with False assms(3) show ?thesis by (simp add: beta_at_fp_def)
qed

lemma to_fp_data:
  "data (numbers (to_fp t X))
   = (if dtype t = dtype X then data (numbers t) else map (cast (dtype X)) (data (numbers t)))"
  by (simp add: to_fp_def map_tensor_def)

lemma analytic_setting_fp_maximize:
  "analytic_setting_fp (acqf\<lparr>maximize_fp := mx\<rparr>) X d b k m post
   = analytic_setting_fp acqf X d b k m post"
  by (simp add: analytic_setting_fp_def)

lemma beta_zero_after_conversion:
  assumes setting: "analytic_setting_fp acqf X d b k m post"
    and zero: "\<forall>x\<in>set (data (numbers (beta_fp acqf))). x = Finite 0" and i: "i < b"
  shows "beta_at_fp (to_fp (beta_fp acqf) X) i = Finite 0"
proof -
  from setting have "well_formed (numbers (to_fp (beta_fp acqf) X))"
    and "shape (numbers (to_fp (beta_fp acqf) X)) = [] \<or> shape (numbers (to_fp (beta_fp acqf) X)) = [1]
         \<or> shape (numbers (to_fp (beta_fp acqf) X)) = [b]"
    by (simp_all add: analytic_setting_fp_def)
  from beta_at_fp_in_set [OF this i]
  have "beta_at_fp (to_fp (beta_fp acqf) X) i \<in> set (data (numbers (to_fp (beta_fp acqf) X)))" .
  with zero show ?thesis by (auto simp: to_fp_data split: if_splits)
qed

text \<open>
  C3. At \<open>beta = 0\<close> the analytic score of a t-batch is the scalarized posterior mean, as
  the method computes it, for both values of \<open>maximize\<close>, if the computed scalarized
  variance \<open>w\<^sup>T C w\<close> of the t-batch is finite. If it is infinite or NaN, the score is NaN:
  \<open>0 * inf\<close> is NaN.
\<close>

theorem score_at_beta_zero_is_computed_mean:
  assumes setting: "analytic_setting_fp acqf X d b k m post"
    and zero: "\<forall>x\<in>set (data (numbers (beta_fp acqf))). x = Finite 0"
  shows "fst (ScalarizedUpperConfidenceBound_forward_fp acqf X)
         = Inr \<lparr>dtype = d,
                numbers = \<lparr>shape = [b],
                           data = map (\<lambda>i. if is_finite (scalarized_variance_at d
                                                   (entries (weights_fp acqf))
                                                   (covariance_matrix_fp post) i)
                                           then scalarized_mean_at d (entries (weights_fp acqf))
                                                  (mean_fp post) i
                                           else NaN) [0..<b]\<rparr>\<rparr>"
proof -
  have "score_fp (maximize_fp acqf) d
          (scalarized_mean_at d (entries (weights_fp acqf)) (mean_fp post) i)
          (delta_at d (to_fp (beta_fp acqf) X) (entries (weights_fp acqf))
             (covariance_matrix_fp post) i)
        = (if is_finite (scalarized_variance_at d (entries (weights_fp acqf))
                           (covariance_matrix_fp post) i)
           then scalarized_mean_at d (entries (weights_fp acqf)) (mean_fp post) i else NaN)"
    if i: "i \<in> set [0..<b]" for i
  proof -
    define var where "var = scalarized_variance_at d (entries (weights_fp acqf))
                              (covariance_matrix_fp post) i"
    define mu where "mu = scalarized_mean_at d (entries (weights_fp acqf)) (mean_fp post) i"
    from i have ib: "i < b" by simp
    have dl: "delta_at d (to_fp (beta_fp acqf) X) (entries (weights_fp acqf))
                (covariance_matrix_fp post) i = fl_sqrt d (fl_mul d (Finite 0) var)"
      by (simp add: delta_at_def radicand_at_def beta_zero_after_conversion [OF setting zero ib]
          var_def del: fl_mul.simps fl_sqrt.simps)
    have mu: "cast d mu = mu" by (simp add: mu_def scalarized_mean_at_def)
    have nan: "fl_add d mu NaN = NaN" by (cases mu) simp_all
    have "score_fp (maximize_fp acqf) d mu (fl_sqrt d (fl_mul d (Finite 0) var))
          = (if is_finite var then mu else NaN)"
      by (cases var) (simp_all add: score_fp_def fl_add_zero fl_sub_zero fl_sub_def mu nan)
    then show ?thesis by (simp only: dl var_def mu_def)
  qed
  then show ?thesis
    unfolding analytic_forward_fp_value [OF setting] by (simp cong: map_cong)
qed

lemma body_fp_state:
  "snd (ScalarizedUpperConfidenceBound_forward_body_fp acqf X)
   = acqf\<lparr>beta_fp := to_fp (beta_fp acqf) X\<rparr>"
  by (simp add: ScalarizedUpperConfidenceBound_forward_body_fp_def Let_def)

lemma average_fp_state:
  "snd (average_over_ensemble_models_fp method acqf X) = snd (method acqf X)"
  by (simp add: average_over_ensemble_models_fp_def split: prod.splits sum.splits)

lemma forward_fp_state:
  "snd (ScalarizedUpperConfidenceBound_forward_fp acqf X)
   = (if 2 \<le> length (shape (numbers X))
         \<and> shape (numbers X) ! (length (shape (numbers X)) - 2) = 1
      then acqf\<lparr>beta_fp := to_fp (beta_fp acqf) X\<rparr> else acqf)"
  by (auto simp: ScalarizedUpperConfidenceBound_forward_fp_def t_batch_mode_transform_fp_def
      average_fp_state body_fp_state)

text \<open>
  C5. Neither \<^verbatim>\<open>forward\<close> method assigns \<open>weights\<close>, and the Monte Carlo method does not
  assign \<open>beta\<close>: after a call they hold what they held before. The analytic method stores
  \<^verbatim>\<open>self.beta.to(X)\<close> in \<open>beta\<close> in every call that passes the check of the decorator,
  whether the call then returns or raises: \<open>beta\<close> keeps its shape and gets the dtype of
  \<open>X\<close>, and its entries are the old entries converted to that dtype. They are the old
  entries themselves when \<open>beta\<close> has the dtype of \<open>X\<close> already.
\<close>

theorem forward_stores_converted_beta:
  "weights (snd (qScalarizedUpperConfidenceBound_forward mc Y)) = weights mc
   \<and> beta (snd (qScalarizedUpperConfidenceBound_forward mc Y)) = beta mc
   \<and> weights_fp (snd (ScalarizedUpperConfidenceBound_forward_fp acqf X)) = weights_fp acqf
   \<and> beta_fp (snd (ScalarizedUpperConfidenceBound_forward_fp acqf X))
       = (if 2 \<le> length (shape (numbers X))
             \<and> shape (numbers X) ! (length (shape (numbers X)) - 2) = 1
          then to_fp (beta_fp acqf) X else beta_fp acqf)
   \<and> to_fp (beta_fp acqf) X
       = (if dtype (beta_fp acqf) = dtype X then beta_fp acqf
          else \<lparr>dtype = dtype X,
                numbers = \<lparr>shape = shape (numbers (beta_fp acqf)),
                           data = map (cast (dtype X)) (data (numbers (beta_fp acqf)))\<rparr>\<rparr>)"
  by (simp add: forward_keeps_object_mc forward_fp_state to_fp_def map_tensor_def)







text \<open>
  C10. Where the computed scalarized mean is not NaN, the computed product of \<open>beta\<close> and the
  scalarized variance is non-negative, and the scalarized mean and \<open>delta\<close> are not both
  infinite, \<open>delta\<close> is non-negative, the score with \<open>maximize = True\<close> is the rounded sum of
  the scalarized mean and \<open>delta\<close> and is at least the scalarized mean, and the score with
  \<open>maximize = False\<close> is the rounded difference and is at most the scalarized mean.
\<close>

theorem maximize_brackets_computed_mean:
  assumes setting: "analytic_setting_fp acqf X d b k m post"
    and mean: "\<forall>i<b. scalarized_mean_at d (entries (weights_fp acqf)) (mean_fp post) i \<noteq> NaN
                     \<and> (is_finite (scalarized_mean_at d (entries (weights_fp acqf))
                                       (mean_fp post) i)
                          \<or> is_finite (delta_at d (to_fp (beta_fp acqf) X)
                                         (entries (weights_fp acqf))
                                         (covariance_matrix_fp post) i))"
    and rad: "\<forall>i<b. fl_le (Finite 0) (radicand_at d (to_fp (beta_fp acqf) X)
                         (entries (weights_fp acqf)) (covariance_matrix_fp post) i)"
  shows "fst (ScalarizedUpperConfidenceBound_forward_fp (acqf\<lparr>maximize_fp := True\<rparr>) X)
         = Inr \<lparr>dtype = d,
                numbers = \<lparr>shape = [b],
                           data = map (\<lambda>i. fl_add d
                                   (scalarized_mean_at d (entries (weights_fp acqf)) (mean_fp post) i)
                                   (delta_at d (to_fp (beta_fp acqf) X) (entries (weights_fp acqf))
                                      (covariance_matrix_fp post) i)) [0..<b]\<rparr>\<rparr>
     \<and> fst (ScalarizedUpperConfidenceBound_forward_fp (acqf\<lparr>maximize_fp := False\<rparr>) X)
         = Inr \<lparr>dtype = d,
                numbers = \<lparr>shape = [b],
                           data = map (\<lambda>i. fl_sub d
                                   (scalarized_mean_at d (entries (weights_fp acqf)) (mean_fp post) i)
                                   (delta_at d (to_fp (beta_fp acqf) X) (entries (weights_fp acqf))
                                      (covariance_matrix_fp post) i)) [0..<b]\<rparr>\<rparr>
     \<and> (\<forall>i<b. fl_le (Finite 0) (delta_at d (to_fp (beta_fp acqf) X) (entries (weights_fp acqf))
                                   (covariance_matrix_fp post) i)
               \<and> fl_le (scalarized_mean_at d (entries (weights_fp acqf)) (mean_fp post) i)
                       (fl_add d
                          (scalarized_mean_at d (entries (weights_fp acqf)) (mean_fp post) i)
                          (delta_at d (to_fp (beta_fp acqf) X) (entries (weights_fp acqf))
                             (covariance_matrix_fp post) i))
               \<and> fl_le (fl_sub d
                          (scalarized_mean_at d (entries (weights_fp acqf)) (mean_fp post) i)
                          (delta_at d (to_fp (beta_fp acqf) X) (entries (weights_fp acqf))
                             (covariance_matrix_fp post) i))
                       (scalarized_mean_at d (entries (weights_fp acqf)) (mean_fp post) i))"
proof (intro conjI allI impI)
  show "fst (ScalarizedUpperConfidenceBound_forward_fp (acqf\<lparr>maximize_fp := True\<rparr>) X)
         = Inr \<lparr>dtype = d,
                numbers = \<lparr>shape = [b],
                           data = map (\<lambda>i. fl_add d
                                   (scalarized_mean_at d (entries (weights_fp acqf)) (mean_fp post) i)
                                   (delta_at d (to_fp (beta_fp acqf) X) (entries (weights_fp acqf))
                                      (covariance_matrix_fp post) i)) [0..<b]\<rparr>\<rparr>"
    using analytic_forward_fp_value [of "acqf\<lparr>maximize_fp := True\<rparr>" X d b k m post] setting
    by (simp add: analytic_setting_fp_maximize score_fp_def)
  show "fst (ScalarizedUpperConfidenceBound_forward_fp (acqf\<lparr>maximize_fp := False\<rparr>) X)
         = Inr \<lparr>dtype = d,
                numbers = \<lparr>shape = [b],
                           data = map (\<lambda>i. fl_sub d
                                   (scalarized_mean_at d (entries (weights_fp acqf)) (mean_fp post) i)
                                   (delta_at d (to_fp (beta_fp acqf) X) (entries (weights_fp acqf))
                                      (covariance_matrix_fp post) i)) [0..<b]\<rparr>\<rparr>"
    using analytic_forward_fp_value [of "acqf\<lparr>maximize_fp := False\<rparr>" X d b k m post] setting
    by (simp add: analytic_setting_fp_maximize score_fp_def)
next
  fix i assume i: "i < b"
  define mu where "mu = scalarized_mean_at d (entries (weights_fp acqf)) (mean_fp post) i"
  define delta where "delta = delta_at d (to_fp (beta_fp acqf) X) (entries (weights_fp acqf))
                                 (covariance_matrix_fp post) i"
  from rad i have dl: "fl_le (Finite 0) delta"
    unfolding delta_def delta_at_def by (intro fl_sqrt_nonneg) simp
  show "fl_le (Finite 0) (delta_at d (to_fp (beta_fp acqf) X) (entries (weights_fp acqf))
                                   (covariance_matrix_fp post) i)"
    using dl by (simp only: delta_def)
  from mean i have nn: "mu \<noteq> NaN" and fin: "is_finite mu \<or> is_finite delta"
    by (simp_all add: mu_def delta_def)
  have "fl_le mu (fl_add d mu delta) \<and> fl_le (fl_sub d mu delta) mu"
  proof (cases mu)
    case (Finite x)
    have "cast d mu = mu" unfolding mu_def scalarized_mean_at_def by (rule cast_dot_fp)
    then have rep: "cast d (Finite x) = Finite x" by (simp only: Finite)
    show ?thesis unfolding Finite using fl_add_ge [OF rep dl] fl_sub_le [OF rep dl] by simp
  next
    case PInf
    with fin have "is_finite delta" by simp
    with PInf show ?thesis using fl_add_ge_inf [of mu delta d] by simp
  next
    case NInf
    with fin have "is_finite delta" by simp
    with NInf show ?thesis using fl_add_ge_inf [of mu delta d] by simp
  next
    case NaN
    with nn show ?thesis by simp
  qed
  then show "fl_le (scalarized_mean_at d (entries (weights_fp acqf)) (mean_fp post) i)
                       (fl_add d
                          (scalarized_mean_at d (entries (weights_fp acqf)) (mean_fp post) i)
                          (delta_at d (to_fp (beta_fp acqf) X) (entries (weights_fp acqf))
                             (covariance_matrix_fp post) i))"
    and "fl_le (fl_sub d
                          (scalarized_mean_at d (entries (weights_fp acqf)) (mean_fp post) i)
                          (delta_at d (to_fp (beta_fp acqf) X) (entries (weights_fp acqf))
                             (covariance_matrix_fp post) i))
                       (scalarized_mean_at d (entries (weights_fp acqf)) (mean_fp post) i)"
    by (simp_all only: mu_def delta_def)
qed

section \<open>The examples\<close>

lemmas example_defs =
  example_posterior_q2_def example_model_q2_def example_sampler_def example_qSUCB_def
  example_X_q2_def example_posterior_q1_def example_model_q1_def example_SUCB_def
  example_X_q1_def qScalarizedUpperConfidenceBound_init_def ScalarizedUpperConfidenceBound_init_def

lemma example_mc_setting:
  "mc_setting example_qSUCB example_X_q2 [1] 2 1 2 2 example_posterior_q2"
  by (simp add: mc_setting_def example_defs add_t_batch_dim_def unsqueeze0_def well_formed_def
      get_posterior_samples_def)

lemma example_analytic_setting:
  "analytic_setting example_SUCB example_X_q1 2 1 2 example_posterior_q1"
  by (simp add: analytic_setting_def example_defs add_t_batch_dim_def unsqueeze0_def well_formed_def)

lemma upt_2: "[0..<2] = [0, 1]"
  by (simp add: upt_rec)

lemma example_mc_value:
  "scalarized_mc_ucb (weights example_qSUCB) (2 / pi) 2 (prod_list [1]) 2
     (get_posterior_samples example_qSUCB example_posterior_q2) (mean example_posterior_q2) 0
   = 17 / 4"
  by (simp add: scalarized_mc_ucb_def ucb_sample_def scalarize_def outputs_at_def example_defs
      get_posterior_samples_def upt_2)

theorem mc_score_follows_steps_witness:
  "mc_setting example_qSUCB example_X_q2 [1] 2 1 2 2 example_posterior_q2
   \<and> data (beta example_qSUCB) = [2 / pi] \<and> (0::real) \<le> 2 / pi
   \<and> fst (qScalarizedUpperConfidenceBound_forward example_qSUCB example_X_q2)
       = Inr \<lparr>shape = [1], data = [Some (17 / 4)]\<rparr>"
proof -
  have b: "data (beta example_qSUCB) = [2 / pi]" by (simp add: example_defs)
  have nonneg: "(0::real) \<le> 2 / pi" by simp
  from mc_score_follows_steps [OF example_mc_setting b nonneg] example_mc_value
  have "fst (qScalarizedUpperConfidenceBound_forward example_qSUCB example_X_q2)
        = Inr \<lparr>shape = [1], data = [Some (17 / 4)]\<rparr>"
    by simp
  with example_mc_setting b nonneg show ?thesis by simp
qed

lemma sqrt_25: "sqrt 25 = 5"
  by (rule real_sqrt_unique) simp_all

lemma sqrt_100: "sqrt 100 = 10"
  by (rule real_sqrt_unique) simp_all

text \<open>The two methods run on the examples, every operation evaluated.\<close>

lemma example_mc_run:
  "qScalarizedUpperConfidenceBound_forward example_qSUCB example_X_q2
   = (Inr \<lparr>shape = [1], data = [Some (17 / 4)]\<rparr>, example_qSUCB)"
  by (simp add: qScalarizedUpperConfidenceBound_forward_def t_batch_mode_transform_def
      average_over_ensemble_models_def qScalarizedUpperConfidenceBound_forward_body_def
      example_defs add_t_batch_dim_def unsqueeze0_def get_posterior_samples_def
      matmul_def rows_def dot_def bind_err_def item_def map_tensor_def math_sqrt_def
      broadcast_op_def broadcast_shapes_def pad_shape_def max_last_def maximum_def
      mean_dim0_def Let_def eval_nat_numeral)

lemma example_analytic_run:
  "ScalarizedUpperConfidenceBound_forward example_SUCB example_X_q1
   = (Inr \<lparr>shape = [2], data = [Some 16, Some 35]\<rparr>, example_SUCB)"
  by (simp add: ScalarizedUpperConfidenceBound_forward_def t_batch_mode_transform_def
      average_over_ensemble_models_def ScalarizedUpperConfidenceBound_forward_body_def
      example_defs add_t_batch_dim_def to_def squeeze_m2_def
      matmul_def rows_def dot_def bind_err_def map_tensor_def expand_def expandable_def
      permute_021_def bmm_def view_def torch_sqrt_def nan_add_def nan_sub_def
      broadcast_op_def broadcast_shapes_def pad_shape_def Let_def eval_nat_numeral
      sqrt_25 sqrt_100)

lemma example_quadratic_forms:
  "quadratic_form [3, 4] (cov_entry (covariance_matrix example_posterior_q1) 2 0) = 25"
  "quadratic_form [3, 4] (cov_entry (covariance_matrix example_posterior_q1) 2 (Suc 0)) = 100"
  by (simp_all add: quadratic_form_def cov_entry_def example_defs upt_2)

lemma example_means:
  "scalarize [3, 4] (outputs_at (mean example_posterior_q1) 2 0) = 11"
  "scalarize [3, 4] (outputs_at (mean example_posterior_q1) 2 (Suc 0)) = 25"
  by (simp_all add: scalarize_def outputs_at_def example_defs upt_2)

lemma example_beta_at: "beta_at \<lparr>shape = [], data = [c]\<rparr> i = c"
  by (simp add: beta_at_def)

theorem analytic_score_formula_witness:
  "analytic_setting example_SUCB example_X_q1 2 1 2 example_posterior_q1
   \<and> fst (ScalarizedUpperConfidenceBound_forward example_SUCB example_X_q1)
       = Inr \<lparr>shape = [2], data = [Some 16, Some 35]\<rparr>"
proof -
  have "weights example_SUCB = [3, 4]" "beta example_SUCB = \<lparr>shape = [], data = [1]\<rparr>"
    "maximize example_SUCB"
    by (simp_all add: example_defs)
  with analytic_score_formula [OF example_analytic_setting]
  have "fst (ScalarizedUpperConfidenceBound_forward example_SUCB example_X_q1)
        = Inr \<lparr>shape = [2], data = [Some 16, Some 35]\<rparr>"
    by (simp add: upt_2 scalarized_ucb_def example_quadratic_forms example_means example_beta_at
        sqrt_25 sqrt_100)
  with example_analytic_setting show ?thesis by simp
qed

lemmas example_batched_defs =
  example_posterior_batched_def example_model_batched_def example_qSUCB_batched_def
  example_X_batched_def qScalarizedUpperConfidenceBound_init_def

text \<open>
  On two t-batch dimensions the Monte Carlo method returns a two-dimensional tensor.
\<close>

theorem forward_output_one_dimensional_counterexample:
  "fst (qScalarizedUpperConfidenceBound_forward example_qSUCB_batched example_X_batched)
   = Inr \<lparr>shape = [2, 2], data = [Some 2, Some 2, Some 5, Some 4]\<rparr>
   \<and> length (shape (projr (fst (qScalarizedUpperConfidenceBound_forward
                                   example_qSUCB_batched example_X_batched)))) = 2"
proof -
  have "fst (qScalarizedUpperConfidenceBound_forward example_qSUCB_batched example_X_batched)
        = Inr \<lparr>shape = [2, 2], data = [Some 2, Some 2, Some 5, Some 4]\<rparr>"
    by (simp add: qScalarizedUpperConfidenceBound_forward_def t_batch_mode_transform_def
      average_over_ensemble_models_def qScalarizedUpperConfidenceBound_forward_body_def
      example_batched_defs add_t_batch_dim_def unsqueeze0_def get_posterior_samples_def
      matmul_def rows_def dot_def bind_err_def item_def map_tensor_def math_sqrt_def
      broadcast_op_def broadcast_shapes_def pad_shape_def max_last_def maximum_def
      mean_dim0_def Let_def eval_nat_numeral)
  then show ?thesis by simp
qed

lemma example_mc_setting_batched:
  "mc_setting example_qSUCB_batched example_X_batched [2, 2] 1 1 1 1 example_posterior_batched"
  by (simp add: mc_setting_def example_batched_defs add_t_batch_dim_def well_formed_def
      get_posterior_samples_def)

theorem forward_output_shape_witness:
  "mc_setting example_qSUCB_batched example_X_batched [2, 2] 1 1 1 1 example_posterior_batched
   \<and> data (beta example_qSUCB_batched) = [2 / pi] \<and> (0::real) \<le> 2 / pi
   \<and> analytic_setting example_SUCB example_X_q1 2 1 2 example_posterior_q1
   \<and> 3 < length (shape example_X_batched)
   \<and> shape (projr (fst (qScalarizedUpperConfidenceBound_forward
                          example_qSUCB_batched example_X_batched))) = [2, 2]
   \<and> length (data (projr (fst (qScalarizedUpperConfidenceBound_forward
                          example_qSUCB_batched example_X_batched)))) = 4
   \<and> shape (projr (fst (ScalarizedUpperConfidenceBound_forward example_SUCB example_X_q1))) = [2]
   \<and> length (data (projr (fst (ScalarizedUpperConfidenceBound_forward
                          example_SUCB example_X_q1)))) = 2
   \<and> isl (fst (ScalarizedUpperConfidenceBound_forward example_SUCB example_X_batched))"
proof -
  have b: "data (beta example_qSUCB_batched) = [2 / pi]" by (simp add: example_batched_defs)
  have nonneg: "(0::real) \<le> 2 / pi" by simp
  have dims: "3 < length (shape example_X_batched)" by (simp add: example_batched_defs)
  from forward_output_shape [OF example_mc_setting_batched b nonneg example_analytic_setting dims,
      of example_SUCB]
  have "shape (projr (fst (qScalarizedUpperConfidenceBound_forward
                          example_qSUCB_batched example_X_batched))) = [2, 2]"
    and "length (data (projr (fst (qScalarizedUpperConfidenceBound_forward
                          example_qSUCB_batched example_X_batched)))) = 4"
    and "shape (projr (fst (ScalarizedUpperConfidenceBound_forward example_SUCB example_X_q1))) = [2]"
    and "length (data (projr (fst (ScalarizedUpperConfidenceBound_forward
                          example_SUCB example_X_q1)))) = 2"
    and "isl (fst (ScalarizedUpperConfidenceBound_forward example_SUCB example_X_batched))"
    by auto
  with example_mc_setting_batched b nonneg example_analytic_setting dims show ?thesis by simp
qed

theorem analytic_rejects_q_not_1_witness:
  "2 \<le> length (shape \<lparr>shape = [2, 3, 1], data = [0, 1, 2, 3, 4, 5 :: real]\<rparr>)
   \<and> shape \<lparr>shape = [2, 3, 1], data = [0, 1, 2, 3, 4, 5 :: real]\<rparr>
       ! (length (shape \<lparr>shape = [2, 3, 1], data = [0, 1, 2, 3, 4, 5 :: real]\<rparr>) - 2) \<noteq> 1
   \<and> ScalarizedUpperConfidenceBound_forward example_SUCB
         \<lparr>shape = [2, 3, 1], data = [0, 1, 2, 3, 4, 5]\<rparr>
       = (Inl BatchModeError, example_SUCB)"
  using analytic_rejects_q_not_1
    [of "\<lparr>shape = [2, 3, 1], data = [0, 1, 2, 3, 4, 5 :: real]\<rparr>" example_SUCB]
  by simp

lemma sum_list_constant:
  fixes f :: "nat \<Rightarrow> real"
  assumes "\<And>k. k < n \<Longrightarrow> f k = c" and "0 < n"
  shows "(\<Sum>k\<leftarrow>[0..<n]. f k) / real n = c"
proof -
  have "map f [0..<n] = replicate n c"
    by (rule nth_equalityI) (simp_all add: assms(1))
  then show ?thesis using assms(2) by (simp add: sum_list_replicate)
qed

lemma example_default_setting:
  "mc_setting (qScalarizedUpperConfidenceBound_init example_sobol example_model_single
                 \<lparr>shape = [], data = [2 / pi]\<rparr> [1] None)
     example_X_single [1] 1 1 1 512 example_posterior_single"
  by (simp add: mc_setting_def qScalarizedUpperConfidenceBound_init_def SobolQMCNormalSampler_def
      example_sobol_def example_posterior_single_def example_model_single_def example_X_single_def
      add_t_batch_dim_def unsqueeze0_def well_formed_def get_posterior_samples_def)

lemma example_default_value:
  "scalarized_mc_ucb [1] (2 / pi) 512 (prod_list [1]) 1
     \<lparr>shape = 512 # [1] @ [1, 1], data = example_sobol [512] example_posterior_single\<rparr>
     (mean example_posterior_single) 0 = 3"
proof -
  have "Max (set (map (\<lambda>j. ucb_sample [1] (2 / pi)
          (outputs_at \<lparr>shape = 512 # [1] @ [1, 1],
                       data = example_sobol [512] example_posterior_single\<rparr> (length [1::real])
             ((k * prod_list [1] + 0) * 1 + j))
          (outputs_at (mean example_posterior_single) (length [1::real]) (0 * 1 + j))) [0..<1])) = 3"
    if "k < 512" for k
    using that
    by (simp add: ucb_sample_def scalarize_def outputs_at_def example_sobol_def
        example_posterior_single_def min_def)
  then show ?thesis
    unfolding scalarized_mc_ucb_def by (intro sum_list_constant) simp_all
qed

theorem default_sampler_draws_512_witness:
  "mc_setting (qScalarizedUpperConfidenceBound_init example_sobol example_model_single
                 \<lparr>shape = [], data = [2 / pi]\<rparr> [1] None)
     example_X_single [1] 1 1 1 512 example_posterior_single
   \<and> data \<lparr>shape = [], data = [2 / pi :: real]\<rparr> = [2 / pi] \<and> (0::real) \<le> 2 / pi
   \<and> sample_shape (sampler (qScalarizedUpperConfidenceBound_init example_sobol example_model_single
                 \<lparr>shape = [], data = [2 / pi]\<rparr> [1] None)) = [512]
   \<and> length (example_sobol [512] example_posterior_single) = 512
   \<and> fst (qScalarizedUpperConfidenceBound_forward
            (qScalarizedUpperConfidenceBound_init example_sobol example_model_single
                 \<lparr>shape = [], data = [2 / pi]\<rparr> [1] None) example_X_single)
       = Inr \<lparr>shape = [1], data = [Some 3]\<rparr>"
proof -
  have b: "data \<lparr>shape = [], data = [2 / pi :: real]\<rparr> = [2 / pi]" by simp
  have nonneg: "(0::real) \<le> 2 / pi" by simp
  from default_sampler_draws_512 [OF example_default_setting b nonneg] example_default_value
  have "sample_shape (sampler (qScalarizedUpperConfidenceBound_init example_sobol example_model_single
                 \<lparr>shape = [], data = [2 / pi]\<rparr> [1] None)) = [512]"
    and "length (example_sobol [512] example_posterior_single) = 512"
    and "fst (qScalarizedUpperConfidenceBound_forward
            (qScalarizedUpperConfidenceBound_init example_sobol example_model_single
                 \<lparr>shape = [], data = [2 / pi]\<rparr> [1] None) example_X_single)
       = Inr \<lparr>shape = [1], data = [Some 3]\<rparr>"
    by (simp_all add: SobolQMCNormalSampler_def)
  with example_default_setting b nonneg show ?thesis by simp
qed











text \<open>The floating-point examples.\<close>

lemma round_fl_eval:
  assumes lo: "2 powr of_int L \<le> \<bar>x\<bar>" and up: "\<bar>x\<bar> < 2 powr of_int (L + 1)"
    and e: "e = max (L - (int (precision d) - 1)) (emin d)"
    and n: "\<bar>x / 2 powr of_int e - of_int n\<bar> < 1 / 2
            \<or> \<bar>x / 2 powr of_int e - of_int n\<bar> = 1 / 2 \<and> even n"
    and y: "y = of_int n * 2 powr of_int e"
    and m: "\<bar>y\<bar> \<le> max_finite d"
  shows "round_fl d x = Finite y"
proof -
  have "round_real d x = y" using round_real_eval [OF lo up e n] y by simp
  moreover from m have "- max_finite d \<le> y" "y \<le> max_finite d" by auto
  ultimately show ?thesis by (simp add: round_fl_Finite)
qed

lemma round_fl_small:
  assumes "x \<in> \<int>" and "\<bar>x\<bar> < 2 ^ 24"
  shows "round_fl d x = Finite x"
proof -
  from assms(1) obtain k where k: "x = of_int k" by (auto elim: Ints_cases)
  with assms(2) have "\<bar>k\<bar> < 2 ^ 24" by (simp flip: of_int_abs add: of_int_less_iff [symmetric] del: of_int_less_iff)
  moreover have "(2::int) ^ 24 \<le> 2 ^ precision d" by (cases d) (simp_all add: precision_def)
  ultimately have "\<bar>k\<bar> < 2 ^ precision d" by linarith
  moreover have "emin d \<le> 0" by (cases d) (simp_all add: emin_def)
  ultimately have "round_real d (of_int k * 2 powr of_int 0) = of_int k * 2 powr of_int 0"
    by (intro round_real_representable)
  then have "round_real d x = x" by (simp add: k)
  moreover have "(2::real) ^ 24 \<le> max_finite d" by (cases d) (simp_all add: max_finite_def)
  then have "\<bar>x\<bar> \<le> max_finite d" using assms(2) by linarith
  ultimately show ?thesis by (simp add: cast_Finite [unfolded cast.simps])
qed

lemma cast_fl_mul [simp]: "cast d (fl_mul d a b) = fl_mul d a b"
  by (cases a; cases b) simp_all

lemma fl_zero_add: "fl_add d (Finite 0) v = cast d v"
  by (cases v) simp_all

lemma dot_fp_1: "dot_fp d [x] [y] = fl_mul d x y"
  by (simp add: dot_fp_def fl_zero_add)

lemma dot_fp_2:
  "dot_fp d [x0, x1] [y0, y1] = fl_add d (fl_add d (Finite 0) (fl_mul d x0 y0)) (fl_mul d x1 y1)"
  by (simp add: dot_fp_def)

lemma example_setting_fp:
  "analytic_setting_fp (example_SUCB_fp d mu c bd bt w mx) (example_X_fp d) d 1 1 1
     (example_posterior_fp d mu c)"
  by (simp add: analytic_setting_fp_def example_SUCB_fp_def example_X_fp_def
      example_posterior_fp_def add_t_batch_dim_fp_def add_t_batch_dim_def unsqueeze0_def
      well_formed_def)

lemma example_mean_fp:
  "scalarized_mean_at d [Finite w] (mean_fp (example_posterior_fp d mu c)) 0
   = round_fl d (mu * w)"
  by (simp add: scalarized_mean_at_def outputs_at_fp_def example_posterior_fp_def dot_fp_1)

lemma example_variance_fp:
  "scalarized_variance_at d [Finite w] (covariance_matrix_fp (example_posterior_fp d mu c)) 0
   = fl_mul d (Finite w) (round_fl d (c * w))"
  by (simp add: scalarized_variance_at_def cov_row_fp_def example_posterior_fp_def dot_fp_1)

lemma example_beta_fp:
  "beta_at_fp (to_fp (beta_fp (example_SUCB_fp d mu c bd bt w mx)) (example_X_fp d)) 0
   = (if bd = d then Finite bt else round_fl d bt)"
  by (simp add: beta_at_fp_def to_fp_def example_SUCB_fp_def example_X_fp_def map_tensor_def)

lemma example_forward_fp:
  "fst (ScalarizedUpperConfidenceBound_forward_fp (example_SUCB_fp d mu c bd bt w mx)
          (example_X_fp d))
   = Inr \<lparr>dtype = d,
          numbers = \<lparr>shape = [1],
                     data = [score_fp mx d (round_fl d (mu * w))
                               (fl_sqrt d (fl_mul d (if bd = d then Finite bt else round_fl d bt)
                                             (fl_mul d (Finite w) (round_fl d (c * w)))))]\<rparr>\<rparr>"
proof -
  have w: "entries (weights_fp (example_SUCB_fp d mu c bd bt w mx)) = [Finite w]"
    and mx: "maximize_fp (example_SUCB_fp d mu c bd bt w mx) = mx"
    by (simp_all add: example_SUCB_fp_def)
  show ?thesis
    unfolding analytic_forward_fp_value [OF example_setting_fp] w mx
    by (simp add: delta_at_def radicand_at_def example_mean_fp example_variance_fp
        example_beta_fp del: fl_mul.simps)
qed

lemma round_two_512: "round_fl Float64 two_512 = Finite two_512"
  by (rule round_fl_eval [where L = 512 and n = "2 ^ 52" and e = 460])
     (simp_all add: precision_def emin_def max_finite_def two_512_def)

lemma round_two_512_squared: "round_fl Float64 (two_512 * two_512) = PInf"
proof -
  have "round_real Float64 (of_int 1 * 2 powr of_int 1024) = of_int 1 * 2 powr of_int 1024"
    by (rule round_real_representable) (simp_all add: emin_def precision_def)
  then have "round_real Float64 (two_512 * two_512) = 2 ^ 1024" by (simp add: two_512_def)
  then show ?thesis by (simp add: round_fl_def max_finite_def)
qed

lemma cast_double_0_1: "round_fl Float32 double_0_1 = Finite float_0_1"
  by (rule round_fl_eval [where L = "- 4" and n = 13421773 and e = "- 27"])
     (simp_all add: precision_def emin_def max_finite_def powr_neg_numeral double_0_1_def
        float_0_1_def)

text \<open>
  With the weight \<open>2 ^ 512\<close> and the variance 1 the scalarized variance overflows, and at
  \<open>beta = 0\<close> the score is NaN, not the scalarized mean \<open>2 ^ 512\<close>.
\<close>

theorem score_at_beta_zero_counterexample:
  "analytic_setting_fp (example_SUCB_fp Float64 1 1 Float64 0 two_512 True) (example_X_fp Float64)
     Float64 1 1 1 (example_posterior_fp Float64 1 1)
   \<and> data (numbers (beta_fp (example_SUCB_fp Float64 1 1 Float64 0 two_512 True))) = [Finite 0]
   \<and> scalarized_mean_at Float64 [Finite two_512] (mean_fp (example_posterior_fp Float64 1 1)) 0
       = Finite two_512
   \<and> scalarized_variance_at Float64 [Finite two_512]
         (covariance_matrix_fp (example_posterior_fp Float64 1 1)) 0 = PInf
   \<and> fst (ScalarizedUpperConfidenceBound_forward_fp
            (example_SUCB_fp Float64 1 1 Float64 0 two_512 True) (example_X_fp Float64))
       = Inr \<lparr>dtype = Float64, numbers = \<lparr>shape = [1], data = [NaN]\<rparr>\<rparr>
   \<and> fst (ScalarizedUpperConfidenceBound_forward_fp
            (example_SUCB_fp Float64 1 1 Float64 0 two_512 False) (example_X_fp Float64))
       = Inr \<lparr>dtype = Float64, numbers = \<lparr>shape = [1], data = [NaN]\<rparr>\<rparr>"
proof -
  have "data (numbers (beta_fp (example_SUCB_fp Float64 1 1 Float64 0 two_512 True))) = [Finite 0]"
    by (simp add: example_SUCB_fp_def)
  moreover have "scalarized_mean_at Float64 [Finite two_512]
                   (mean_fp (example_posterior_fp Float64 1 1)) 0 = Finite two_512"
    by (simp add: example_mean_fp round_two_512)
  moreover have "scalarized_variance_at Float64 [Finite two_512]
         (covariance_matrix_fp (example_posterior_fp Float64 1 1)) 0 = PInf"
    by (simp add: example_variance_fp round_two_512 round_two_512_squared)
  moreover have "fst (ScalarizedUpperConfidenceBound_forward_fp
            (example_SUCB_fp Float64 1 1 Float64 0 two_512 mx) (example_X_fp Float64))
       = Inr \<lparr>dtype = Float64, numbers = \<lparr>shape = [1], data = [NaN]\<rparr>\<rparr>" for mx
    by (simp add: example_forward_fp round_two_512 round_two_512_squared score_fp_def fl_sub_def)
  ultimately show ?thesis
    using example_setting_fp [of Float64 1 1 Float64 0 two_512 True] by blast
qed

theorem score_at_beta_zero_is_computed_mean_witness:
  "analytic_setting_fp (example_SUCB_fp Float64 1 4 Float64 0 1 True) (example_X_fp Float64)
     Float64 1 1 1 (example_posterior_fp Float64 1 4)
   \<and> data (numbers (beta_fp (example_SUCB_fp Float64 1 4 Float64 0 1 True))) = [Finite 0]
   \<and> scalarized_variance_at Float64 (entries (weights_fp (example_SUCB_fp Float64 1 4 Float64 0 1 True)))
         (covariance_matrix_fp (example_posterior_fp Float64 1 4)) 0 = Finite 4
   \<and> fst (ScalarizedUpperConfidenceBound_forward_fp
            (example_SUCB_fp Float64 1 4 Float64 0 1 True) (example_X_fp Float64))
       = Inr \<lparr>dtype = Float64, numbers = \<lparr>shape = [1], data = [Finite 1]\<rparr>\<rparr>"
proof -
  have w: "entries (weights_fp (example_SUCB_fp Float64 1 4 Float64 0 1 True)) = [Finite 1]"
    and b: "data (numbers (beta_fp (example_SUCB_fp Float64 1 4 Float64 0 1 True))) = [Finite 0]"
    by (simp_all add: example_SUCB_fp_def)
  have v: "scalarized_variance_at Float64 [Finite 1]
             (covariance_matrix_fp (example_posterior_fp Float64 1 4)) 0 = Finite 4"
    by (simp add: example_variance_fp round_fl_small)
  have m: "scalarized_mean_at Float64 [Finite 1] (mean_fp (example_posterior_fp Float64 1 4)) 0
           = Finite 1"
    by (simp add: example_mean_fp round_fl_small)
  have h1: "\<forall>x\<in>set (data (numbers (beta_fp (example_SUCB_fp Float64 1 4 Float64 0 1 True)))).
              x = Finite 0"
    by (simp add: b)
  from score_at_beta_zero_is_computed_mean [OF example_setting_fp h1]
  have "fst (ScalarizedUpperConfidenceBound_forward_fp
            (example_SUCB_fp Float64 1 4 Float64 0 1 True) (example_X_fp Float64))
       = Inr \<lparr>dtype = Float64, numbers = \<lparr>shape = [1], data = [Finite 1]\<rparr>\<rparr>"
    by (simp add: w m v)
  with example_setting_fp [of Float64 1 4 Float64 0 1 True] b v show ?thesis
    unfolding w by blast
qed

text \<open>
  A \<open>beta\<close> that holds the double nearest to 0.1 holds the float32 number nearest to 0.1
  after a call with an \<open>X\<close> of dtype float32.
\<close>

theorem forward_changes_stored_beta_counterexample:
  "beta_fp (example_SUCB_fp Float32 1 1 Float64 double_0_1 1 True)
     = \<lparr>dtype = Float64, numbers = \<lparr>shape = [], data = [Finite double_0_1]\<rparr>\<rparr>
   \<and> beta_fp (snd (ScalarizedUpperConfidenceBound_forward_fp
                     (example_SUCB_fp Float32 1 1 Float64 double_0_1 1 True) (example_X_fp Float32)))
     = \<lparr>dtype = Float32, numbers = \<lparr>shape = [], data = [Finite float_0_1]\<rparr>\<rparr>
   \<and> float_0_1 \<noteq> double_0_1
   \<and> fst (ScalarizedUpperConfidenceBound_forward_fp
            (example_SUCB_fp Float32 1 1 Float64 double_0_1 1 True) (example_X_fp Float32))
     \<noteq> Inl BatchModeError"
proof -
  have "beta_fp (snd (ScalarizedUpperConfidenceBound_forward_fp
                     (example_SUCB_fp Float32 1 1 Float64 double_0_1 1 True) (example_X_fp Float32)))
     = \<lparr>dtype = Float32, numbers = \<lparr>shape = [], data = [Finite float_0_1]\<rparr>\<rparr>"
    by (simp add: forward_fp_state to_fp_def map_tensor_def example_SUCB_fp_def example_X_fp_def
        cast_double_0_1)
  moreover have "float_0_1 \<noteq> double_0_1" by (simp add: float_0_1_def double_0_1_def)
  moreover have "beta_fp (example_SUCB_fp Float32 1 1 Float64 double_0_1 1 True)
     = \<lparr>dtype = Float64, numbers = \<lparr>shape = [], data = [Finite double_0_1]\<rparr>\<rparr>"
    by (simp add: example_SUCB_fp_def)
  ultimately show ?thesis by (simp add: example_forward_fp)
qed

theorem forward_stores_converted_beta_witness:
  "beta_fp (snd (ScalarizedUpperConfidenceBound_forward_fp
                   (example_SUCB_fp Float64 1 4 Float64 1 1 True) (example_X_fp Float64)))
     = beta_fp (example_SUCB_fp Float64 1 4 Float64 1 1 True)
   \<and> weights_fp (snd (ScalarizedUpperConfidenceBound_forward_fp
                   (example_SUCB_fp Float64 1 4 Float64 1 1 True) (example_X_fp Float64)))
     = weights_fp (example_SUCB_fp Float64 1 4 Float64 1 1 True)
   \<and> weights (snd (qScalarizedUpperConfidenceBound_forward example_qSUCB example_X_q2))
     = [1 / 2, 1 / 2]
   \<and> beta (snd (qScalarizedUpperConfidenceBound_forward example_qSUCB example_X_q2))
     = \<lparr>shape = [], data = [2 / pi]\<rparr>"
  using forward_stores_converted_beta [of example_qSUCB example_X_q2
      "example_SUCB_fp Float64 1 4 Float64 1 1 True" "example_X_fp Float64"]
  by (simp add: example_SUCB_fp_def example_X_fp_def example_qSUCB_def
      qScalarizedUpperConfidenceBound_init_def)

lemma example_psd_setting:
  "analytic_setting_fp (example_SUCB_psd mx) (example_X_fp Float64) Float64 1 1 2
     example_posterior_psd"
  by (simp add: analytic_setting_fp_def example_SUCB_psd_def example_X_fp_def
      example_posterior_psd_def add_t_batch_dim_fp_def add_t_batch_dim_def unsqueeze0_def
      well_formed_def)

lemma example_psd_is_psd: "positive_semidefinite 2 example_covariance_psd"
proof -
  have "0 \<le> quadratic_form v example_covariance_psd" if "length v = 2" for v
  proof -
    from that obtain x y where v: "v = [x, y]"
      by (cases v; cases "tl v") (auto simp: length_Suc_conv)
    have "0 \<le> (3 * x - y)\<^sup>2" by simp
    also have "(3 * x - y)\<^sup>2 = x * 9 * x + x * (- 3) * y + (y * (- 3) * x + y * 1 * y)"
      by (simp add: power2_eq_square algebra_simps)
    finally show ?thesis
      by (simp add: v quadratic_form_def example_covariance_psd_def example_posterior_psd_def upt_2)
  qed
  then show ?thesis by (simp add: positive_semidefinite_def)
qed

lemma example_psd_variance:
  "scalarized_variance_at Float64 [Finite double_0_1, Finite double_0_3]
     (covariance_matrix_fp example_posterior_psd) 0 = Finite (- 900719925474099 / 2 ^ 107)"
proof -
  have m00: "fl_mul Float64 (Finite 9) (Finite double_0_1) = Finite (8106479329266893 / 2 ^ 53)"
    unfolding fl_mul.simps
    by (rule round_fl_eval [where L = "- 1" and n = "8106479329266893" and e = "- 53"])
       (simp_all add: precision_def emin_def max_finite_def powr_neg_numeral double_0_1_def double_0_3_def)
  have a00: "fl_add Float64 (Finite 0) (Finite (8106479329266893 / 2 ^ 53)) = Finite (8106479329266893 / 2 ^ 53)"
    unfolding fl_add.simps
    by (rule round_fl_eval [where L = "- 1" and n = "8106479329266893" and e = "- 53"])
       (simp_all add: precision_def emin_def max_finite_def powr_neg_numeral double_0_1_def double_0_3_def)
  have m01: "fl_mul Float64 (Finite (- 3)) (Finite double_0_3) = Finite (- 2026619832316723 / 2 ^ 51)"
    unfolding fl_mul.simps
    by (rule round_fl_eval [where L = "- 1" and n = "- 8106479329266892" and e = "- 53"])
       (simp_all add: precision_def emin_def max_finite_def powr_neg_numeral double_0_1_def double_0_3_def)
  have a01: "fl_add Float64 (Finite (8106479329266893 / 2 ^ 53)) (Finite (- 2026619832316723 / 2 ^ 51)) = Finite (1 / 2 ^ 53)"
    unfolding fl_add.simps
    by (rule round_fl_eval [where L = "- 53" and n = "4503599627370496" and e = "- 105"])
       (simp_all add: precision_def emin_def max_finite_def powr_neg_numeral double_0_1_def double_0_3_def)
  have m10: "fl_mul Float64 (Finite (- 3)) (Finite double_0_1) = Finite (- 1351079888211149 / 2 ^ 52)"
    unfolding fl_mul.simps
    by (rule round_fl_eval [where L = "- 2" and n = "- 5404319552844596" and e = "- 54"])
       (simp_all add: precision_def emin_def max_finite_def powr_neg_numeral double_0_1_def double_0_3_def)
  have a10: "fl_add Float64 (Finite 0) (Finite (- 1351079888211149 / 2 ^ 52)) = Finite (- 1351079888211149 / 2 ^ 52)"
    unfolding fl_add.simps
    by (rule round_fl_eval [where L = "- 2" and n = "- 5404319552844596" and e = "- 54"])
       (simp_all add: precision_def emin_def max_finite_def powr_neg_numeral double_0_1_def double_0_3_def)
  have m11: "fl_mul Float64 (Finite 1) (Finite double_0_3) = Finite (5404319552844595 / 2 ^ 54)"
    unfolding fl_mul.simps
    by (rule round_fl_eval [where L = "- 2" and n = "5404319552844595" and e = "- 54"])
       (simp_all add: precision_def emin_def max_finite_def powr_neg_numeral double_0_1_def double_0_3_def)
  have a11: "fl_add Float64 (Finite (- 1351079888211149 / 2 ^ 52)) (Finite (5404319552844595 / 2 ^ 54)) = Finite (- 1 / 2 ^ 54)"
    unfolding fl_add.simps
    by (rule round_fl_eval [where L = "- 54" and n = "- 4503599627370496" and e = "- 106"])
       (simp_all add: precision_def emin_def max_finite_def powr_neg_numeral double_0_1_def double_0_3_def)
  have v0: "fl_mul Float64 (Finite double_0_1) (Finite (1 / 2 ^ 53)) = Finite (3602879701896397 / 2 ^ 108)"
    unfolding fl_mul.simps
    by (rule round_fl_eval [where L = "- 57" and n = "7205759403792794" and e = "- 109"])
       (simp_all add: precision_def emin_def max_finite_def powr_neg_numeral double_0_1_def double_0_3_def)
  have av0: "fl_add Float64 (Finite 0) (Finite (3602879701896397 / 2 ^ 108)) = Finite (3602879701896397 / 2 ^ 108)"
    unfolding fl_add.simps
    by (rule round_fl_eval [where L = "- 57" and n = "7205759403792794" and e = "- 109"])
       (simp_all add: precision_def emin_def max_finite_def powr_neg_numeral double_0_1_def double_0_3_def)
  have v1: "fl_mul Float64 (Finite double_0_3) (Finite (- 1 / 2 ^ 54)) = Finite (- 5404319552844595 / 2 ^ 108)"
    unfolding fl_mul.simps
    by (rule round_fl_eval [where L = "- 56" and n = "- 5404319552844595" and e = "- 108"])
       (simp_all add: precision_def emin_def max_finite_def powr_neg_numeral double_0_1_def double_0_3_def)
  have av1: "fl_add Float64 (Finite (3602879701896397 / 2 ^ 108)) (Finite (- 5404319552844595 / 2 ^ 108)) = Finite (- 900719925474099 / 2 ^ 107)"
    unfolding fl_add.simps
    by (rule round_fl_eval [where L = "- 58" and n = "- 7205759403792792" and e = "- 110"])
       (simp_all add: precision_def emin_def max_finite_def powr_neg_numeral double_0_1_def double_0_3_def)
  have "scalarized_variance_at Float64 [Finite double_0_1, Finite double_0_3]
          (covariance_matrix_fp example_posterior_psd) 0
        = fl_add Float64
            (fl_add Float64 (Finite 0)
               (fl_mul Float64 (Finite double_0_1)
                  (fl_add Float64 (fl_add Float64 (Finite 0) (fl_mul Float64 (Finite 9) (Finite double_0_1)))
                     (fl_mul Float64 (Finite (- 3)) (Finite double_0_3)))))
            (fl_mul Float64 (Finite double_0_3)
               (fl_add Float64 (fl_add Float64 (Finite 0) (fl_mul Float64 (Finite (- 3)) (Finite double_0_1)))
                  (fl_mul Float64 (Finite 1) (Finite double_0_3))))"
    by (simp add: scalarized_variance_at_def cov_row_fp_def example_posterior_psd_def dot_fp_2 upt_2
        del: fl_mul.simps fl_add.simps)
  also have "\<dots> = Finite (- 900719925474099 / 2 ^ 107)"
    by (simp only: m00 a00 m01 a01 m10 a10 m11 a11 v0 av0 v1 av1)
  finally show ?thesis .
qed

lemma example_psd_radicand:
  "fl_mul Float64 (Finite 1) (Finite (- 900719925474099 / 2 ^ 107))
   = Finite (- 900719925474099 / 2 ^ 107)"
  unfolding fl_mul.simps
  by (rule round_fl_eval [where L = "- 58" and n = "- 7205759403792792" and e = "- 110"])
     (simp_all add: precision_def emin_def max_finite_def powr_neg_numeral double_0_1_def double_0_3_def)

lemma example_psd_mean:
  "scalarized_mean_at Float64 [Finite double_0_1, Finite double_0_3]
     (mean_fp example_posterior_psd) 0 = Finite 0"
  by (simp add: scalarized_mean_at_def outputs_at_fp_def example_posterior_psd_def dot_fp_2)

lemma example_psd_forward:
  "fst (ScalarizedUpperConfidenceBound_forward_fp (example_SUCB_psd mx) (example_X_fp Float64))
   = Inr \<lparr>dtype = Float64, numbers = \<lparr>shape = [1], data = [NaN]\<rparr>\<rparr>"
proof -
  have w: "entries (weights_fp (example_SUCB_psd mx)) = [Finite double_0_1, Finite double_0_3]"
    and mx: "maximize_fp (example_SUCB_psd mx) = mx"
    and bt: "to_fp (beta_fp (example_SUCB_psd mx)) (example_X_fp Float64)
             = \<lparr>dtype = Float64, numbers = \<lparr>shape = [], data = [Finite 1]\<rparr>\<rparr>"
    by (simp_all add: example_SUCB_psd_def to_fp_def example_X_fp_def)
  have b: "beta_at_fp \<lparr>dtype = Float64, numbers = \<lparr>shape = [], data = [Finite 1]\<rparr>\<rparr> 0 = Finite 1"
    by (simp add: beta_at_fp_def)
  have dl: "delta_at Float64 \<lparr>dtype = Float64, numbers = \<lparr>shape = [], data = [Finite 1]\<rparr>\<rparr>
          [Finite double_0_1, Finite double_0_3] (covariance_matrix_fp example_posterior_psd) 0
        = NaN"
    unfolding delta_at_def radicand_at_def b example_psd_variance example_psd_radicand
    by simp
  show ?thesis
    unfolding analytic_forward_fp_value [OF example_psd_setting] w mx bt
    by (simp add: example_psd_mean dl score_fp_def fl_sub_def)
qed



lemma round_two_m106: "round_fl Float64 two_m106 = Finite two_m106"
  by (rule round_fl_eval [where L = "- 106" and n = "2 ^ 52" and e = "- 158"])
     (simp_all add: precision_def emin_def max_finite_def powr_neg_numeral two_m106_def)

lemma round_two_m53: "round_fl Float64 two_m53 = Finite two_m53"
  by (rule round_fl_eval [where L = "- 53" and n = "2 ^ 52" and e = "- 105"])
     (simp_all add: precision_def emin_def max_finite_def powr_neg_numeral two_m53_def)

lemma round_one_plus_two_m53: "round_fl Float64 (1 + two_m53) = Finite 1"
  by (rule round_fl_eval [where L = 0 and n = "2 ^ 52" and e = "- 52"])
     (simp_all add: precision_def emin_def max_finite_def powr_neg_numeral two_m53_def)

lemma round_one_minus_two_m53: "round_fl Float64 (1 - two_m53) = Finite (1 - two_m53)"
  by (rule round_fl_eval [where L = "- 1" and n = "2 ^ 53 - 1" and e = "- 53"])
     (simp_all add: precision_def emin_def max_finite_def powr_neg_numeral two_m53_def)

lemma two_m106_nonneg: "\<not> two_m106 < 0"
  by (simp add: two_m106_def)

lemma sqrt_two_m106: "sqrt two_m106 = two_m53"
  by (rule real_sqrt_unique) (simp_all add: two_m106_def two_m53_def power2_eq_square)

text \<open>
  In the same example the product of \<open>beta\<close> and the exact quadratic form is non-negative,
  and both scores are NaN. With the weight \<open>2 ^ 512\<close> and the mean \<open>2 ^ 512\<close> the computed
  product is \<open>+inf\<close>, hence non-negative, and so are \<open>delta\<close> and the scalarized mean; the
  score with \<open>maximize = False\<close> is \<open>inf - inf\<close>, which is NaN. With the mean 1 and
  \<open>delta = 2\<^sup>-\<^sup>5\<^sup>3\<close> the two scores are 1 and \<open>1 - 2\<^sup>-\<^sup>5\<^sup>3\<close>: they do not lie at the same
  distance from the scalarized mean.
\<close>

theorem maximize_bracket_counterexample:
  "0 \<le> 1 * quadratic_form [double_0_1, double_0_3] example_covariance_psd
   \<and> fst (ScalarizedUpperConfidenceBound_forward_fp (example_SUCB_psd True) (example_X_fp Float64))
     = Inr \<lparr>dtype = Float64, numbers = \<lparr>shape = [1], data = [NaN]\<rparr>\<rparr>
   \<and> fst (ScalarizedUpperConfidenceBound_forward_fp (example_SUCB_psd False) (example_X_fp Float64))
     = Inr \<lparr>dtype = Float64, numbers = \<lparr>shape = [1], data = [NaN]\<rparr>\<rparr>
   \<and> scalarized_mean_at Float64 (entries (weights_fp (example_SUCB_psd True)))
       (mean_fp example_posterior_psd) 0 = Finite 0
   \<and> \<not> fl_le (Finite 0) NaN \<and> \<not> fl_le NaN (Finite 0)
   \<and> radicand_at Float64
       (to_fp (beta_fp (example_SUCB_fp Float64 two_512 1 Float64 1 two_512 False))
          (example_X_fp Float64))
       [Finite two_512] (covariance_matrix_fp (example_posterior_fp Float64 two_512 1)) 0 = PInf
   \<and> fl_le (Finite 0) PInf
   \<and> scalarized_mean_at Float64 [Finite two_512]
       (mean_fp (example_posterior_fp Float64 two_512 1)) 0 = PInf
   \<and> fst (ScalarizedUpperConfidenceBound_forward_fp
            (example_SUCB_fp Float64 two_512 1 Float64 1 two_512 False) (example_X_fp Float64))
     = Inr \<lparr>dtype = Float64, numbers = \<lparr>shape = [1], data = [NaN]\<rparr>\<rparr>
   \<and> \<not> fl_le NaN PInf
   \<and> scalarized_mean_at Float64 [Finite 1] (mean_fp (example_posterior_fp Float64 1 two_m106)) 0
     = Finite 1
   \<and> fst (ScalarizedUpperConfidenceBound_forward_fp
            (example_SUCB_fp Float64 1 two_m106 Float64 1 1 True) (example_X_fp Float64))
     = Inr \<lparr>dtype = Float64, numbers = \<lparr>shape = [1], data = [Finite 1]\<rparr>\<rparr>
   \<and> fst (ScalarizedUpperConfidenceBound_forward_fp
            (example_SUCB_fp Float64 1 two_m106 Float64 1 1 False) (example_X_fp Float64))
     = Inr \<lparr>dtype = Float64, numbers = \<lparr>shape = [1], data = [Finite (1 - two_m53)]\<rparr>\<rparr>
   \<and> 1 - 1 \<noteq> 1 - (1 - two_m53)"
proof -
  have w: "entries (weights_fp (example_SUCB_psd True)) = [Finite double_0_1, Finite double_0_3]"
    by (simp add: example_SUCB_psd_def)
  have "0 \<le> quadratic_form [double_0_1, double_0_3] example_covariance_psd"
    using example_psd_is_psd by (simp add: positive_semidefinite_def)
  then have q: "0 \<le> 1 * quadratic_form [double_0_1, double_0_3] example_covariance_psd"
    by simp
  have r: "radicand_at Float64
       (to_fp (beta_fp (example_SUCB_fp Float64 two_512 1 Float64 1 two_512 False))
          (example_X_fp Float64))
       [Finite two_512] (covariance_matrix_fp (example_posterior_fp Float64 two_512 1)) 0 = PInf"
    by (simp add: radicand_at_def example_beta_fp example_variance_fp round_two_512
        round_two_512_squared)
  have m: "scalarized_mean_at Float64 [Finite two_512]
       (mean_fp (example_posterior_fp Float64 two_512 1)) 0 = PInf"
    by (simp add: example_mean_fp round_two_512_squared)
  have f: "fst (ScalarizedUpperConfidenceBound_forward_fp
            (example_SUCB_fp Float64 two_512 1 Float64 1 two_512 False) (example_X_fp Float64))
     = Inr \<lparr>dtype = Float64, numbers = \<lparr>shape = [1], data = [NaN]\<rparr>\<rparr>"
    by (simp add: example_forward_fp round_two_512 round_two_512_squared score_fp_def fl_sub_def)
  have m1: "scalarized_mean_at Float64 [Finite 1]
              (mean_fp (example_posterior_fp Float64 1 two_m106)) 0 = Finite 1"
    by (simp add: example_mean_fp round_fl_small)
  have up: "fst (ScalarizedUpperConfidenceBound_forward_fp
            (example_SUCB_fp Float64 1 two_m106 Float64 1 1 True) (example_X_fp Float64))
     = Inr \<lparr>dtype = Float64, numbers = \<lparr>shape = [1], data = [Finite 1]\<rparr>\<rparr>"
    by (simp add: example_forward_fp round_fl_small round_two_m106 round_two_m53 sqrt_two_m106
        two_m106_nonneg
        round_one_plus_two_m53 score_fp_def)
  have lo: "fst (ScalarizedUpperConfidenceBound_forward_fp
            (example_SUCB_fp Float64 1 two_m106 Float64 1 1 False) (example_X_fp Float64))
     = Inr \<lparr>dtype = Float64, numbers = \<lparr>shape = [1], data = [Finite (1 - two_m53)]\<rparr>\<rparr>"
    by (simp add: example_forward_fp round_fl_small round_two_m106 round_two_m53 sqrt_two_m106
        two_m106_nonneg
        round_one_minus_two_m53 score_fp_def fl_sub_def)
  have ne: "(1::real) - 1 \<noteq> 1 - (1 - two_m53)" by (simp add: two_m53_def)
  from q example_psd_forward [of True] example_psd_forward [of False] example_psd_mean r m f
    m1 up lo ne
  show ?thesis unfolding w by simp
qed

theorem maximize_brackets_computed_mean_witness:
  "analytic_setting_fp (example_SUCB_fp Float64 1 4 Float64 1 1 True) (example_X_fp Float64)
       Float64 1 1 1 (example_posterior_fp Float64 1 4)
   \<and> scalarized_mean_at Float64 (entries (weights_fp (example_SUCB_fp Float64 1 4 Float64 1 1 True)))
       (mean_fp (example_posterior_fp Float64 1 4)) 0 = Finite 1
   \<and> radicand_at Float64 (to_fp (beta_fp (example_SUCB_fp Float64 1 4 Float64 1 1 True))
                            (example_X_fp Float64))
       (entries (weights_fp (example_SUCB_fp Float64 1 4 Float64 1 1 True)))
       (covariance_matrix_fp (example_posterior_fp Float64 1 4)) 0 = Finite 4
   \<and> fst (ScalarizedUpperConfidenceBound_forward_fp
            (example_SUCB_fp Float64 1 4 Float64 1 1 True\<lparr>maximize_fp := True\<rparr>)
            (example_X_fp Float64))
     = Inr \<lparr>dtype = Float64, numbers = \<lparr>shape = [1], data = [Finite 3]\<rparr>\<rparr>
   \<and> fst (ScalarizedUpperConfidenceBound_forward_fp
            (example_SUCB_fp Float64 1 4 Float64 1 1 True\<lparr>maximize_fp := False\<rparr>)
            (example_X_fp Float64))
     = Inr \<lparr>dtype = Float64, numbers = \<lparr>shape = [1], data = [Finite (- 1)]\<rparr>\<rparr>
   \<and> fl_le (Finite (- 1)) (Finite 1) \<and> fl_le (Finite 1) (Finite 3)"
proof -
  have w: "entries (weights_fp (example_SUCB_fp Float64 1 4 Float64 1 1 True)) = [Finite 1]"
    by (simp add: example_SUCB_fp_def)
  have b: "beta_at_fp (to_fp (beta_fp (example_SUCB_fp Float64 1 4 Float64 1 1 True))
                   (example_X_fp Float64)) 0 = Finite 1"
    by (simp add: example_beta_fp)
  have v: "scalarized_variance_at Float64 [Finite 1]
             (covariance_matrix_fp (example_posterior_fp Float64 1 4)) 0 = Finite 4"
    by (simp add: example_variance_fp round_fl_small)
  have m: "scalarized_mean_at Float64 [Finite 1] (mean_fp (example_posterior_fp Float64 1 4)) 0
           = Finite 1"
    by (simp add: example_mean_fp round_fl_small)
  have r: "radicand_at Float64 (to_fp (beta_fp (example_SUCB_fp Float64 1 4 Float64 1 1 True))
                            (example_X_fp Float64))
       [Finite 1] (covariance_matrix_fp (example_posterior_fp Float64 1 4)) 0 = Finite 4"
    by (simp add: radicand_at_def b v round_fl_small)
  have dl: "delta_at Float64 (to_fp (beta_fp (example_SUCB_fp Float64 1 4 Float64 1 1 True))
                            (example_X_fp Float64))
       [Finite 1] (covariance_matrix_fp (example_posterior_fp Float64 1 4)) 0 = Finite 2"
    by (simp add: delta_at_def r round_fl_small)
  have h1: "\<forall>i<1. scalarized_mean_at Float64
                   (entries (weights_fp (example_SUCB_fp Float64 1 4 Float64 1 1 True)))
                   (mean_fp (example_posterior_fp Float64 1 4)) i \<noteq> NaN
                 \<and> (is_finite (scalarized_mean_at Float64
                       (entries (weights_fp (example_SUCB_fp Float64 1 4 Float64 1 1 True)))
                       (mean_fp (example_posterior_fp Float64 1 4)) i)
                    \<or> is_finite (delta_at Float64
                       (to_fp (beta_fp (example_SUCB_fp Float64 1 4 Float64 1 1 True))
                          (example_X_fp Float64))
                       (entries (weights_fp (example_SUCB_fp Float64 1 4 Float64 1 1 True)))
                       (covariance_matrix_fp (example_posterior_fp Float64 1 4)) i))"
    by (simp add: w m)
  have h2: "\<forall>i<1. fl_le (Finite 0)
                 (radicand_at Float64 (to_fp (beta_fp (example_SUCB_fp Float64 1 4 Float64 1 1 True))
                                         (example_X_fp Float64))
                    (entries (weights_fp (example_SUCB_fp Float64 1 4 Float64 1 1 True)))
                    (covariance_matrix_fp (example_posterior_fp Float64 1 4)) i)"
    by (simp add: w r)
  from maximize_brackets_computed_mean [OF example_setting_fp h1 h2]
  have "fst (ScalarizedUpperConfidenceBound_forward_fp
            (example_SUCB_fp Float64 1 4 Float64 1 1 True\<lparr>maximize_fp := True\<rparr>)
            (example_X_fp Float64))
     = Inr \<lparr>dtype = Float64, numbers = \<lparr>shape = [1], data = [Finite 3]\<rparr>\<rparr>
   \<and> fst (ScalarizedUpperConfidenceBound_forward_fp
            (example_SUCB_fp Float64 1 4 Float64 1 1 True\<lparr>maximize_fp := False\<rparr>)
            (example_X_fp Float64))
     = Inr \<lparr>dtype = Float64, numbers = \<lparr>shape = [1], data = [Finite (- 1)]\<rparr>\<rparr>"
    by (simp add: w m dl fl_sub_def round_fl_small)
  moreover have "fl_le (Finite (- 1)) (Finite 1)" "fl_le (Finite 1) (Finite 3)" by simp_all
  ultimately show ?thesis
    using example_setting_fp [of Float64 1 4 Float64 1 1 True] m r unfolding w by blast
qed

end
